theory Spec2Isabelle
  imports Complex_Main
begin

section \<open>Errors, command-line flags and configuration presets\<close>

text \<open>
  The program is \<^verbatim>\<open>rnn_gan.py\<close>: a recurrent GAN built on a tensor library and
  driven by an epoch loop. Exceptions of the source are values of type \<open>error\<close>;
  a function that can raise returns \<open>error + 'a\<close> (\<open>Inl\<close> is the exception).
  Python floats are modelled as real numbers, Python integers as \<open>int\<close> or, for
  sizes and counters that only count up from zero, as \<open>nat\<close>.
\<close>

datatype error =
    ValueError string
  | AttributeError string
  | TypeError string
  | NameError string
  | ZeroDivisionError

record flags =
  model :: string
  datadir :: "string option"
  traindir :: "string option"
  epochs_per_checkpoint :: int
  call_after :: "string option"
  exit_after :: int
  select_validation_percentage :: "int option"
  select_test_percentage :: "int option"

text \<open>
  The four configuration classes. \<open>TestConfig\<close> declares no \<open>d_lr_factor\<close>, so the
  attribute is optional in the record.
\<close>

record config =
  init_scale :: real
  learning_rate :: real
  d_lr_factor :: "real option"
  max_grad_norm :: real
  num_layers :: nat
  songlength :: nat
  hidden_size :: nat
  max_epoch :: int
  max_max_epoch :: int
  keep_prob :: real
  lr_decay :: real
  batch_size :: nat
  vocab_size :: nat

definition SmallConfig :: config where
  "SmallConfig = \<lparr>init_scale = 1/10, learning_rate = 1, d_lr_factor = Some (1/2),
     max_grad_norm = 5, num_layers = 2, songlength = 200, hidden_size = 200,
     max_epoch = 4, max_max_epoch = 13, keep_prob = 1, lr_decay = 9/10,
     batch_size = 10, vocab_size = 10000\<rparr>"

definition MediumConfig :: config where
  "MediumConfig = \<lparr>init_scale = 5/100, learning_rate = 1, d_lr_factor = Some (1/2),
     max_grad_norm = 5, num_layers = 2, songlength = 350, hidden_size = 650,
     max_epoch = 6, max_max_epoch = 39, keep_prob = 1/2, lr_decay = 9/10,
     batch_size = 20, vocab_size = 10000\<rparr>"

definition LargeConfig :: config where
  "LargeConfig = \<lparr>init_scale = 4/100, learning_rate = 1, d_lr_factor = Some (1/2),
     max_grad_norm = 10, num_layers = 2, songlength = 500, hidden_size = 1500,
     max_epoch = 14, max_max_epoch = 55, keep_prob = 35/100, lr_decay = 9/10,
     batch_size = 20, vocab_size = 10000\<rparr>"

definition TestConfig :: config where
  "TestConfig = \<lparr>init_scale = 1/10, learning_rate = 1, d_lr_factor = None,
     max_grad_norm = 1, num_layers = 1, songlength = 2, hidden_size = 2,
     max_epoch = 1, max_max_epoch = 1, keep_prob = 1, lr_decay = 1/2,
     batch_size = 20, vocab_size = 10000\<rparr>"

definition get_config :: "flags \<Rightarrow> error + config" where
  "get_config fl =
     (if model fl = ''small'' then Inr SmallConfig
      else if model fl = ''medium'' then Inr MediumConfig
      else if model fl = ''large'' then Inr LargeConfig
      else if model fl = ''test'' then Inr TestConfig
      else Inl (ValueError ''Invalid model: %s''))"

text \<open>Python's \<^verbatim>\<open>not s\<close> for an optional string flag: true for \<^verbatim>\<open>None\<close> and for the empty string.\<close>

definition py_not :: "string option \<Rightarrow> bool" where
  "py_not s = (case s of None \<Rightarrow> True | Some v \<Rightarrow> v = [])"

text \<open>
  \<^verbatim>\<open>x ** y\<close> on Python floats. The exponent of the learning-rate schedule is
  \<^verbatim>\<open>max(i - max_epoch, 0.0)\<close>; the branches that raise are kept.
\<close>

definition py_pow :: "real \<Rightarrow> real \<Rightarrow> error + real" where
  "py_pow x y =
     (if y = 0 then Inr 1
      else if x = 0 then (if y < 0 then Inl ZeroDivisionError else Inr 0)
      else if 0 < x then Inr (x powr y)
      else if y = of_int \<lfloor>y\<rfloor> then Inr (x powi \<lfloor>y\<rfloor>)
      else Inl (ValueError ''negative number cannot be raised to a fractional power''))"

text \<open>\<^verbatim>\<open>"%.3f" % v\<close> (and the other float conversions): a \<^verbatim>\<open>TypeError\<close> when \<open>v\<close> is \<^verbatim>\<open>None\<close>.\<close>

definition format_float :: "real option \<Rightarrow> error + real" where
  "format_float v = (case v of None \<Rightarrow> Inl (TypeError ''float argument required, not NoneType'') | Some x \<Rightarrow> Inr x)"

definition format_floats :: "real option \<Rightarrow> real option \<Rightarrow> error + (real \<times> real)" where
  "format_floats a b =
     (case format_float a of Inl e \<Rightarrow> Inl e
      | Inr x \<Rightarrow> (case format_float b of Inl e \<Rightarrow> Inl e | Inr y \<Rightarrow> Inr (x, y)))"

definition os_path_join :: "string \<Rightarrow> string \<Rightarrow> string" where
  "os_path_join a b =
     (if a = [] then b else if last a = CHR ''/'' then a @ b else a @ ''/'' @ b)"

section \<open>The process state and the external collaborators\<close>

datatype part = Train | Validation | Test

type_synonym batch = "real list list list"

text \<open>
  What a run leaves behind, in order: the lines it prints and the files it writes.
\<close>

datatype event =
    NumFeaturesLine nat
  | RestoredLine
  | FreshLine
  | LearningRateLine int real
  | BatchLine nat real real real real real
  | TrainLossLine int real real
  | ValidLossLine int real real
  | SaveCheckpoint int
  | MetricsLine int real real real real real
  | Gnuplot
  | TestLossLine real real

text \<open>
  A checkpoint holds every variable of the session (\<^verbatim>\<open>tf.train.Saver(tf.all_variables())\<close>):
  the network weights, the learning rate and the global step.
\<close>

record 'w snapshot =
  snap_weights :: 'w
  snap_lr :: real
  snap_global_step :: int

record 'w traindir_files =
  directories :: "string list"
  checkpoint_file :: "'w snapshot option"
  metrics_file :: "(int \<times> real \<times> real \<times> real \<times> real \<times> real) list option"
  commands_file :: bool

record 'w world =
  weights :: 'w
  lr_var :: real
  global_step_var :: int
  remaining :: "part \<Rightarrow> batch list"
  ticks :: nat
  trace :: "event list"
  files :: "'w traindir_files"

text \<open>
  The collaborators outside the repository's source are parameters: \<open>songs env p\<close> is
  the finite sequence of batches one pass over split \<open>p\<close> yields; \<open>losses\<close> is the
  tensor library evaluating the generator and the discriminator loss of one batch
  (it returns the weights with the noise source advanced), \<open>descend\<close> one clipped
  gradient-descent update of the variables under a name prefix; the \<open>n\<close>-th call of
  \<^verbatim>\<open>time.time()\<close> returns \<open>clock env n\<close>. File-system calls, the session and the
  plot command are taken to succeed.
\<close>

record 'w env =
  songs :: "part \<Rightarrow> batch list"
  numfeatures :: nat
  clock :: "nat \<Rightarrow> real"
  initial_weights :: 'w
  losses :: "'w \<Rightarrow> batch \<Rightarrow> (real \<times> real) \<times> 'w"
  descend :: "string \<Rightarrow> real \<Rightarrow> 'w \<Rightarrow> batch \<Rightarrow> 'w"

definition emit :: "event \<Rightarrow> 'w world \<Rightarrow> 'w world" where
  "emit e w = w\<lparr>trace := trace w @ [e]\<rparr>"

definition time_time :: "'w env \<Rightarrow> 'w world \<Rightarrow> real \<times> 'w world" where
  "time_time env w = (clock env (ticks w), w\<lparr>ticks := Suc (ticks w)\<rparr>)"

text \<open>
  Modelled from the spec: the data loader (\<^verbatim>\<open>music_data_utils.MusicDataLoader\<close> is not
  among the sources). The spec gives it \<^verbatim>\<open>rewind(split_name)\<close>, which restarts the
  iteration over a split, and \<^verbatim>\<open>next_batch(batch_size, sequence_length, split_name)\<close>,
  which returns a batch or the end-of-split marker. \<open>remaining w p\<close> holds the batches
  of split \<open>p\<close> not yet handed out.
\<close>

definition rewind :: "'w env \<Rightarrow> part \<Rightarrow> 'w world \<Rightarrow> 'w world" where
  "rewind env p w = w\<lparr>remaining := (remaining w)(p := songs env p)\<rparr>"

definition get_batch :: "part \<Rightarrow> 'w world \<Rightarrow> batch option \<times> 'w world" where
  "get_batch p w =
     (case remaining w p of
        [] \<Rightarrow> (None, w)
      | b # bs \<Rightarrow> (Some b, w\<lparr>remaining := (remaining w)(p := bs)\<rparr>))"

section \<open>The graph operations the controller runs\<close>

text \<open>
  \<^verbatim>\<open>optimizer.apply_gradients(grads_and_vars, global_step=None)\<close> updates the variables
  it is given and increments \<open>global_step\<close> when one is passed. An operation records
  the name prefix of the variables it updates, the factor on the learning rate, and
  whether a global step was passed.
\<close>

datatype op = ApplyGradients string real bool | NoOp

text \<open>
  What \<^verbatim>\<open>RNNGAN.__init__\<close> leaves on the object that the controller reads: the batch
  shape, and for a training model the two optimizer operations (lines 150 to 157; an
  evaluation model returns before they are created). A training model reads
  \<^verbatim>\<open>config.d_lr_factor\<close>, which \<open>TestConfig\<close> does not have.
\<close>

record rnngan =
  m_batch_size :: nat
  m_songlength :: nat
  m_opt :: "(op \<times> op) option"

definition RNNGAN :: "bool \<Rightarrow> config \<Rightarrow> error + rnngan" where
  "RNNGAN is_training cfg =
     (if \<not> is_training then
        Inr \<lparr>m_batch_size = batch_size cfg, m_songlength = songlength cfg, m_opt = None\<rparr>
      else (case d_lr_factor cfg of
              None \<Rightarrow> Inl (AttributeError ''d_lr_factor'')
            | Some f \<Rightarrow>
                Inr \<lparr>m_batch_size = batch_size cfg, m_songlength = songlength cfg,
                     m_opt = Some (ApplyGradients ''model/D/'' f False,
                                   ApplyGradients ''model/G/'' 1 False)\<rparr>))"

definition assign_lr :: "real \<Rightarrow> 'w world \<Rightarrow> 'w world" where
  "assign_lr lr_value w = w\<lparr>lr_var := lr_value\<rparr>"

fun run_op :: "'w env \<Rightarrow> batch \<Rightarrow> op \<Rightarrow> 'w world \<Rightarrow> 'w world" where
  "run_op env b NoOp w = w"
| "run_op env b (ApplyGradients prefix factor with_step) w =
     w\<lparr>weights := descend env prefix (lr_var w * factor) (weights w) b,
       global_step_var := (if with_step then global_step_var w + 1 else global_step_var w)\<rparr>"

text \<open>\<^verbatim>\<open>session.run([model.g_loss, model.d_loss, eval_op1, eval_op2], feed_dict)\<close>.\<close>

definition session_run :: "'w env \<Rightarrow> op \<Rightarrow> op \<Rightarrow> batch \<Rightarrow> 'w world \<Rightarrow> (real \<times> real) \<times> 'w world" where
  "session_run env eval_op1 eval_op2 b w =
     (case losses env (weights w) b of
        (gd, ws) \<Rightarrow> (gd, run_op env b eval_op2 (run_op env b eval_op1 (w\<lparr>weights := ws\<rparr>))))"

section \<open>One pass over a split: \<^verbatim>\<open>run_epoch\<close>\<close>

text \<open>
  The \<^verbatim>\<open>while batch is not None\<close> loop of lines 287 to 305, with the accumulators
  \<open>(g_losses, d_losses, iters)\<close>. The progress line divides by the time elapsed since
  the start of the pass, a float division that raises when the two clock readings
  are equal.
\<close>

function batch_loop ::
  "'w env \<Rightarrow> rnngan \<Rightarrow> part \<Rightarrow> op \<Rightarrow> op \<Rightarrow> real \<Rightarrow> batch option \<Rightarrow> real \<times> real \<times> nat \<Rightarrow> 'w world
     \<Rightarrow> (error + real \<times> real \<times> nat) \<times> 'w world" where
  "batch_loop env mdl p eval_op1 eval_op2 start_time None acc w = (Inr acc, w)"
| "batch_loop env mdl p eval_op1 eval_op2 start_time (Some b) (g_losses, d_losses, iters) w =
     (case session_run env eval_op1 eval_op2 b w of
        ((g_loss, d_loss), w1) \<Rightarrow>
          (case time_time env w1 of
             (now, w2) \<Rightarrow>
               if now - start_time = 0 then (Inl ZeroDivisionError, w2)
               else
                 (case get_batch p
                         (emit (BatchLine (Suc iters) g_loss d_loss
                                  ((g_losses + g_loss) / real (Suc iters))
                                  ((d_losses + d_loss) / real (Suc iters))
                                  (real (Suc iters * m_batch_size mdl) / (now - start_time))) w2) of
                    (nb, w3) \<Rightarrow>
                      batch_loop env mdl p eval_op1 eval_op2 start_time nb
                        (g_losses + g_loss, d_losses + d_loss, Suc iters) w3)))"
  by pat_completeness auto

lemma remaining_run_op: "remaining (run_op env b x w) = remaining w"
  by (cases x) simp_all

lemma remaining_session_run:
  "session_run env x y b w = (r, w') \<Longrightarrow> remaining w' = remaining w"
  by (auto simp: session_run_def remaining_run_op split: prod.splits)

termination batch_loop
proof (relation "measure (\<lambda>(env, mdl, p, x, y, t, nb, acc, w).
          (case nb of None \<Rightarrow> 0 | Some _ \<Rightarrow> Suc (length (remaining w p))))", goal_cases)
  case 1
  show ?case by simp
next
  case (2 env mdl p x y t b g_losses d_losses iters w r w1 g_loss d_loss now w2 nb w3)
  have "remaining w1 = remaining w"
    using 2(1) remaining_session_run by metis
  moreover have "remaining w2 = remaining w1"
    using 2(3) by (auto simp: time_time_def)
  ultimately show ?case
    using 2(5) by (auto simp: get_batch_def emit_def split: list.splits option.splits)
qed

definition run_epoch ::
  "'w env \<Rightarrow> rnngan \<Rightarrow> part \<Rightarrow> op \<Rightarrow> op \<Rightarrow> 'w world
     \<Rightarrow> (error + real option \<times> real option) \<times> 'w world" where
  "run_epoch env mdl p eval_op1 eval_op2 w =
     (case time_time env w of
        (start_time, w1) \<Rightarrow>
          (case get_batch p (rewind env p w1) of
             (batch, w2) \<Rightarrow>
               (case batch_loop env mdl p eval_op1 eval_op2 start_time batch (0, 0, 0) w2 of
                  (Inl e, w3) \<Rightarrow> (Inl e, w3)
                | (Inr (g_losses, d_losses, iters), w3) \<Rightarrow>
                    if iters = 0 then (Inr (None, None), w3)
                    else (Inr (Some (g_losses / real iters), Some (d_losses / real iters)), w3))))"

section \<open>The training controller: \<^verbatim>\<open>main\<close>\<close>

definition makedirs :: "string \<Rightarrow> 'w world \<Rightarrow> 'w world" where
  "makedirs d w =
     (if d \<in> set (directories (files w)) then w
      else w\<lparr>files := (files w)\<lparr>directories := directories (files w) @ [d]\<rparr>\<rparr>)"

text \<open>Lines 350 to 356: restore every variable from the latest checkpoint, or initialise.\<close>

definition restore_or_initialize :: "'w env \<Rightarrow> 'w world \<Rightarrow> 'w world" where
  "restore_or_initialize env w =
     (case checkpoint_file (files w) of
        Some ckpt \<Rightarrow>
          (emit RestoredLine w)\<lparr>weights := snap_weights ckpt, lr_var := snap_lr ckpt,
                                  global_step_var := snap_global_step ckpt\<rparr>
      | None \<Rightarrow>
          (emit FreshLine w)\<lparr>weights := initial_weights env, lr_var := 0, global_step_var := 0\<rparr>)"

text \<open>\<^verbatim>\<open>saver.save(session, checkpoint_path, global_step=m.global_step)\<close>.\<close>

definition saver_save :: "'w world \<Rightarrow> 'w world" where
  "saver_save w =
     emit (SaveCheckpoint (global_step_var w))
       (w\<lparr>files := (files w)\<lparr>checkpoint_file :=
            Some \<lparr>snap_weights = weights w, snap_lr = lr_var w,
                  snap_global_step = global_step_var w\<rparr>\<rparr>\<rparr>)"

text \<open>Lines 384 to 393: the metrics line and the plot files.\<close>

definition write_plots ::
  "string option \<Rightarrow> real \<times> real \<times> real \<times> real \<Rightarrow> 'w world \<Rightarrow> 'w world" where
  "write_plots plots_dir ls w =
     (if py_not plots_dir then w
      else (case ls of (train_g_loss, train_d_loss, valid_g_loss, valid_d_loss) \<Rightarrow>
        let row = (global_step_var w, lr_var w, train_g_loss, train_d_loss, valid_g_loss, valid_d_loss);
            old = (case metrics_file (files w) of None \<Rightarrow> [] | Some rows \<Rightarrow> rows);
            w1 = w\<lparr>files := (files w)\<lparr>metrics_file := Some (old @ [row]), commands_file := True\<rparr>\<rparr>
        in emit Gnuplot
             (emit (MetricsLine (global_step_var w) (lr_var w) train_g_loss train_d_loss
                      valid_g_loss valid_d_loss) w1)))"

text \<open>
  Line 394, the wall-clock test, and the branch it guards. The first statement of the
  branch formats a message with \<^verbatim>\<open>datetime.datetime.today()\<close>; the module
  \<^verbatim>\<open>datetime\<close> is not imported, so the branch raises before anything else happens.
  \<^verbatim>\<open>time.time()\<close> is only read when \<^verbatim>\<open>FLAGS.exit_after > 0\<close> (\<^verbatim>\<open>and\<close> is short-circuit).
\<close>

definition exit_requested :: "flags \<Rightarrow> real \<Rightarrow> real \<Rightarrow> bool" where
  "exit_requested fl train_start_time now =
     (exit_after fl > 0 \<and> now - train_start_time > real_of_int (exit_after fl * 60))"

definition exit_check :: "flags \<Rightarrow> 'w env \<Rightarrow> real \<Rightarrow> 'w world \<Rightarrow> (error + unit) \<times> 'w world" where
  "exit_check fl env train_start_time w =
     (if exit_after fl > 0 then
        (case time_time env w of
           (now, w1) \<Rightarrow>
             if exit_requested fl train_start_time now then (Inl (NameError ''datetime''), w1)
             else (Inr (), w1))
      else (Inr (), w))"

text \<open>Lines 380 to 400. \<^verbatim>\<open>i % 0\<close> raises.\<close>

definition checkpointing ::
  "flags \<Rightarrow> 'w env \<Rightarrow> string option \<Rightarrow> real \<Rightarrow> int \<Rightarrow> real \<times> real \<times> real \<times> real \<Rightarrow> 'w world
     \<Rightarrow> (error + unit) \<times> 'w world" where
  "checkpointing fl env plots_dir train_start_time i ls w =
     (if epochs_per_checkpoint fl = 0 then (Inl ZeroDivisionError, w)
      else if i mod epochs_per_checkpoint fl = 0 then
        exit_check fl env train_start_time (write_plots plots_dir ls (saver_save w))
      else (Inr (), w))"

text \<open>Lines 371 to 374: the learning rate of epoch \<open>i\<close> is assigned and printed.\<close>

definition start_epoch :: "config \<Rightarrow> int \<Rightarrow> 'w world \<Rightarrow> (error + unit) \<times> 'w world" where
  "start_epoch cfg i w =
     (case py_pow (lr_decay cfg) (max (real_of_int (i - max_epoch cfg)) 0) of
        Inl e \<Rightarrow> (Inl e, w)
      | Inr decay \<Rightarrow>
          (case assign_lr (learning_rate cfg * decay) w of
             w1 \<Rightarrow> (Inr (), emit (LearningRateLine (i + 1) (lr_var w1)) w1)))"

text \<open>Lines 375 to 378: the training pass and the validation pass, each printed.\<close>

definition train_and_validate ::
  "'w env \<Rightarrow> rnngan \<Rightarrow> rnngan \<Rightarrow> int \<Rightarrow> 'w world
     \<Rightarrow> (error + real \<times> real \<times> real \<times> real) \<times> 'w world" where
  "train_and_validate env m mvalid i w =
     (case m_opt m of
        None \<Rightarrow> (Inl (AttributeError ''opt_d''), w)
      | Some (opt_d, opt_g) \<Rightarrow>
     (case run_epoch env m Train opt_d opt_g w of
        (Inl e, w1) \<Rightarrow> (Inl e, w1)
      | (Inr (train_g_loss, train_d_loss), w1) \<Rightarrow>
     (case format_floats train_g_loss train_d_loss of
        Inl e \<Rightarrow> (Inl e, w1)
      | Inr (tg, td) \<Rightarrow>
     (case run_epoch env mvalid Validation NoOp NoOp (emit (TrainLossLine (i + 1) tg td) w1) of
        (Inl e, w2) \<Rightarrow> (Inl e, w2)
      | (Inr (valid_g_loss, valid_d_loss), w2) \<Rightarrow>
     (case format_floats valid_g_loss valid_d_loss of
        Inl e \<Rightarrow> (Inl e, w2)
      | Inr (vg, vd) \<Rightarrow> (Inr (tg, td, vg, vd), emit (ValidLossLine (i + 1) vg vd) w2))))))"

text \<open>The body of \<^verbatim>\<open>for i in range(config.max_max_epoch)\<close>.\<close>

definition epoch ::
  "flags \<Rightarrow> config \<Rightarrow> 'w env \<Rightarrow> rnngan \<Rightarrow> rnngan \<Rightarrow> string option \<Rightarrow> real \<Rightarrow> int \<Rightarrow> 'w world
     \<Rightarrow> (error + unit) \<times> 'w world" where
  "epoch fl cfg env m mvalid plots_dir train_start_time i w =
     (case start_epoch cfg i w of
        (Inl e, w1) \<Rightarrow> (Inl e, w1)
      | (Inr u, w1) \<Rightarrow>
     (case train_and_validate env m mvalid i w1 of
        (Inl e, w2) \<Rightarrow> (Inl e, w2)
      | (Inr ls, w2) \<Rightarrow> checkpointing fl env plots_dir train_start_time i ls w2))"

fun epoch_loop ::
  "flags \<Rightarrow> config \<Rightarrow> 'w env \<Rightarrow> rnngan \<Rightarrow> rnngan \<Rightarrow> string option \<Rightarrow> real \<Rightarrow> int list \<Rightarrow> 'w world
     \<Rightarrow> (error + unit) \<times> 'w world" where
  "epoch_loop fl cfg env m mvalid plots_dir train_start_time [] w = (Inr (), w)"
| "epoch_loop fl cfg env m mvalid plots_dir train_start_time (i # rest) w =
     (case epoch fl cfg env m mvalid plots_dir train_start_time i w of
        (Inl e, w1) \<Rightarrow> (Inl e, w1)
      | (Inr u, w1) \<Rightarrow> epoch_loop fl cfg env m mvalid plots_dir train_start_time rest w1)"

text \<open>Lines 403 and 404: the pass over the test split after the last epoch.\<close>

definition evaluating_test :: "'w env \<Rightarrow> rnngan \<Rightarrow> 'w world \<Rightarrow> (error + unit) \<times> 'w world" where
  "evaluating_test env mtest w =
     (case run_epoch env mtest Test NoOp NoOp w of
        (Inl e, w1) \<Rightarrow> (Inl e, w1)
      | (Inr (test_g_loss, test_d_loss), w1) \<Rightarrow>
          (case format_floats test_g_loss test_d_loss of
             Inl e \<Rightarrow> (Inl e, w1)
           | Inr (g, d) \<Rightarrow> (Inr (), emit (TestLossLine g d) w1)))"

text \<open>
  Lines 342 to 404, entered once both directory flags are set and a configuration is
  chosen. \<open>range (max_max_epoch)\<close> is the list \<open>[0..max_max_epoch - 1]\<close>.
\<close>

definition training ::
  "flags \<Rightarrow> config \<Rightarrow> 'w env \<Rightarrow> string \<Rightarrow> real \<Rightarrow> 'w world \<Rightarrow> (error + unit) \<times> 'w world" where
  "training fl cfg env dir train_start_time w =
     (case RNNGAN True cfg of
        Inl e \<Rightarrow> (Inl e, w)
      | Inr m \<Rightarrow>
     (case RNNGAN False (cfg\<lparr>batch_size := 1\<rparr>) of
        Inl e \<Rightarrow> (Inl e, w)
      | Inr mvalid \<Rightarrow>
     (case RNNGAN False (cfg\<lparr>batch_size := 1\<rparr>) of
        Inl e \<Rightarrow> (Inl e, w)
      | Inr mtest \<Rightarrow>
     (case epoch_loop fl cfg env m mvalid (Some (os_path_join dir ''plots'')) train_start_time
             [0..max_max_epoch cfg - 1]
             (makedirs (os_path_join dir ''plots'')
               (makedirs (os_path_join dir ''summaries'')
                 (makedirs dir (restore_or_initialize env w)))) of
        (Inl e, w1) \<Rightarrow> (Inl e, w1)
      | (Inr u, w1) \<Rightarrow> evaluating_test env mtest w1))))"

text \<open>
  The state of the process when \<open>main\<close> is entered: nothing printed, no clock reading
  taken, the variables not yet created, the training directory as it was found.
\<close>

definition process_start :: "'w env \<Rightarrow> 'w traindir_files \<Rightarrow> 'w world" where
  "process_start env fs =
     \<lparr>weights = initial_weights env, lr_var = 0, global_step_var = 0,
      remaining = (\<lambda>p. []), ticks = 0, trace = [], files = fs\<rparr>"

definition main :: "flags \<Rightarrow> 'w env \<Rightarrow> 'w traindir_files \<Rightarrow> (error + unit) \<times> 'w world" where
  "main fl env fs =
     (case datadir fl of
        None \<Rightarrow> (Inl (ValueError ''Must set --datadir to midi music dir.''), process_start env fs)
      | Some ddir \<Rightarrow>
     if ddir = [] then (Inl (ValueError ''Must set --datadir to midi music dir.''), process_start env fs)
     else
     (case traindir fl of
        None \<Rightarrow> (Inl (ValueError ''Must set --traindir to dir where I can save model and plots.''),
                 process_start env fs)
      | Some dir \<Rightarrow>
     if dir = [] then (Inl (ValueError ''Must set --traindir to dir where I can save model and plots.''),
                       process_start env fs)
     else
     (case get_config fl of
        Inl e \<Rightarrow> (Inl e, emit (NumFeaturesLine (numfeatures env)) (process_start env fs))
      | Inr cfg \<Rightarrow>
     (case time_time env (emit (NumFeaturesLine (numfeatures env)) (process_start env fs)) of
        (train_start_time, w) \<Rightarrow> training fl cfg env dir train_start_time w))))"

section \<open>The adversarial objective\<close>

text \<open>
  The losses are tensor expressions over 32-bit floats. A float is modelled as a real
  number or one of the three special values; arithmetic on finite values is exact
  (rounding is not modelled), and the special values follow IEEE 754: the logarithm of
  zero is minus infinity.
\<close>

datatype tfloat = Finite real | PosInf | NegInf | NaN

fun tf_neg :: "tfloat \<Rightarrow> tfloat" where
  "tf_neg (Finite x) = Finite (- x)"
| "tf_neg PosInf = NegInf"
| "tf_neg NegInf = PosInf"
| "tf_neg NaN = NaN"

fun tf_add :: "tfloat \<Rightarrow> tfloat \<Rightarrow> tfloat" where
  "tf_add (Finite x) (Finite y) = Finite (x + y)"
| "tf_add NaN b = NaN"
| "tf_add a NaN = NaN"
| "tf_add PosInf NegInf = NaN"
| "tf_add NegInf PosInf = NaN"
| "tf_add PosInf b = PosInf"
| "tf_add NegInf b = NegInf"
| "tf_add a PosInf = PosInf"
| "tf_add a NegInf = NegInf"

definition tf_sub :: "tfloat \<Rightarrow> tfloat \<Rightarrow> tfloat" where
  "tf_sub a b = tf_add a (tf_neg b)"

fun tf_log :: "tfloat \<Rightarrow> tfloat" where
  "tf_log (Finite x) = (if 0 < x then Finite (ln x) else if x = 0 then NegInf else NaN)"
| "tf_log PosInf = PosInf"
| "tf_log NegInf = NaN"
| "tf_log NaN = NaN"

fun tf_less :: "tfloat \<Rightarrow> tfloat \<Rightarrow> bool" where
  "tf_less (Finite x) (Finite y) = (x < y)"
| "tf_less NaN b = False"
| "tf_less a NaN = False"
| "tf_less NegInf NegInf = False"
| "tf_less NegInf b = True"
| "tf_less a NegInf = False"
| "tf_less PosInf b = False"
| "tf_less a PosInf = True"

definition tf_maximum :: "tfloat \<Rightarrow> tfloat \<Rightarrow> tfloat" where
  "tf_maximum a b = (if a = NaN \<or> b = NaN then NaN else if tf_less a b then b else a)"

definition tf_minimum :: "tfloat \<Rightarrow> tfloat \<Rightarrow> tfloat" where
  "tf_minimum a b = (if a = NaN \<or> b = NaN then NaN else if tf_less b a then b else a)"

text \<open>\<^verbatim>\<open>tf.clip_by_value(t, lo, hi)\<close> is \<^verbatim>\<open>minimum(maximum(t, lo), hi)\<close>.\<close>

definition clip_by_value :: "tfloat \<Rightarrow> tfloat \<Rightarrow> tfloat \<Rightarrow> tfloat" where
  "clip_by_value t clip_value_min clip_value_max =
     tf_minimum (tf_maximum t clip_value_min) clip_value_max"

text \<open>\<^verbatim>\<open>tf.reduce_mean\<close> over all elements of a tensor, given as the list of its elements.\<close>

fun tf_div_count :: "tfloat \<Rightarrow> nat \<Rightarrow> tfloat" where
  "tf_div_count a 0 = NaN"
| "tf_div_count (Finite x) (Suc n) = Finite (x / real (Suc n))"
| "tf_div_count a (Suc n) = a"

definition reduce_mean :: "tfloat list \<Rightarrow> tfloat" where
  "reduce_mean xs = tf_div_count (foldl tf_add (Finite 0) xs) (length xs)"

text \<open>
  A Python float literal with decimal digits \<open>m\<close> and decimal exponent \<open>e\<close> denotes the
  IEEE 754 binary64 number nearest to \<open>m * 10\<^sup>e\<close> (ties to even): below \<open>2\<^sup>-\<^sup>1\<^sup>0\<^sup>2\<^sup>2\<close> the
  representable numbers are the multiples of \<open>2\<^sup>-\<^sup>1\<^sup>0\<^sup>7\<^sup>4\<close>, above it those with 53
  significant bits.
\<close>

definition round_half_even :: "real \<Rightarrow> int" where
  "round_half_even x =
     (if x - of_int \<lfloor>x\<rfloor> < 1/2 then \<lfloor>x\<rfloor>
      else if 1/2 < x - of_int \<lfloor>x\<rfloor> then \<lfloor>x\<rfloor> + 1
      else if even \<lfloor>x\<rfloor> then \<lfloor>x\<rfloor> else \<lfloor>x\<rfloor> + 1)"

definition binary64 :: "real \<Rightarrow> tfloat" where
  "binary64 x =
     (let e = (if \<bar>x\<bar> < 2 powi (-1022) then -1074 else \<lfloor>log 2 \<bar>x\<bar>\<rfloor> - 52);
          q = of_int (round_half_even (x / 2 powi e)) * 2 powi e
      in if 2 powi 1024 \<le> \<bar>q\<bar> then (if 0 < x then PosInf else NegInf) else Finite q)"

definition py_float :: "int \<Rightarrow> int \<Rightarrow> tfloat" where
  "py_float m e = binary64 (of_int m * 10 powi e)"

text \<open>
  Lines 138 and 139. The two scores are scalars, so the mean is taken over one
  element. The literals are \<^verbatim>\<open>1e-1000\<close>, \<^verbatim>\<open>1.0\<close> and \<^verbatim>\<open>0.0\<close>; \<^verbatim>\<open>1.0-1e-1000\<close> is
  computed by Python before the graph is built.
\<close>

definition d_loss :: "tfloat \<Rightarrow> tfloat \<Rightarrow> tfloat" where
  "d_loss discriminator_for_real_data discriminator_for_generated_data =
     reduce_mean
       [tf_sub
          (tf_neg (tf_log (clip_by_value discriminator_for_real_data (py_float 1 (-1000)) (py_float 1 0))))
          (tf_log (tf_sub (Finite 1)
             (clip_by_value discriminator_for_generated_data (py_float 0 0)
                (tf_sub (py_float 1 0) (py_float 1 (-1000))))))]"

definition g_loss :: "tfloat \<Rightarrow> tfloat" where
  "g_loss discriminator_for_generated_data =
     reduce_mean
       [tf_neg (tf_log (clip_by_value discriminator_for_generated_data (py_float 1 (-1000)) (py_float 1 0)))]"

text \<open>
  The formulas of the spec, read as mathematics: \<open>1e-1000\<close> is the positive number
  \<open>10\<^sup>-\<^sup>1\<^sup>0\<^sup>0\<^sup>0\<close>.
\<close>

definition spec_epsilon :: real where
  "spec_epsilon = 1 / 10 ^ 1000"

definition spec_clip :: "real \<Rightarrow> real \<Rightarrow> real \<Rightarrow> real" where
  "spec_clip x lo hi = min (max x lo) hi"

definition spec_d_loss :: "real \<Rightarrow> real \<Rightarrow> real" where
  "spec_d_loss real_score fake_score =
     - ln (spec_clip real_score spec_epsilon 1)
     - ln (1 - spec_clip fake_score 0 (1 - spec_epsilon))"

definition spec_g_loss :: "real \<Rightarrow> real" where
  "spec_g_loss fake_score = - ln (spec_clip fake_score spec_epsilon 1)"

section \<open>Variables, scopes and the discriminator\<close>

text \<open>
  The graph is modelled by the values it computes: building a layer and evaluating it
  are one step, and the variable store holds the current value of every variable by
  its full name. A tensor of rank two is the list of its rows; a variable carries its
  declared shape, and a variable of rank one has a single row.
\<close>

type_synonym matrix = "real list list"

record variable =
  var_shape :: "nat list"
  var_value :: matrix

type_synonym variables = "string \<Rightarrow> variable option"

record var_scope =
  scope_name :: string
  reuse :: bool

text \<open>
  \<^verbatim>\<open>tf.variable_scope(name)\<close> entered inside scope \<open>cur\<close>: the name is appended and the
  reuse flag inherited. \<^verbatim>\<open>scope.reuse_variables()\<close> sets the flag.
\<close>

definition variable_scope :: "var_scope \<Rightarrow> string \<Rightarrow> var_scope" where
  "variable_scope cur name =
     \<lparr>scope_name = (if scope_name cur = [] then name else scope_name cur @ ''/'' @ name),
      reuse = reuse cur\<rparr>"

definition reuse_variables :: "var_scope \<Rightarrow> var_scope" where
  "reuse_variables sc = sc\<lparr>reuse := True\<rparr>"

datatype initializer = RandomNormal real | Constant real

text \<open>
  What the tensor library contributes, as parameters: the draws of the random
  initializer; the recurrent cell stack (the parameter sets it requests, relative to
  the scope of the encoder, its zero state and its step on one row of the batch); and
  the dropout on one input step. A step that applies dropout receives the noise of the
  invocation, one that does not receives \<open>None\<close>.
\<close>

record ('s, 'n) library =
  draw :: "string \<Rightarrow> nat list \<Rightarrow> real \<Rightarrow> matrix"
  cell_variables :: "config \<Rightarrow> nat \<Rightarrow> (string \<times> nat list) list"
  zero_state :: "config \<Rightarrow> 's"
  cell_step :: "config \<Rightarrow> 'n option \<Rightarrow> variable list \<Rightarrow> nat \<Rightarrow> 's \<Rightarrow> real list \<Rightarrow> real list \<times> 's"
  dropout :: "'n \<Rightarrow> real \<Rightarrow> nat \<Rightarrow> matrix \<Rightarrow> matrix"

definition initial_value :: "('s, 'n) library \<Rightarrow> string \<Rightarrow> nat list \<Rightarrow> initializer \<Rightarrow> matrix" where
  "initial_value lib full_name shape init =
     (case init of
        RandomNormal stddev \<Rightarrow> draw lib full_name shape stddev
      | Constant c \<Rightarrow>
          (case shape of
             [n] \<Rightarrow> [replicate n c]
           | [n, k] \<Rightarrow> replicate n (replicate k c)
           | _ \<Rightarrow> []))"

text \<open>
  \<^verbatim>\<open>tf.get_variable(name, shape, initializer)\<close> in scope \<open>sc\<close>: without reuse the variable
  must be new and is created; with reuse it must exist with the requested shape.
\<close>

definition get_variable ::
  "('s, 'n) library \<Rightarrow> var_scope \<Rightarrow> string \<Rightarrow> nat list \<Rightarrow> initializer \<Rightarrow> variables
     \<Rightarrow> error + variable \<times> variables" where
  "get_variable lib sc name shape init vars =
     (case vars (scope_name (variable_scope sc name)) of
        Some v \<Rightarrow>
          if \<not> reuse sc then Inl (ValueError ''Variable already exists, disallowed'')
          else if var_shape v \<noteq> shape then Inl (ValueError ''Trying to share variable, but shapes differ'')
          else Inr (v, vars)
      | None \<Rightarrow>
          if reuse sc then Inl (ValueError ''Variable does not exist, disallowed'')
          else Inr (\<lparr>var_shape = shape,
                     var_value = initial_value lib (scope_name (variable_scope sc name)) shape init\<rparr>,
                    vars(scope_name (variable_scope sc name) \<mapsto>
                      \<lparr>var_shape = shape,
                       var_value = initial_value lib (scope_name (variable_scope sc name)) shape init\<rparr>)))"

definition ncols :: "matrix \<Rightarrow> nat" where
  "ncols m = (case m of [] \<Rightarrow> 0 | r # _ \<Rightarrow> length r)"

text \<open>\<^verbatim>\<open>tf.matmul(inp, w) + b\<close> for \<open>w\<close> of shape \<open>[n, k]\<close> and \<open>b\<close> of shape \<open>[k]\<close>.\<close>

definition matmul_add :: "matrix \<Rightarrow> variable \<Rightarrow> variable \<Rightarrow> matrix" where
  "matmul_add inp w b =
     (case var_shape w of
        [n, k] \<Rightarrow>
          map (\<lambda>row. map (\<lambda>j. (\<Sum>i < n. row ! i * (var_value w ! i ! j)) + concat (var_value b) ! j) [0..<k]) inp
      | _ \<Rightarrow> [])"

text \<open>
  Lines 72 to 80. The scope of the layer is \<^verbatim>\<open>scope or 'linear'\<close> under the current
  scope, switched to reuse when \<^verbatim>\<open>reuse_scope\<close> is set.
\<close>

definition linear_scope :: "var_scope \<Rightarrow> string option \<Rightarrow> bool \<Rightarrow> var_scope" where
  "linear_scope cur scope reuse_scope =
     (if reuse_scope
      then reuse_variables (variable_scope cur
             (case scope of None \<Rightarrow> ''linear'' | Some s \<Rightarrow> if s = [] then ''linear'' else s))
      else variable_scope cur
             (case scope of None \<Rightarrow> ''linear'' | Some s \<Rightarrow> if s = [] then ''linear'' else s))"

definition linear ::
  "('s, 'n) library \<Rightarrow> var_scope \<Rightarrow> matrix \<Rightarrow> nat \<Rightarrow> string option \<Rightarrow> real \<Rightarrow> bool \<Rightarrow> variables
     \<Rightarrow> error + matrix \<times> variables" where
  "linear lib cur inp output_dim scope stddev reuse_scope vars =
     (case get_variable lib (linear_scope cur scope reuse_scope) ''w'' [ncols inp, output_dim]
             (RandomNormal stddev) vars of
        Inl e \<Rightarrow> Inl e
      | Inr (w, vars1) \<Rightarrow>
          (case get_variable lib (linear_scope cur scope reuse_scope) ''b'' [output_dim]
                  (Constant 0) vars1 of
             Inl e \<Rightarrow> Inl e
           | Inr (b, vars2) \<Rightarrow> Inr (matmul_add inp w b, vars2)))"

definition sigmoid :: "real \<Rightarrow> real" where
  "sigmoid x = 1 / (1 + exp (- x))"

text \<open>
  Modelled from the spec: the recurrent encoder (\<^verbatim>\<open>BasicLSTMCell\<close>, \<^verbatim>\<open>DropoutWrapper\<close>,
  \<^verbatim>\<open>MultiRNNCell\<close> and \<^verbatim>\<open>tf.nn.rnn\<close> belong to the tensor library). The spec's contract:
  a sequence of \<open>T\<close> step inputs gives a sequence of \<open>T\<close> hidden outputs, and the cells
  share one parameter set per depth across all time steps. The encoder requests its
  parameter sets once, in the mode of the enclosing scope, under the sub-scope
  \<^verbatim>\<open>RNN\<close>; it refuses an empty input sequence and a step whose batch dimension is not
  the configured one; the state starts at zero and is threaded from step to step,
  row by row.
\<close>

fun get_variables ::
  "('s, 'n) library \<Rightarrow> var_scope \<Rightarrow> (string \<times> nat list) list \<Rightarrow> variables
     \<Rightarrow> error + variable list \<times> variables" where
  "get_variables lib sc [] vars = Inr ([], vars)"
| "get_variables lib sc ((name, shape) # rest) vars =
     (case get_variable lib sc name shape (RandomNormal 1) vars of
        Inl e \<Rightarrow> Inl e
      | Inr (v, vars1) \<Rightarrow>
          (case get_variables lib sc rest vars1 of
             Inl e \<Rightarrow> Inl e
           | Inr (vs, vars2) \<Rightarrow> Inr (v # vs, vars2)))"

fun unroll :: "(nat \<Rightarrow> 's \<Rightarrow> real list \<Rightarrow> real list \<times> 's) \<Rightarrow> nat \<Rightarrow> 's list \<Rightarrow> matrix list \<Rightarrow> matrix list" where
  "unroll step t states [] = []"
| "unroll step t states (x # xs) =
     map fst (map2 (step t) states x) # unroll step (Suc t) (map snd (map2 (step t) states x)) xs"

definition rnn ::
  "('s, 'n) library \<Rightarrow> var_scope \<Rightarrow> config \<Rightarrow> 'n option \<Rightarrow> matrix list \<Rightarrow> variables
     \<Rightarrow> error + matrix list \<times> variables" where
  "rnn lib cur cfg noise inputs vars =
     (case inputs of
        [] \<Rightarrow> Inl (ValueError ''inputs must not be empty'')
      | x # xs \<Rightarrow>
          if list_ex (\<lambda>inp. length inp \<noteq> batch_size cfg) inputs
          then Inl (ValueError ''Dimensions must be equal'')
          else
            (case get_variables lib (variable_scope cur ''RNN'') (cell_variables lib cfg (ncols x)) vars of
               Inl e \<Rightarrow> Inl e
             | Inr (params, vars1) \<Rightarrow>
                 Inr (unroll (cell_step lib cfg noise params) 0
                        (replicate (batch_size cfg) (zero_state lib cfg)) inputs, vars1)))"

text \<open>
  Line 174: one decision layer per output step, created at step 0 and reused after.
\<close>

fun decisions ::
  "('s, 'n) library \<Rightarrow> var_scope \<Rightarrow> nat \<Rightarrow> matrix list \<Rightarrow> variables
     \<Rightarrow> error + matrix list \<times> variables" where
  "decisions lib cur i [] vars = Inr ([], vars)"
| "decisions lib cur i (output # rest) vars =
     (case linear lib cur output 1 (Some ''decision'') 1 (i \<noteq> 0) vars of
        Inl e \<Rightarrow> Inl e
      | Inr (z, vars1) \<Rightarrow>
          (case decisions lib cur (Suc i) rest vars1 of
             Inl e \<Rightarrow> Inl e
           | Inr (ds, vars2) \<Rightarrow> Inr (map (map sigmoid) z # ds, vars2)))"

text \<open>\<^verbatim>\<open>tf.reduce_mean(tf.pack(decisions))\<close>: the mean over every element of every step.\<close>

definition reduce_mean_all :: "matrix list \<Rightarrow> tfloat" where
  "reduce_mean_all ds = reduce_mean (map Finite (concat (concat ds)))"

text \<open>
  Lines 162 to 176. \<open>noise\<close> stands for the random draws of this invocation's dropout
  operations; they are used only when training with \<open>keep_prob < 1\<close>.
\<close>

definition discriminator ::
  "('s, 'n) library \<Rightarrow> var_scope \<Rightarrow> matrix list \<Rightarrow> config \<Rightarrow> bool \<Rightarrow> 'n \<Rightarrow> variables
     \<Rightarrow> error + tfloat \<times> variables" where
  "discriminator lib cur inputs cfg is_training noise vars =
     (case rnn lib cur cfg
             (if is_training \<and> keep_prob cfg < 1 then Some noise else None)
             (if is_training \<and> keep_prob cfg < 1
              then map2 (dropout lib noise (keep_prob cfg)) [0..<length inputs] inputs
              else inputs) vars of
        Inl e \<Rightarrow> Inl e
      | Inr (outputs, vars1) \<Rightarrow>
          (case decisions lib cur 0 outputs vars1 of
             Inl e \<Rightarrow> Inl e
           | Inr (ds, vars2) \<Rightarrow> Inr (reduce_mean_all ds, vars2)))"

text \<open>
  Lines 125 to 134: inside the scope \<^verbatim>\<open>D\<close> the discriminator is applied to the real
  data, the scope is switched to reuse, and the discriminator is applied to the
  generated data.
\<close>

definition discriminators ::
  "('s, 'n) library \<Rightarrow> var_scope \<Rightarrow> config \<Rightarrow> bool \<Rightarrow> matrix list \<Rightarrow> matrix list \<Rightarrow> 'n \<Rightarrow> 'n \<Rightarrow> variables
     \<Rightarrow> error + (tfloat \<times> tfloat) \<times> variables" where
  "discriminators lib cur cfg is_training data_inputs lengths_freqs_velocities noise1 noise2 vars =
     (case discriminator lib (variable_scope cur ''D'') data_inputs cfg is_training noise1 vars of
        Inl e \<Rightarrow> Inl e
      | Inr (discriminator_for_real_data, vars1) \<Rightarrow>
          (case discriminator lib (reuse_variables (variable_scope cur ''D''))
                  lengths_freqs_velocities cfg is_training noise2 vars1 of
             Inl e \<Rightarrow> Inl e
           | Inr (discriminator_for_generated_data, vars2) \<Rightarrow>
               Inr ((discriminator_for_real_data, discriminator_for_generated_data), vars2)))"

section \<open>Notions the statements use\<close>

fun keeps_step :: "op \<Rightarrow> bool" where
  "keeps_step NoOp = True"
| "keeps_step (ApplyGradients prefix factor with_step) = (\<not> with_step)"

fun op_weights :: "'w env \<Rightarrow> batch \<Rightarrow> real \<Rightarrow> op \<Rightarrow> 'w \<Rightarrow> 'w" where
  "op_weights env b lr NoOp ws = ws"
| "op_weights env b lr (ApplyGradients prefix factor with_step) ws = descend env prefix (lr * factor) ws b"

text \<open>
  The losses of the batches of one pass, as the session produces them one after the
  other: each batch is evaluated with the weights the previous batches left, under the
  learning rate of the pass. This is the reference the result of \<open>run_epoch\<close> is
  compared with.
\<close>

fun pass_losses :: "'w env \<Rightarrow> op \<Rightarrow> op \<Rightarrow> real \<Rightarrow> 'w \<Rightarrow> batch list \<Rightarrow> (real \<times> real) list" where
  "pass_losses env x y lr ws [] = []"
| "pass_losses env x y lr ws (b # bs) =
     (case losses env ws b of
        (gd, ws1) \<Rightarrow> gd # pass_losses env x y lr (op_weights env b lr y (op_weights env b lr x ws1)) bs)"

definition batches_ahead :: "batch option \<Rightarrow> batch list \<Rightarrow> batch list" where
  "batches_ahead nb rest = (case nb of None \<Rightarrow> [] | Some b \<Rightarrow> b # rest)"

fun is_batch_line :: "event \<Rightarrow> bool" where
  "is_batch_line (BatchLine n g d ag ad sp) = True"
| "is_batch_line e = False"

text \<open>What a pass leaves untouched, whether it returns or raises.\<close>

definition pass_frame :: "op \<Rightarrow> op \<Rightarrow> 'w world \<Rightarrow> 'w world \<Rightarrow> bool" where
  "pass_frame x y w w' =
     (lr_var w' = lr_var w \<and> files w' = files w \<and> ticks w \<le> ticks w' \<and>
      (if keeps_step x \<and> keeps_step y then global_step_var w' = global_step_var w else True) \<and>
      take (length (trace w)) (trace w') = trace w \<and>
      list_all is_batch_line (drop (length (trace w)) (trace w')))"

text \<open>
  The schedule as the spec writes it:
  base rate times decay factor to the power \<open>max (i - decay start, 0)\<close>.
\<close>

definition epoch_learning_rate :: "config \<Rightarrow> int \<Rightarrow> real" where
  "epoch_learning_rate cfg i = learning_rate cfg * lr_decay cfg ^ nat (max (i - max_epoch cfg) 0)"

text \<open>
  The learning rates a run prints, in order, each with the epoch number printed beside
  it.
\<close>

fun lr_line :: "event \<Rightarrow> (int \<times> real) list" where
  "lr_line (LearningRateLine n v) = [(n, v)]"
| "lr_line e = []"

definition lr_lines :: "event list \<Rightarrow> (int \<times> real) list" where
  "lr_lines es = concat (map lr_line es)"

text \<open>The global step a checkpoint event or a metrics line records.\<close>

fun recorded_step :: "event \<Rightarrow> int list" where
  "recorded_step (SaveCheckpoint s) = [s]"
| "recorded_step (MetricsLine s lr tg td vg vd) = [s]"
| "recorded_step e = []"

definition recorded_steps :: "event list \<Rightarrow> int list" where
  "recorded_steps es = concat (map recorded_step es)"

definition checkpoint_step_zero :: "'w traindir_files \<Rightarrow> bool" where
  "checkpoint_step_zero fs =
     (case checkpoint_file fs of None \<Rightarrow> True | Some ckpt \<Rightarrow> snap_global_step ckpt = 0)"

definition step_zero :: "'w world \<Rightarrow> bool" where
  "step_zero w =
     (global_step_var w = 0 \<and> list_all (\<lambda>s. s = 0) (recorded_steps (trace w)) \<and>
      checkpoint_step_zero (files w))"

definition model_keeps_step :: "rnngan \<Rightarrow> bool" where
  "model_keeps_step m =
     (case m_opt m of None \<Rightarrow> True | Some (opt_d, opt_g) \<Rightarrow> keeps_step opt_d \<and> keeps_step opt_g)"

text \<open>
  Successive invocations of the program on one training directory: each run finds the
  files the previous one left.
\<close>

fun runs :: "(flags \<times> 'w env) list \<Rightarrow> 'w traindir_files \<Rightarrow> ((error + unit) \<times> 'w world) list" where
  "runs [] fs = []"
| "runs ((fl, env) # rest) fs =
     (case main fl env fs of (r, w) \<Rightarrow> (r, w) # runs rest (files w))"

definition run_steps_zero :: "(error + unit) \<times> 'w world \<Rightarrow> bool" where
  "run_steps_zero rw = list_all (\<lambda>s. s = 0) (recorded_steps (trace (snd rw)))"

definition is_name_error :: "error + 'a \<Rightarrow> bool" where
  "is_name_error r = (case r of Inl (NameError s) \<Rightarrow> True | _ \<Rightarrow> False)"

text \<open>The state in which the epoch loop is entered.\<close>

definition loop_entry :: "'w env \<Rightarrow> string \<Rightarrow> 'w world \<Rightarrow> 'w world" where
  "loop_entry env dir w =
     makedirs (os_path_join dir ''plots'')
       (makedirs (os_path_join dir ''summaries'')
         (makedirs dir (restore_or_initialize env w)))"

definition dropped_inputs :: "('s, 'n) library \<Rightarrow> config \<Rightarrow> bool \<Rightarrow> 'n \<Rightarrow> matrix list \<Rightarrow> matrix list" where
  "dropped_inputs lib cfg is_training noise inputs =
     (if is_training \<and> keep_prob cfg < 1
      then map2 (dropout lib noise (keep_prob cfg)) [0..<length inputs] inputs
      else inputs)"

text \<open>
  The names under which the decision layer of a discriminator built in scope \<open>cur\<close>
  keeps its weights and its bias.
\<close>

definition decision_w :: "var_scope \<Rightarrow> string" where
  "decision_w cur = scope_name (variable_scope (variable_scope cur ''decision'') ''w'')"

definition decision_b :: "var_scope \<Rightarrow> string" where
  "decision_b cur = scope_name (variable_scope (variable_scope cur ''decision'') ''b'')"

text \<open>
  The per-step logistic outputs as the spec words them: at one time step, for every row
  of the batch, the logistic function of the scalar the decision layer (weights \<open>w\<close>,
  bias \<open>b\<close>) computes from the encoder's output. And the arithmetic mean of a list.
\<close>

definition step_decision :: "variable \<Rightarrow> variable \<Rightarrow> matrix \<Rightarrow> matrix" where
  "step_decision w b out = map (map sigmoid) (matmul_add out w b)"

definition arithmetic_mean :: "real list \<Rightarrow> real" where
  "arithmetic_mean xs = sum_list xs / real (length xs)"

text \<open>
  Modelled from the spec: what the tensor library guarantees of the recurrent cells
  and of dropout, which are not among the sources. The spec gives the encoder a
  "hidden-vector width [that] equals configured hidden_size"; that dropout returns as
  many rows as it receives, and that the parameter sets of the cells have distinct
  names, is how the library behaves.
\<close>

definition library_contract :: "('s, 'n) library \<Rightarrow> config \<Rightarrow> bool" where
  "library_contract lib cfg =
     ((\<forall>k. distinct (map fst (cell_variables lib cfg k))) \<and>
      (\<forall>nz params t s row. length (fst (cell_step lib cfg nz params t s row)) = hidden_size cfg) \<and>
      (\<forall>nz keep t m. length (dropout lib nz keep t m) = length m))"

text \<open>
  A sequence the graph can be built for: at least one step, every step with one row per
  element of the batch. And a store in which the discriminator of scope \<open>cur\<close> has not
  been built yet.
\<close>

definition well_shaped :: "config \<Rightarrow> matrix list \<Rightarrow> bool" where
  "well_shaped cfg inputs = (inputs \<noteq> [] \<and> (\<forall>x \<in> set inputs. length x = batch_size cfg))"

definition unbuilt :: "('s, 'n) library \<Rightarrow> config \<Rightarrow> var_scope \<Rightarrow> variables \<Rightarrow> bool" where
  "unbuilt lib cfg cur vars =
     (\<not> reuse cur \<and>
      (\<forall>k. \<forall>spec \<in> set (cell_variables lib cfg k).
          vars (scope_name (variable_scope (variable_scope cur ''RNN'') (fst spec))) = None) \<and>
      vars (decision_w cur) = None \<and> vars (decision_b cur) = None)"

section \<open>Concrete inputs\<close>

text \<open>
  Inputs on which the functions are evaluated: every split yields two batches, the
  weights are a counter that each optimizer step increments, the losses of a batch are
  read off that counter, and the clock advances by one second per reading.
\<close>

definition example_env :: "nat env" where
  "example_env =
     \<lparr>songs = (\<lambda>p. [[], []]), numfeatures = 4, clock = real, initial_weights = 0,
      losses = (\<lambda>ws b. ((real ws, real ws + 1), ws)),
      descend = (\<lambda>prefix lr ws b. Suc ws)\<rparr>"

definition example_flags :: flags where
  "example_flags =
     \<lparr>model = ''small'', datadir = Some ''data'', traindir = Some ''run'',
      epochs_per_checkpoint = 10, call_after = None, exit_after = 0,
      select_validation_percentage = None, select_test_percentage = None\<rparr>"

definition empty_traindir :: "nat traindir_files" where
  "empty_traindir = \<lparr>directories = [], checkpoint_file = None, metrics_file = None, commands_file = False\<rparr>"

definition example_model :: rnngan where
  "example_model = \<lparr>m_batch_size = 10, m_songlength = 200,
     m_opt = Some (ApplyGradients ''model/D/'' (1/2) False, ApplyGradients ''model/G/'' 1 False)\<rparr>"

text \<open>
  A run in a hurry: a checkpoint after every epoch, a ceiling of one minute, and a
  clock that advances by a hundred seconds per reading.
\<close>

definition hurried_flags :: flags where
  "hurried_flags = example_flags\<lparr>exit_after := 1, epochs_per_checkpoint := 1\<rparr>"

definition slow_env :: "nat env" where
  "slow_env = example_env\<lparr>clock := (\<lambda>k. 100 * real k)\<rparr>"

text \<open>A clock that stands still: every reading is the same.\<close>

definition stalled_env :: "nat env" where
  "stalled_env = example_env\<lparr>clock := (\<lambda>k. 0)\<rparr>"

text \<open>
  A small graph: one batch row, two time steps, two features; a cell whose hidden
  units all carry the sum of the input row, weights drawn as ones.
\<close>

definition example_library :: "(unit, unit) library" where
  "example_library =
     \<lparr>draw = (\<lambda>name shape stddev. case shape of [n, k] \<Rightarrow> replicate n (replicate k 1) | _ \<Rightarrow> []),
      cell_variables = (\<lambda>cfg n. [(''Cell0/Matrix'', [n + hidden_size cfg, 4 * hidden_size cfg])]),
      zero_state = (\<lambda>cfg. ()),
      cell_step = (\<lambda>cfg noise params t s row. (replicate (hidden_size cfg) (sum_list row), ())),
      dropout = (\<lambda>noise keep t m. m)\<rparr>"

definition example_config :: config where
  "example_config = TestConfig\<lparr>batch_size := 1\<rparr>"

definition model_scope :: var_scope where
  "model_scope = \<lparr>scope_name = ''model'', reuse = False\<rparr>"

definition example_data :: "matrix list" where
  "example_data = [[[1, 1]], [[0, 0]]]"

text \<open>An initializer that draws zeros where the one of the small graph draws ones.\<close>

definition zero_draw :: "string \<Rightarrow> nat list \<Rightarrow> real \<Rightarrow> matrix" where
  "zero_draw name shape stddev = (case shape of [n, k] \<Rightarrow> replicate n (replicate k 0) | _ \<Rightarrow> [])"

section \<open>Properties of one pass\<close>

lemma run_op_frame:
  "lr_var (run_op env b x w) = lr_var w"
  "ticks (run_op env b x w) = ticks w"
  "trace (run_op env b x w) = trace w"
  "files (run_op env b x w) = files w"
  "remaining (run_op env b x w) = remaining w"
  by (cases x; simp)+

lemma run_op_global_step:
  "keeps_step x \<Longrightarrow> global_step_var (run_op env b x w) = global_step_var w"
  by (cases x) simp_all

lemma run_op_weights: "weights (run_op env b x w) = op_weights env b (lr_var w) x (weights w)"
  by (cases x) simp_all

lemma session_run_frame:
  assumes "session_run env x y b w = (gd, w')"
  shows "lr_var w' = lr_var w" "ticks w' = ticks w" "trace w' = trace w" "files w' = files w"
    "remaining w' = remaining w"
    "gd = fst (losses env (weights w) b)"
    "weights w' = op_weights env b (lr_var w) y (op_weights env b (lr_var w) x (snd (losses env (weights w) b)))"
  using assms by (auto simp: session_run_def run_op_frame run_op_weights split: prod.splits)

lemma session_run_global_step:
  assumes "session_run env x y b w = (gd, w')" "keeps_step x" "keeps_step y"
  shows "global_step_var w' = global_step_var w"
  using assms by (auto simp: session_run_def run_op_global_step split: prod.splits)

lemma batch_loop_mean:
  assumes "\<forall>k < length (batches_ahead nb (remaining w p)). clock env (ticks w + k) \<noteq> t0"
  shows "fst (batch_loop env mdl p x y t0 nb (gl, dl, n) w) =
           Inr (gl + sum_list (map fst (pass_losses env x y (lr_var w) (weights w) (batches_ahead nb (remaining w p)))),
                dl + sum_list (map snd (pass_losses env x y (lr_var w) (weights w) (batches_ahead nb (remaining w p)))),
                n + length (batches_ahead nb (remaining w p)))"
  using assms
proof (induction env mdl p x y t0 nb "(gl, dl, n)" w arbitrary: gl dl n rule: batch_loop.induct)
  case (1 env mdl p x y t0 acc w)
  then show ?case by (simp add: batches_ahead_def)
next
  case (2 env mdl p x y t0 b g_losses d_losses iters w)
  obtain g_loss d_loss w1 where sr: "session_run env x y b w = ((g_loss, d_loss), w1)"
    by (metis surj_pair)
  obtain now w2 where tt: "time_time env w1 = (now, w2)" by (metis surj_pair)
  have now: "now = clock env (ticks w)" and w2: "w2 = w1\<lparr>ticks := Suc (ticks w)\<rparr>"
    using tt session_run_frame(2)[OF sr] by (auto simp: time_time_def)
  have bs: "batches_ahead (Some b) (remaining w p) = b # remaining w p"
    by (simp add: batches_ahead_def)
  have ne: "now - t0 \<noteq> 0" using 2(2)[unfolded bs] now by auto
  let ?e = "BatchLine (Suc iters) g_loss d_loss
                                  ((g_losses + g_loss) / real (Suc iters))
                                  ((d_losses + d_loss) / real (Suc iters))
                                  (real (Suc iters * m_batch_size mdl) / (now - t0))"
  obtain nb w3 where gb: "get_batch p (emit ?e w2) = (nb, w3)" by (metis surj_pair)
  have rem: "remaining w p = batches_ahead nb (remaining w3 p)"
    using gb w2 session_run_frame(5)[OF sr]
    by (auto simp: get_batch_def emit_def batches_ahead_def fun_eq_iff split: list.splits)
  have IH: "fst (batch_loop env mdl p x y t0 nb (g_losses + g_loss, d_losses + d_loss, Suc iters) w3) =
      Inr (g_losses + g_loss + sum_list (map fst (pass_losses env x y (lr_var w3) (weights w3) (batches_ahead nb (remaining w3 p)))),
           d_losses + d_loss + sum_list (map snd (pass_losses env x y (lr_var w3) (weights w3) (batches_ahead nb (remaining w3 p)))),
           Suc iters + length (batches_ahead nb (remaining w3 p)))"
  proof (rule 2(1)[OF sr[symmetric] refl tt[symmetric] ne gb[symmetric]])
    have t3: "ticks w3 = Suc (ticks w)"
      using gb w2 session_run_frame(2)[OF sr]
      by (auto simp: get_batch_def emit_def split: list.splits)
    show "\<forall>k<length (batches_ahead nb (remaining w3 p)). clock env (ticks w3 + k) \<noteq> t0"
    proof (intro allI impI)
      fix k assume "k < length (batches_ahead nb (remaining w3 p))"
      then have "Suc k < length (batches_ahead (Some b) (remaining w p))"
        unfolding bs using rem by simp
      then have "clock env (ticks w + Suc k) \<noteq> t0" using 2(2) by blast
      then show "clock env (ticks w3 + k) \<noteq> t0" by (simp add: t3)
    qed
  qed
  have lr3: "lr_var w3 = lr_var w" and ws3: "weights w3 = weights w1"
    using gb w2 session_run_frame(1)[OF sr]
    by (auto simp: get_batch_def emit_def split: list.splits)
  have lhs: "batch_loop env mdl p x y t0 (Some b) (g_losses, d_losses, iters) w =
      batch_loop env mdl p x y t0 nb (g_losses + g_loss, d_losses + d_loss, Suc iters) w3"
    using sr tt ne gb by simp
  obtain ws1 where L: "losses env (weights w) b = ((g_loss, d_loss), ws1)"
    using session_run_frame(6)[OF sr] by (metis prod.collapse)
  have ws3': "weights w3 = op_weights env b (lr_var w) y (op_weights env b (lr_var w) x ws1)"
    using ws3 session_run_frame(7)[OF sr] L by simp
  have rhs: "pass_losses env x y (lr_var w) (weights w) (b # remaining w p) =
      (g_loss, d_loss) # pass_losses env x y (lr_var w3) (weights w3) (batches_ahead nb (remaining w3 p))"
    unfolding lr3 ws3' using rem by (simp add: L)
  show ?case
    unfolding lhs IH bs rhs by (simp add: rem del: pass_losses.simps)
qed

lemma batch_loop_stalled:
  assumes "k < length (batches_ahead nb (remaining w p))" "clock env (ticks w + k) = t0"
  shows "fst (batch_loop env mdl p x y t0 nb acc w) = Inl ZeroDivisionError"
  using assms
proof (induction env mdl p x y t0 nb acc w arbitrary: k rule: batch_loop.induct)
  case (1 env mdl p x y t0 acc w)
  then show ?case by (simp add: batches_ahead_def)
next
  case (2 env mdl p x y t0 b g_losses d_losses iters w)
  obtain g_loss d_loss w1 where sr: "session_run env x y b w = ((g_loss, d_loss), w1)"
    by (metis surj_pair)
  obtain now w2 where tt: "time_time env w1 = (now, w2)" by (metis surj_pair)
  have now: "now = clock env (ticks w)" and w2: "w2 = w1\<lparr>ticks := Suc (ticks w)\<rparr>"
    using tt session_run_frame(2)[OF sr] by (auto simp: time_time_def)
  have bs: "batches_ahead (Some b) (remaining w p) = b # remaining w p"
    by (simp add: batches_ahead_def)
  show ?case
  proof (cases "now - t0 = 0")
    case True
    then show ?thesis using sr tt by simp
  next
    case False
    let ?e = "BatchLine (Suc iters) g_loss d_loss
                                  ((g_losses + g_loss) / real (Suc iters))
                                  ((d_losses + d_loss) / real (Suc iters))
                                  (real (Suc iters * m_batch_size mdl) / (now - t0))"
    obtain nb w3 where gb: "get_batch p (emit ?e w2) = (nb, w3)" by (metis surj_pair)
    have rem: "remaining w p = batches_ahead nb (remaining w3 p)"
      using gb w2 session_run_frame(5)[OF sr]
      by (auto simp: get_batch_def emit_def batches_ahead_def fun_eq_iff split: list.splits)
    have t3: "ticks w3 = Suc (ticks w)"
      using gb w2 session_run_frame(2)[OF sr]
      by (auto simp: get_batch_def emit_def split: list.splits)
    have "k \<noteq> 0"
    proof
      assume "k = 0"
      then have "now = t0" using now 2(3) by simp
      then show False using False by simp
    qed
    then obtain j where j: "k = Suc j" by (cases k) auto
    have a: "j < length (batches_ahead nb (remaining w3 p))"
      using 2(2) unfolding bs j using rem by simp
    have b: "clock env (ticks w3 + j) = t0" using 2(3) by (simp add: t3 j)
    have "fst (batch_loop env mdl p x y t0 nb (g_losses + g_loss, d_losses + d_loss, Suc iters) w3) =
            Inl ZeroDivisionError"
      by (rule 2(1)[OF sr[symmetric] refl tt[symmetric] False gb[symmetric] a b])
    moreover have "batch_loop env mdl p x y t0 (Some b) (g_losses, d_losses, iters) w =
      batch_loop env mdl p x y t0 nb (g_losses + g_loss, d_losses + d_loss, Suc iters) w3"
      using sr tt False gb by simp
    ultimately show ?thesis by simp
  qed
qed

lemma pass_frame_refl: "pass_frame x y w w"
  by (simp add: pass_frame_def)

lemma pass_frame_trans:
  "pass_frame x y w w1 \<Longrightarrow> pass_frame x y w1 w2 \<Longrightarrow> pass_frame x y w w2"
proof -
  assume a: "pass_frame x y w w1" and b: "pass_frame x y w1 w2"
  obtain es where es: "trace w1 = trace w @ es" "list_all is_batch_line es"
    using a unfolding pass_frame_def by (metis append_take_drop_id)
  obtain fs where fs: "trace w2 = trace w1 @ fs" "list_all is_batch_line fs"
    using b unfolding pass_frame_def by (metis append_take_drop_id)
  show ?thesis
    using a b es fs unfolding pass_frame_def by (auto split: if_splits)
qed

lemma batch_loop_frame:
  "pass_frame x y w (snd (batch_loop env mdl p x y t0 nb acc w))"
proof (induction env mdl p x y t0 nb acc w rule: batch_loop.induct)
  case (1 env mdl p x y t0 acc w)
  then show ?case by (simp add: pass_frame_refl)
next
  case (2 env mdl p x y t0 b g_losses d_losses iters w)
  obtain g_loss d_loss w1 where sr: "session_run env x y b w = ((g_loss, d_loss), w1)"
    by (metis surj_pair)
  obtain now w2 where tt: "time_time env w1 = (now, w2)" by (metis surj_pair)
  have f1: "pass_frame x y w w2"
    using tt session_run_frame(1-4)[OF sr] session_run_global_step[OF sr]
    by (auto simp: time_time_def pass_frame_def)
  show ?case
  proof (cases "now - t0 = 0")
    case True
    then show ?thesis using sr tt f1 by simp
  next
    case False
    let ?e = "BatchLine (Suc iters) g_loss d_loss
                                  ((g_losses + g_loss) / real (Suc iters))
                                  ((d_losses + d_loss) / real (Suc iters))
                                  (real (Suc iters * m_batch_size mdl) / (now - t0))"
    obtain nb w3 where gb: "get_batch p (emit ?e w2) = (nb, w3)" by (metis surj_pair)
    have f2: "pass_frame x y w2 w3"
      using gb by (auto simp: get_batch_def emit_def pass_frame_def split: list.splits)
    have f3: "pass_frame x y w3 (snd (batch_loop env mdl p x y t0 nb
                (g_losses + g_loss, d_losses + d_loss, Suc iters) w3))"
      by (rule 2[OF sr[symmetric] refl tt[symmetric] False gb[symmetric]])
    have "batch_loop env mdl p x y t0 (Some b) (g_losses, d_losses, iters) w =
      batch_loop env mdl p x y t0 nb (g_losses + g_loss, d_losses + d_loss, Suc iters) w3"
      using sr tt False gb by simp
    then show ?thesis
      using pass_frame_trans[OF pass_frame_trans[OF f1 f2] f3] by simp
  qed
qed

lemma batch_loop_errors:
  "fst (batch_loop env mdl p x y t0 nb acc w) = Inl e \<Longrightarrow> e = ZeroDivisionError"
proof (induction env mdl p x y t0 nb acc w rule: batch_loop.induct)
  case (1 env mdl p x y t0 acc w)
  then show ?case by simp
next
  case (2 env mdl p x y t0 b g_losses d_losses iters w)
  then show ?case
    by (auto split: prod.splits if_splits)
qed

lemma run_epoch_frame: "pass_frame x y w (snd (run_epoch env mdl p x y w))"
proof -
  obtain t0 w1 where tt: "time_time env w = (t0, w1)" by (metis surj_pair)
  obtain nb w2 where gb: "get_batch p (rewind env p w1) = (nb, w2)" by (metis surj_pair)
  have f1: "pass_frame x y w w2"
    using tt gb by (auto simp: time_time_def get_batch_def rewind_def pass_frame_def split: list.splits)
  have f2: "pass_frame x y w2 (snd (batch_loop env mdl p x y t0 nb (0, 0, 0) w2))"
    by (rule batch_loop_frame)
  have "snd (run_epoch env mdl p x y w) = snd (batch_loop env mdl p x y t0 nb (0, 0, 0) w2)"
    using tt gb by (auto simp: run_epoch_def split: prod.splits sum.splits)
  then show ?thesis using pass_frame_trans[OF f1 f2] by simp
qed

lemma run_epoch_errors:
  "fst (run_epoch env mdl p x y w) = Inl e \<Longrightarrow> e = ZeroDivisionError"
proof -
  assume a: "fst (run_epoch env mdl p x y w) = Inl e"
  obtain t0 w1 where tt: "time_time env w = (t0, w1)" by (metis surj_pair)
  obtain nb w2 where gb: "get_batch p (rewind env p w1) = (nb, w2)" by (metis surj_pair)
  obtain r w3 where bl: "batch_loop env mdl p x y t0 nb (0, 0, 0) w2 = (r, w3)" by (metis surj_pair)
  have "r = Inl e"
    using a by (auto simp: run_epoch_def tt gb bl simp del: batch_loop.simps split: sum.splits if_splits)
  then show ?thesis
    using batch_loop_errors[of env mdl p x y t0 nb "(0, 0, 0)" w2 e] bl by simp
qed

lemma length_pass_losses: "length (pass_losses env x y lr ws bs) = length bs"
  by (induction bs arbitrary: ws) (auto split: prod.splits)

lemma run_epoch_no_data:
  assumes "songs env p = []"
  shows "fst (run_epoch env mdl p x y w) = Inr (None, None)"
  using assms by (auto simp: run_epoch_def time_time_def rewind_def get_batch_def split: prod.splits)

lemma run_epoch_entry:
  assumes "songs env p = b # bs"
  shows "run_epoch env mdl p x y w =
     (case batch_loop env mdl p x y (clock env (ticks w)) (Some b) (0, 0, 0)
             (w\<lparr>ticks := Suc (ticks w), remaining := (remaining w)(p := bs)\<rparr>) of
        (Inl e, w3) \<Rightarrow> (Inl e, w3)
      | (Inr (g_losses, d_losses, iters), w3) \<Rightarrow>
          if iters = 0 then (Inr (None, None), w3)
          else (Inr (Some (g_losses / real iters), Some (d_losses / real iters)), w3))"
  by (simp add: run_epoch_def time_time_def get_batch_def rewind_def assms del: batch_loop.simps)

lemma run_epoch_mean:
  assumes "songs env p \<noteq> []"
    and "\<forall>k < length (songs env p). clock env (Suc (ticks w) + k) \<noteq> clock env (ticks w)"
  shows "fst (run_epoch env mdl p x y w) =
           Inr (Some (sum_list (map fst (pass_losses env x y (lr_var w) (weights w) (songs env p)))
                        / real (length (songs env p))),
                Some (sum_list (map snd (pass_losses env x y (lr_var w) (weights w) (songs env p)))
                        / real (length (songs env p))))"
proof -
  obtain b bs where bs: "songs env p = b # bs" using assms(1) by (cases "songs env p") auto
  define w2 where "w2 = w\<lparr>ticks := Suc (ticks w), remaining := (remaining w)(p := bs)\<rparr>"
  have ba: "batches_ahead (Some b) (remaining w2 p) = songs env p"
    by (simp add: batches_ahead_def w2_def bs)
  have c: "\<forall>k < length (batches_ahead (Some b) (remaining w2 p)). clock env (ticks w2 + k) \<noteq> clock env (ticks w)"
    unfolding ba using assms(2) by (simp add: w2_def)
  have r: "fst (batch_loop env mdl p x y (clock env (ticks w)) (Some b) (0, 0, 0) w2) =
       Inr (sum_list (map fst (pass_losses env x y (lr_var w) (weights w) (songs env p))),
            sum_list (map snd (pass_losses env x y (lr_var w) (weights w) (songs env p))),
            length (songs env p))"
    using batch_loop_mean[OF c, of mdl x y 0 0 0] unfolding ba
    by (simp add: w2_def)
  have n: "length (songs env p) \<noteq> 0" using assms(1) by simp
  obtain w3 where "batch_loop env mdl p x y (clock env (ticks w)) (Some b) (0, 0, 0) w2 =
       (Inr (sum_list (map fst (pass_losses env x y (lr_var w) (weights w) (songs env p))),
            sum_list (map snd (pass_losses env x y (lr_var w) (weights w) (songs env p))),
            length (songs env p)), w3)"
    using r by (metis prod.collapse)
  then show ?thesis
    using n unfolding run_epoch_entry[OF bs] w2_def[symmetric] by simp
qed

lemma run_epoch_stalled:
  assumes "k < length (songs env p)" "clock env (Suc (ticks w) + k) = clock env (ticks w)"
  shows "fst (run_epoch env mdl p x y w) = Inl ZeroDivisionError"
proof -
  obtain b bs where bs: "songs env p = b # bs" using assms(1) by (cases "songs env p") auto
  define w2 where "w2 = w\<lparr>ticks := Suc (ticks w), remaining := (remaining w)(p := bs)\<rparr>"
  have ba: "batches_ahead (Some b) (remaining w2 p) = songs env p"
    by (simp add: batches_ahead_def w2_def bs)
  have a: "k < length (batches_ahead (Some b) (remaining w2 p))" unfolding ba by (rule assms(1))
  have c: "clock env (ticks w2 + k) = clock env (ticks w)" using assms(2) by (simp add: w2_def)
  have "fst (batch_loop env mdl p x y (clock env (ticks w)) (Some b) (0, 0, 0) w2) = Inl ZeroDivisionError"
    by (rule batch_loop_stalled[OF a c])
  then obtain w3 where "batch_loop env mdl p x y (clock env (ticks w)) (Some b) (0, 0, 0) w2 =
      (Inl ZeroDivisionError, w3)"
    by (metis prod.collapse)
  then show ?thesis
    unfolding run_epoch_entry[OF bs] w2_def[symmetric] by simp
qed

lemma run_epoch_data:
  assumes "\<forall>k > ticks w. clock env k \<noteq> clock env (ticks w)" and "songs env p \<noteq> []"
  shows "fst (run_epoch env mdl p x y w) =
           Inr (Some (sum_list (map fst (pass_losses env x y (lr_var w) (weights w) (songs env p)))
                        / real (length (songs env p))),
                Some (sum_list (map snd (pass_losses env x y (lr_var w) (weights w) (songs env p)))
                        / real (length (songs env p))))"
  using assms(1) by (intro run_epoch_mean[OF assms(2)]) simp

section \<open>The result of a pass\<close>

text \<open>
  Claim C6. A pass over a split that yields no batch returns \<^verbatim>\<open>(None, None)\<close>, which is
  not the zero-loss result \<^verbatim>\<open>(0.0, 0.0)\<close>: a zero-loss result only comes from a split
  with batches. A pass over a split of \<open>n \<ge> 1\<close> batches does not always return the means
  of the losses: the progress line of each batch divides by the time elapsed since the
  start of the pass, so the pass raises \<^verbatim>\<open>ZeroDivisionError\<close> as soon as one of its \<open>n\<close>
  clock readings equals the reading taken at the start, and returns the arithmetic
  means of the generator and of the discriminator losses of its batches only when none
  does.
\<close>

theorem run_epoch_stalled_clock:
  "(fst (run_epoch env mdl p x y w) = Inr (Some 0, Some 0) \<longrightarrow> songs env p \<noteq> []) \<and>
   fst (run_epoch env mdl p x y w) =
     (if songs env p = [] then Inr (None, None)
      else if \<exists>k < length (songs env p). clock env (Suc (ticks w) + k) = clock env (ticks w)
           then Inl ZeroDivisionError
           else Inr (Some (sum_list (map fst (pass_losses env x y (lr_var w) (weights w) (songs env p)))
                        / real (length (songs env p))),
                     Some (sum_list (map snd (pass_losses env x y (lr_var w) (weights w) (songs env p)))
                        / real (length (songs env p)))))"
proof (cases "songs env p = []")
  case True
  then show ?thesis by (simp add: run_epoch_no_data)
next
  case ne: False
  show ?thesis
  proof (cases "\<exists>k < length (songs env p). clock env (Suc (ticks w) + k) = clock env (ticks w)")
    case True
    then obtain k where "k < length (songs env p)" "clock env (Suc (ticks w) + k) = clock env (ticks w)"
      by blast
    then have "fst (run_epoch env mdl p x y w) = Inl ZeroDivisionError"
      by (rule run_epoch_stalled)
    then show ?thesis using ne True by simp
  next
    case False
    then have "\<forall>k < length (songs env p). clock env (Suc (ticks w) + k) \<noteq> clock env (ticks w)"
      by blast
    then show ?thesis using ne False run_epoch_mean[OF ne, of w mdl x y] by simp
  qed
qed

theorem run_epoch_stalled_clock_witness:
  "songs stalled_env Train = [[], []] \<and> clock stalled_env 1 = clock stalled_env 0 \<and>
   fst (run_epoch stalled_env example_model Train
          (ApplyGradients ''model/D/'' (1/2) False) (ApplyGradients ''model/G/'' 1 False)
          (process_start stalled_env empty_traindir)) = Inl ZeroDivisionError \<and>
   map fst (pass_losses stalled_env
          (ApplyGradients ''model/D/'' (1/2) False) (ApplyGradients ''model/G/'' 1 False)
          0 0 [[], []]) = [0, 2] \<and>
   map snd (pass_losses stalled_env
          (ApplyGradients ''model/D/'' (1/2) False) (ApplyGradients ''model/G/'' 1 False)
          0 0 [[], []]) = [1, 3] \<and>
   fst (run_epoch example_env example_model Train
          (ApplyGradients ''model/D/'' (1/2) False) (ApplyGradients ''model/G/'' 1 False)
          (process_start example_env empty_traindir)) = Inr (Some 1, Some 2) \<and>
   fst (run_epoch (example_env\<lparr>songs := (\<lambda>p. [])\<rparr>) example_model Validation NoOp NoOp
          (process_start example_env empty_traindir)) = Inr (None, None)"
proof -
  let ?x = "ApplyGradients ''model/D/'' (1/2) False"
  let ?y = "ApplyGradients ''model/G/'' 1 False"
  have s: "songs stalled_env Train \<noteq> []" "songs example_env Train \<noteq> []"
    by (simp_all add: stalled_env_def example_env_def)
  have stalled: "\<exists>k < length (songs stalled_env Train).
      clock stalled_env (Suc (ticks (process_start stalled_env empty_traindir)) + k) =
      clock stalled_env (ticks (process_start stalled_env empty_traindir))"
    by (intro exI[of _ 0]) (simp add: stalled_env_def example_env_def)
  have running: "\<not> (\<exists>k < length (songs example_env Train).
      clock example_env (Suc (ticks (process_start example_env empty_traindir)) + k) =
      clock example_env (ticks (process_start example_env empty_traindir)))"
    by (simp add: example_env_def process_start_def)
  have a: "fst (run_epoch stalled_env example_model Train ?x ?y
          (process_start stalled_env empty_traindir)) = Inl ZeroDivisionError"
    using run_epoch_stalled_clock[of stalled_env example_model Train ?x ?y
            "process_start stalled_env empty_traindir"]
    unfolding if_not_P[OF s(1)] if_P[OF stalled] by simp
  have "fst (run_epoch example_env example_model Train ?x ?y
          (process_start example_env empty_traindir)) =
       Inr (Some (sum_list (map fst (pass_losses example_env ?x ?y
                     (lr_var (process_start example_env empty_traindir))
                     (weights (process_start example_env empty_traindir)) (songs example_env Train)))
                   / real (length (songs example_env Train))),
            Some (sum_list (map snd (pass_losses example_env ?x ?y
                     (lr_var (process_start example_env empty_traindir))
                     (weights (process_start example_env empty_traindir)) (songs example_env Train)))
                   / real (length (songs example_env Train))))"
    using run_epoch_stalled_clock[of example_env example_model Train ?x ?y
            "process_start example_env empty_traindir"]
    unfolding if_not_P[OF s(2)] if_not_P[OF running] by simp
  then have b: "fst (run_epoch example_env example_model Train ?x ?y
          (process_start example_env empty_traindir)) = Inr (Some 1, Some 2)"
    by (simp add: example_env_def process_start_def)
  have c: "fst (run_epoch (example_env\<lparr>songs := (\<lambda>p. [])\<rparr>) example_model Validation NoOp NoOp
          (process_start example_env empty_traindir)) = Inr (None, None)"
    using run_epoch_stalled_clock[of "example_env\<lparr>songs := (\<lambda>p. [])\<rparr>" example_model Validation
            NoOp NoOp "process_start example_env empty_traindir"]
    by simp
  have d: "songs stalled_env Train = [[], []] \<and> clock stalled_env 1 = clock stalled_env 0"
    by (simp add: stalled_env_def example_env_def)
  have e: "map fst (pass_losses stalled_env
          (ApplyGradients ''model/D/'' (1/2) False) (ApplyGradients ''model/G/'' 1 False)
          0 0 [[], []]) = [0, 2] \<and>
     map snd (pass_losses stalled_env
          (ApplyGradients ''model/D/'' (1/2) False) (ApplyGradients ''model/G/'' 1 False)
          0 0 [[], []]) = [1, 3]"
    by (simp add: stalled_env_def example_env_def)
  from a b c d e show ?thesis by simp
qed

section \<open>The learning rate of an epoch and the global step\<close>

lemma py_pow_schedule: "py_pow x (max (real_of_int k) 0) = Inr (x ^ nat (max k 0))"
proof (cases "k \<le> 0")
  case True
  then show ?thesis by (simp add: py_pow_def max_def)
next
  case False
  then have k: "0 < k" by simp
  then have m: "max (real_of_int k) 0 = real_of_int k" "max k 0 = k" by simp_all
  have r: "real_of_int k = real (nat k)" using k by simp
  show ?thesis
  proof (cases "0 < x")
    case True
    have "x powr real_of_int k = x ^ nat k"
      unfolding r using True by (rule powr_realpow)
    then show ?thesis using True k by (simp add: py_pow_def m)
  next
    case False
    have "x powi k = x ^ nat k" using k by (simp add: power_int_def)
    then show ?thesis using False k by (simp add: py_pow_def m)
  qed
qed

lemma start_epoch_eq:
  "start_epoch cfg i w =
     (Inr (), w\<lparr>lr_var := epoch_learning_rate cfg i,
               trace := trace w @ [LearningRateLine (i + 1) (epoch_learning_rate cfg i)]\<rparr>)"
  unfolding start_epoch_def py_pow_schedule
  by (simp add: assign_lr_def emit_def epoch_learning_rate_def)

lemma recorded_steps_append [simp]:
  "recorded_steps (es @ fs) = recorded_steps es @ recorded_steps fs"
  by (simp add: recorded_steps_def)

lemma recorded_steps_Nil [simp]: "recorded_steps [] = []"
  by (simp add: recorded_steps_def)

lemma recorded_steps_Cons [simp]:
  "recorded_steps (e # es) = recorded_step e @ recorded_steps es"
  by (simp add: recorded_steps_def)

lemma recorded_steps_batch_lines:
  "list_all is_batch_line es \<Longrightarrow> recorded_steps es = []"
proof (induction es)
  case Nil
  then show ?case by simp
next
  case (Cons e es)
  then show ?case by (cases e) simp_all
qed

lemma RNNGAN_keeps_step: "RNNGAN is_training cfg = Inr m \<Longrightarrow> model_keeps_step m"
  by (auto simp: RNNGAN_def model_keeps_step_def split: if_splits option.splits)

lemma pass_frame_step_zero:
  assumes "pass_frame x y w w'" "keeps_step x" "keeps_step y" "step_zero w"
  shows "step_zero w'"
proof -
  have t: "trace w' = trace w @ drop (length (trace w)) (trace w')"
    using assms(1) unfolding pass_frame_def by (metis append_take_drop_id)
  have "recorded_steps (drop (length (trace w)) (trace w')) = []"
    using assms(1) unfolding pass_frame_def by (simp add: recorded_steps_batch_lines)
  then have "recorded_steps (trace w') = recorded_steps (trace w)"
    using t by (metis append_Nil2 recorded_steps_append)
  then show ?thesis
    using assms unfolding pass_frame_def step_zero_def by simp
qed

lemma run_epoch_step_zero:
  "keeps_step x \<Longrightarrow> keeps_step y \<Longrightarrow> step_zero w \<Longrightarrow> step_zero (snd (run_epoch env mdl p x y w))"
  using pass_frame_step_zero[OF run_epoch_frame] by blast

lemma emit_step_zero:
  "step_zero w \<Longrightarrow> recorded_step e = [] \<or> recorded_step e = [0] \<Longrightarrow> step_zero (emit e w)"
  by (auto simp: step_zero_def emit_def)

lemma train_and_validate_step_zero:
  assumes "model_keeps_step m" "step_zero w"
  shows "step_zero (snd (train_and_validate env m mvalid i w))"
proof (cases "m_opt m")
  case None
  then show ?thesis using assms by (simp add: train_and_validate_def)
next
  case (Some ops)
  obtain opt_d opt_g where ops: "ops = (opt_d, opt_g)" by (cases ops)
  have k: "keeps_step opt_d" "keeps_step opt_g"
    using assms(1) Some ops by (simp_all add: model_keeps_step_def)
  obtain r1 w1 where r1: "run_epoch env m Train opt_d opt_g w = (r1, w1)" by (metis surj_pair)
  have s1: "step_zero w1"
    using run_epoch_step_zero[OF k assms(2), of env m Train] r1 by simp
  show ?thesis
  proof (cases r1)
    case (Inl e)
    then show ?thesis using Some ops r1 s1 by (simp add: train_and_validate_def)
  next
    case (Inr tl)
    obtain a b where tl: "tl = (a, b)" by (cases tl)
    show ?thesis
    proof (cases "format_floats a b")
      case (Inl e)
      then show ?thesis using Some ops r1 s1 Inr tl by (simp add: train_and_validate_def)
    next
      case fr: (Inr tgd)
      obtain tg td where tgd: "tgd = (tg, td)" by (cases tgd)
      let ?w = "emit (TrainLossLine (i + 1) tg td) w1"
      have s2: "step_zero ?w" using s1 by (simp add: emit_step_zero)
      obtain r2 w2 where r2: "run_epoch env mvalid Validation NoOp NoOp ?w = (r2, w2)"
        by (metis surj_pair)
      have s3: "step_zero w2"
        using run_epoch_step_zero[OF _ _ s2, of NoOp NoOp env mvalid Validation] r2 by simp
      have s4: "step_zero (emit (ValidLossLine (i + 1) vg vd) w2)" for vg vd
        using s3 by (simp add: emit_step_zero)
      show ?thesis
        using Some ops r1 Inr tl fr tgd r2 s3 s4
        by (auto simp: train_and_validate_def split: sum.splits prod.splits)
    qed
  qed
qed

lemma exit_check_frame:
  "global_step_var (snd (exit_check fl env t0 w)) = global_step_var w"
  "trace (snd (exit_check fl env t0 w)) = trace w"
  "files (snd (exit_check fl env t0 w)) = files w"
  "lr_var (snd (exit_check fl env t0 w)) = lr_var w"
  by (auto simp: exit_check_def time_time_def split: prod.splits)

lemma checkpointing_step_zero:
  assumes "step_zero w"
  shows "step_zero (snd (checkpointing fl env plots_dir t0 i ls w))"
proof -
  have "step_zero (write_plots plots_dir ls (saver_save w))"
    using assms
    by (cases ls) (auto simp: step_zero_def write_plots_def saver_save_def emit_def
        checkpoint_step_zero_def Let_def)
  then have "step_zero (snd (exit_check fl env t0 (write_plots plots_dir ls (saver_save w))))"
    by (simp add: step_zero_def exit_check_frame)
  then show ?thesis using assms by (simp add: checkpointing_def)
qed

lemma epoch_step_zero:
  assumes "model_keeps_step m" "step_zero w"
  shows "step_zero (snd (epoch fl cfg env m mvalid plots_dir t0 i w))"
proof -
  let ?w1 = "snd (start_epoch cfg i w)"
  have s1: "step_zero ?w1"
    using assms(2) by (simp add: start_epoch_eq step_zero_def)
  have s2: "step_zero (snd (train_and_validate env m mvalid i ?w1))"
    by (rule train_and_validate_step_zero[OF assms(1) s1])
  show ?thesis
    using s2 checkpointing_step_zero
    by (auto simp: epoch_def start_epoch_eq split: sum.splits prod.splits)
qed

lemma epoch_loop_step_zero:
  assumes "model_keeps_step m" "step_zero w"
  shows "step_zero (snd (epoch_loop fl cfg env m mvalid plots_dir t0 is w))"
  using assms(2)
proof (induction "is" arbitrary: w)
  case Nil
  then show ?case by simp
next
  case (Cons i rest)
  have "step_zero (snd (epoch fl cfg env m mvalid plots_dir t0 i w))"
    by (rule epoch_step_zero[OF assms(1) Cons.prems])
  then show ?case
    using Cons.IH by (auto split: sum.splits prod.splits)
qed

lemma makedirs_frame:
  "global_step_var (makedirs d w) = global_step_var w"
  "trace (makedirs d w) = trace w"
  "checkpoint_file (files (makedirs d w)) = checkpoint_file (files w)"
  "lr_var (makedirs d w) = lr_var w"
  by (simp_all add: makedirs_def)

lemma makedirs_step_zero: "step_zero w \<Longrightarrow> step_zero (makedirs d w)"
  by (simp add: step_zero_def makedirs_frame checkpoint_step_zero_def)

lemma restore_or_initialize_step_zero:
  assumes "list_all (\<lambda>s. s = 0) (recorded_steps (trace w))" "checkpoint_step_zero (files w)"
  shows "step_zero (restore_or_initialize env w)"
  using assms
  by (auto simp: step_zero_def restore_or_initialize_def emit_def checkpoint_step_zero_def
      split: option.splits)

lemma evaluating_test_step_zero:
  assumes "step_zero w"
  shows "step_zero (snd (evaluating_test env mtest w))"
proof -
  have "step_zero (snd (run_epoch env mtest Test NoOp NoOp w))"
    using run_epoch_step_zero[OF _ _ assms, of NoOp NoOp env mtest Test] by simp
  then show ?thesis
    by (auto simp: evaluating_test_def emit_step_zero split: sum.splits prod.splits)
qed

lemma training_step_zero:
  assumes "step_zero w"
  shows "step_zero (snd (training fl cfg env dir t0 w))"
proof (cases "RNNGAN True cfg")
  case (Inl e)
  then show ?thesis using assms by (simp add: training_def)
next
  case (Inr m)
  obtain mv where mv: "RNNGAN False (cfg\<lparr>batch_size := 1\<rparr>) = Inr mv"
    by (simp add: RNNGAN_def)
  let ?w = "makedirs (os_path_join dir ''plots'')
               (makedirs (os_path_join dir ''summaries'')
                 (makedirs dir (restore_or_initialize env w)))"
  have "step_zero (restore_or_initialize env w)"
    by (rule restore_or_initialize_step_zero) (use assms in \<open>simp_all add: step_zero_def\<close>)
  then have s: "step_zero ?w" by (simp add: makedirs_step_zero)
  have l: "step_zero (snd (epoch_loop fl cfg env m mv (Some (os_path_join dir ''plots'')) t0
             [0..max_max_epoch cfg - 1] ?w))"
    by (rule epoch_loop_step_zero[OF RNNGAN_keeps_step[OF Inr] s])
  show ?thesis
    using Inr mv l evaluating_test_step_zero
    by (auto simp: training_def split: sum.splits prod.splits)
qed

lemma process_start_step_zero:
  "checkpoint_step_zero fs \<Longrightarrow> step_zero (process_start env fs)"
  by (simp add: step_zero_def process_start_def)

lemma main_step_zero:
  assumes "checkpoint_step_zero fs"
  shows "step_zero (snd (main fl env fs))"
proof -
  have s0: "step_zero (process_start env fs)"
    by (rule process_start_step_zero[OF assms])
  have s1: "step_zero (emit (NumFeaturesLine (numfeatures env)) (process_start env fs))"
    using s0 by (simp add: emit_step_zero)
  have s2: "step_zero (snd (time_time env (emit (NumFeaturesLine (numfeatures env)) (process_start env fs))))"
    using s1 by (simp add: time_time_def step_zero_def)
  show ?thesis
    using s0 s1 s2 training_step_zero
    by (auto simp: main_def split: option.splits sum.splits prod.splits)
qed

lemma runs_step_zero:
  "checkpoint_step_zero fs \<Longrightarrow> list_all run_steps_zero (runs invocations fs)"
proof (induction invocations arbitrary: fs)
  case Nil
  then show ?case by simp
next
  case (Cons inv rest)
  obtain fl env where inv: "inv = (fl, env)" by (cases inv)
  obtain r w where m: "main fl env fs = (r, w)" by (metis surj_pair)
  have s: "step_zero w" using main_step_zero[OF Cons.prems, of fl env] m by simp
  then have "checkpoint_step_zero (files w)" by (simp add: step_zero_def)
  then have ih: "list_all run_steps_zero (runs rest (files w))" by (rule Cons.IH)
  have "run_steps_zero (r, w)" using s by (simp add: run_steps_zero_def step_zero_def)
  then show ?case using ih inv m by simp
qed

lemmas run_simps = main_def training_def
  get_config_def SmallConfig_def process_start_def emit_def time_time_def RNNGAN_def
  restore_or_initialize_def makedirs_def os_path_join_def epoch_def start_epoch_def
  py_pow_def assign_lr_def train_and_validate_def run_epoch_def rewind_def get_batch_def
  session_run_def format_floats_def format_float_def checkpointing_def saver_save_def
  write_plots_def py_not_def exit_check_def exit_requested_def evaluating_test_def
  upto.simps

text \<open>
  Claim C9. The global step is created as 0, no operation the program builds is given
  it to increment, and a restored checkpoint was saved by an earlier run; so in every
  run of a training directory that started without a checkpoint, every saved checkpoint
  and every metrics line records the global step 0.
\<close>

theorem global_step_stays_zero:
  "checkpoint_file fs = None \<Longrightarrow> list_all run_steps_zero (runs invocations fs)"
  by (rule runs_step_zero) (simp add: checkpoint_step_zero_def)

lemma hurried_run:
  "map (\<lambda>rw. (fst rw, recorded_steps (trace (snd rw))))
       (runs [(hurried_flags, slow_env), (hurried_flags, slow_env)] empty_traindir) =
     [(Inl (NameError ''datetime''), [0, 0]), (Inl (NameError ''datetime''), [0, 0])]"
  by (simp add: run_simps hurried_flags_def slow_env_def example_flags_def example_env_def
        empty_traindir_def)

theorem global_step_stays_zero_witness:
  "checkpoint_file empty_traindir = None \<and>
   list_all run_steps_zero (runs [(hurried_flags, slow_env), (hurried_flags, slow_env)] empty_traindir) \<and>
   map (\<lambda>rw. (fst rw, recorded_steps (trace (snd rw))))
       (runs [(hurried_flags, slow_env), (hurried_flags, slow_env)] empty_traindir) =
     [(Inl (NameError ''datetime''), [0, 0]), (Inl (NameError ''datetime''), [0, 0])]"
proof -
  have a: "checkpoint_file empty_traindir = None" by (simp add: empty_traindir_def)
  from a global_step_stays_zero[OF a] hurried_run show ?thesis by (intro conjI)
qed

section \<open>The wall-clock exit\<close>

lemma format_floats_errors: "format_floats a b = Inl e \<Longrightarrow> \<exists>s. e = TypeError s"
  by (auto simp: format_floats_def format_float_def split: option.splits)

lemma is_name_error_simps [simp]:
  "is_name_error (Inr v) = False"
  "is_name_error (Inl e) = (\<exists>s. e = NameError s)"
  by (auto simp: is_name_error_def split: error.splits)

lemma run_epoch_no_name_error: "\<not> is_name_error (fst (run_epoch env mdl p x y w))"
proof (cases "fst (run_epoch env mdl p x y w)")
  case (Inl e)
  then show ?thesis using run_epoch_errors[OF Inl] by simp
next
  case (Inr v)
  then show ?thesis by simp
qed

lemma format_floats_no_name_error: "\<not> is_name_error (format_floats a b)"
  by (auto simp: format_floats_def format_float_def split: option.splits)

lemma train_and_validate_no_name_error:
  "\<not> is_name_error (fst (train_and_validate env m mvalid i w))"
proof (cases "m_opt m")
  case None
  then show ?thesis by (simp add: train_and_validate_def)
next
  case (Some ops)
  obtain opt_d opt_g where ops: "ops = (opt_d, opt_g)" by (cases ops)
  obtain r1 w1 where r1: "run_epoch env m Train opt_d opt_g w = (r1, w1)" by (metis surj_pair)
  have n1: "\<not> is_name_error r1" using run_epoch_no_name_error[of env m Train opt_d opt_g w] r1 by simp
  show ?thesis
  proof (cases r1)
    case (Inl e)
    then show ?thesis using Some ops r1 n1 by (simp add: train_and_validate_def)
  next
    case (Inr tl)
    obtain a b where tl: "tl = (a, b)" by (cases tl)
    show ?thesis
    proof (cases "format_floats a b")
      case (Inl e)
      then show ?thesis
        using Some ops r1 Inr tl format_floats_no_name_error[of a b]
        by (simp add: train_and_validate_def)
    next
      case fr: (Inr tgd)
      obtain tg td where tgd: "tgd = (tg, td)" by (cases tgd)
      let ?w = "emit (TrainLossLine (i + 1) tg td) w1"
      obtain r2 w2 where r2: "run_epoch env mvalid Validation NoOp NoOp ?w = (r2, w2)"
        by (metis surj_pair)
      have n2: "\<not> is_name_error r2"
        using run_epoch_no_name_error[of env mvalid Validation NoOp NoOp ?w] r2 by simp
      show ?thesis
      proof (cases r2)
        case (Inl e)
        then show ?thesis using Some ops r1 Inr tl fr tgd r2 n2
          by (simp add: train_and_validate_def)
      next
        case vr: (Inr vl)
        obtain c d where vl: "vl = (c, d)" by (cases vl)
        show ?thesis
          using Some ops r1 Inr tl fr tgd r2 vr vl format_floats_no_name_error[of c d]
          by (cases "format_floats c d") (auto simp: train_and_validate_def)
      qed
    qed
  qed
qed

lemma exit_check_disabled:
  "exit_after fl \<le> 0 \<Longrightarrow> exit_check fl env t0 w = (Inr (), w)"
  by (simp add: exit_check_def)

lemma checkpointing_no_name_error:
  "exit_after fl \<le> 0 \<Longrightarrow> \<not> is_name_error (fst (checkpointing fl env plots_dir t0 i ls w))"
  by (simp add: checkpointing_def exit_check_disabled)

lemma epoch_no_name_error:
  assumes "exit_after fl \<le> 0"
  shows "\<not> is_name_error (fst (epoch fl cfg env m mvalid plots_dir t0 i w))"
proof -
  let ?w = "w\<lparr>lr_var := epoch_learning_rate cfg i,
               trace := trace w @ [LearningRateLine (i + 1) (epoch_learning_rate cfg i)]\<rparr>"
  obtain r w1 where t: "train_and_validate env m mvalid i ?w = (r, w1)" by (metis surj_pair)
  have n: "\<not> is_name_error r" using train_and_validate_no_name_error[of env m mvalid i ?w] t by simp
  show ?thesis
  proof (cases r)
    case (Inl e)
    then show ?thesis using t n by (simp add: epoch_def start_epoch_eq)
  next
    case (Inr ls)
    then show ?thesis
      using t checkpointing_no_name_error[OF assms, of env plots_dir t0 i ls w1]
      by (simp add: epoch_def start_epoch_eq)
  qed
qed

lemma epoch_loop_no_name_error:
  assumes "exit_after fl \<le> 0"
  shows "\<not> is_name_error (fst (epoch_loop fl cfg env m mvalid plots_dir t0 is w))"
proof (induction "is" arbitrary: w)
  case Nil
  then show ?case by simp
next
  case (Cons i rest)
  obtain r w1 where e: "epoch fl cfg env m mvalid plots_dir t0 i w = (r, w1)" by (metis surj_pair)
  have "\<not> is_name_error r" using epoch_no_name_error[OF assms, of cfg env m mvalid plots_dir t0 i w] e by simp
  then show ?case using e Cons.IH[of w1] by (cases r) auto
qed

lemma evaluating_test_no_name_error:
  "\<not> is_name_error (fst (evaluating_test env mtest w))"
proof -
  obtain r w1 where r: "run_epoch env mtest Test NoOp NoOp w = (r, w1)" by (metis surj_pair)
  have n: "\<not> is_name_error r" using run_epoch_no_name_error[of env mtest Test NoOp NoOp w] r by simp
  show ?thesis
  proof (cases r)
    case (Inl e)
    then show ?thesis using r n by (simp add: evaluating_test_def)
  next
    case (Inr tl)
    obtain a b where tl: "tl = (a, b)" by (cases tl)
    show ?thesis using r Inr tl format_floats_no_name_error[of a b]
      by (cases "format_floats a b") (auto simp: evaluating_test_def)
  qed
qed

lemma training_no_name_error:
  assumes "exit_after fl \<le> 0"
  shows "\<not> is_name_error (fst (training fl cfg env dir t0 w))"
proof (cases "RNNGAN True cfg")
  case (Inl e)
  then show ?thesis by (auto simp: training_def RNNGAN_def split: option.splits if_splits)
next
  case (Inr m)
  obtain mv where mv: "RNNGAN False (cfg\<lparr>batch_size := 1\<rparr>) = Inr mv"
    by (simp add: RNNGAN_def)
  let ?w = "makedirs (os_path_join dir ''plots'')
               (makedirs (os_path_join dir ''summaries'')
                 (makedirs dir (restore_or_initialize env w)))"
  obtain r w1 where l: "epoch_loop fl cfg env m mv (Some (os_path_join dir ''plots'')) t0
             [0..max_max_epoch cfg - 1] ?w = (r, w1)" by (metis surj_pair)
  have n: "\<not> is_name_error r"
    using epoch_loop_no_name_error[OF assms, of cfg env m mv "Some (os_path_join dir ''plots'')" t0
        "[0..max_max_epoch cfg - 1]" ?w] l by simp
  show ?thesis
    using Inr mv l n evaluating_test_no_name_error[of env mv w1]
    by (cases r) (auto simp: training_def)
qed

lemma main_no_name_error:
  assumes "exit_after fl \<le> 0"
  shows "\<not> is_name_error (fst (main fl env fs))"
proof -
  have "\<not> is_name_error (fst (training fl cfg env dir
            (fst (time_time env (emit (NumFeaturesLine (numfeatures env)) (process_start env fs))))
            (snd (time_time env (emit (NumFeaturesLine (numfeatures env)) (process_start env fs))))))"
    for cfg dir
    by (rule training_no_name_error[OF assms])
  then show ?thesis
    by (auto simp: main_def get_config_def split: option.splits sum.splits prod.splits if_splits)
qed

text \<open>
  Claim C3, as the spec states it: with the ceiling set to 0 minutes the controller
  requests the exit at the first checkpoint boundary. The code guards the elapsed-time
  test with \<^verbatim>\<open>FLAGS.exit_after > 0\<close>, so a ceiling of 0 switches the test off. On the
  concrete run below (ceiling 0, a checkpoint every ten epochs) the first checkpoint
  is written in epoch 0, the run goes on through all thirteen epochs and the test
  pass, writes a second checkpoint in epoch 10, and returns normally; the clock is
  read 82 times, never for an exit test.
\<close>

theorem exit_after_zero_counterexample:
  "exit_after example_flags = 0 \<and>
   fst (main example_flags example_env empty_traindir) = Inr () \<and>
   recorded_steps (trace (snd (main example_flags example_env empty_traindir))) = [0, 0, 0, 0] \<and>
   ticks (snd (main example_flags example_env empty_traindir)) = 82"
proof -
  have "(case main example_flags example_env empty_traindir of
           (r, w) \<Rightarrow> (r, recorded_steps (trace w), ticks w)) = (Inr (), [0, 0, 0, 0], 82)"
    by (simp add: run_simps example_flags_def example_env_def empty_traindir_def)
  then show ?thesis
    by (cases "main example_flags example_env empty_traindir") (simp add: example_flags_def)
qed

text \<open>
  Claim C3, amended. With the ceiling set to 0 minutes the wall-clock test is
  disabled: it is false at every checkpoint boundary whatever the clock says, and no
  run enters the exit branch (the only place that raises \<^verbatim>\<open>NameError\<close>).
\<close>

theorem exit_after_zero_never_exits:
  "exit_after fl = 0 \<Longrightarrow>
     \<not> exit_requested fl train_start_time now \<and> fst (main fl env fs) \<noteq> Inl (NameError msg)"
  using main_no_name_error[of fl env fs] by (auto simp: exit_requested_def)

theorem exit_after_zero_never_exits_witness:
  "exit_after example_flags = 0 \<and>
   \<not> exit_requested example_flags 0 1000000 \<and>
   fst (main example_flags example_env empty_traindir) \<noteq> Inl (NameError ''datetime'')"
proof -
  have a: "exit_after example_flags = 0" by (simp add: example_flags_def)
  from a exit_after_zero_never_exits[OF a, of 0 1000000 example_env empty_traindir "''datetime''"]
  show ?thesis by (intro conjI) simp_all
qed

section \<open>Configuration errors\<close>

text \<open>
  Claim C8. When \<^verbatim>\<open>--datadir\<close> or \<^verbatim>\<open>--traindir\<close> is missing (unset or empty) or the
  model name is none of the four presets, \<open>main\<close> raises \<^verbatim>\<open>ValueError\<close>; the training
  directory is left as it was found, and the process state is the initial one, at
  most with the feature-count line printed: no clock reading, no variable created, no
  pass, no directory, no checkpoint.
\<close>

theorem configuration_errors_are_fatal:
  assumes "py_not (datadir fl) \<or> py_not (traindir fl) \<or>
           model fl \<notin> {''small'', ''medium'', ''large'', ''test''}"
  shows "(\<exists>msg. fst (main fl env fs) = Inl (ValueError msg)) \<and>
         files (snd (main fl env fs)) = fs \<and>
         (snd (main fl env fs) = process_start env fs \<or>
          snd (main fl env fs) = emit (NumFeaturesLine (numfeatures env)) (process_start env fs))"
  using assms
  by (auto simp: main_def py_not_def get_config_def process_start_def emit_def
      split: option.splits)

theorem configuration_errors_are_fatal_witness:
  "fst (main (example_flags\<lparr>model := ''huge''\<rparr>) example_env empty_traindir) =
     Inl (ValueError ''Invalid model: %s'') \<and>
   fst (main (example_flags\<lparr>datadir := None\<rparr>) example_env empty_traindir) =
     Inl (ValueError ''Must set --datadir to midi music dir.'') \<and>
   fst (main (example_flags\<lparr>traindir := Some ''''\<rparr>) example_env empty_traindir) =
     Inl (ValueError ''Must set --traindir to dir where I can save model and plots.'') \<and>
   files (snd (main (example_flags\<lparr>model := ''huge''\<rparr>) example_env empty_traindir)) = empty_traindir \<and>
   trace (snd (main (example_flags\<lparr>model := ''huge''\<rparr>) example_env empty_traindir)) = [NumFeaturesLine 4]"
proof -
  have a: "py_not (datadir (example_flags\<lparr>model := ''huge''\<rparr>)) \<or>
           py_not (traindir (example_flags\<lparr>model := ''huge''\<rparr>)) \<or>
           model (example_flags\<lparr>model := ''huge''\<rparr>) \<notin> {''small'', ''medium'', ''large'', ''test''}"
    by simp
  have b: "fst (main (example_flags\<lparr>model := ''huge''\<rparr>) example_env empty_traindir) =
     Inl (ValueError ''Invalid model: %s'')"
    by (simp add: main_def example_flags_def get_config_def)
  have c: "fst (main (example_flags\<lparr>datadir := None\<rparr>) example_env empty_traindir) =
     Inl (ValueError ''Must set --datadir to midi music dir.'')"
    by (simp add: main_def example_flags_def)
  have d: "fst (main (example_flags\<lparr>traindir := Some ''''\<rparr>) example_env empty_traindir) =
     Inl (ValueError ''Must set --traindir to dir where I can save model and plots.'')"
    by (simp add: main_def example_flags_def)
  have e: "trace (snd (main (example_flags\<lparr>model := ''huge''\<rparr>) example_env empty_traindir)) = [NumFeaturesLine 4]"
    by (simp add: main_def example_flags_def get_config_def emit_def process_start_def example_env_def)
  from configuration_errors_are_fatal[OF a, of example_env empty_traindir] b c d e
  show ?thesis by (intro conjI) simp_all
qed

section \<open>The learning-rate schedule\<close>

lemma train_and_validate_invariant:
  assumes "P w"
    and "\<And>mdl p x y v. P v \<Longrightarrow> P (snd (run_epoch env mdl p x y v))"
    and "\<And>n g d v. P v \<Longrightarrow> P (emit (TrainLossLine n g d) v)"
    and "\<And>n g d v. P v \<Longrightarrow> P (emit (ValidLossLine n g d) v)"
  shows "P (snd (train_and_validate env m mvalid i w))"
proof (cases "m_opt m")
  case None
  then show ?thesis using assms(1) by (simp add: train_and_validate_def)
next
  case (Some ops)
  obtain opt_d opt_g where ops: "ops = (opt_d, opt_g)" by (cases ops)
  obtain r1 w1 where r1: "run_epoch env m Train opt_d opt_g w = (r1, w1)" by (metis surj_pair)
  have s1: "P w1" using assms(2)[OF assms(1), of m Train opt_d opt_g] r1 by simp
  show ?thesis
  proof (cases r1)
    case (Inl e)
    then show ?thesis using Some ops r1 s1 by (simp add: train_and_validate_def)
  next
    case (Inr tl)
    obtain a b where tl: "tl = (a, b)" by (cases tl)
    show ?thesis
    proof (cases "format_floats a b")
      case (Inl e)
      then show ?thesis using Some ops r1 s1 Inr tl by (simp add: train_and_validate_def)
    next
      case fr: (Inr tgd)
      obtain tg td where tgd: "tgd = (tg, td)" by (cases tgd)
      let ?w = "emit (TrainLossLine (i + 1) tg td) w1"
      have s2: "P ?w" using s1 by (rule assms(3))
      obtain r2 w2 where r2: "run_epoch env mvalid Validation NoOp NoOp ?w = (r2, w2)"
        by (metis surj_pair)
      have s3: "P w2" using assms(2)[OF s2, of mvalid Validation NoOp NoOp] r2 by simp
      have s4: "P (emit (ValidLossLine (i + 1) vg vd) w2)" for vg vd
        using s3 by (rule assms(4))
      show ?thesis
        using Some ops r1 Inr tl fr tgd r2 s3 s4
        by (auto simp: train_and_validate_def split: sum.splits prod.splits)
    qed
  qed
qed

lemma train_and_validate_lr:
  "lr_var (snd (train_and_validate env m mvalid i w)) = lr_var w"
proof -
  have "lr_var (snd (run_epoch env mdl p x y v)) = lr_var v" for mdl p x y v
    using run_epoch_frame[of x y v env mdl p] by (simp add: pass_frame_def)
  then show ?thesis
    by (intro train_and_validate_invariant[where P = "\<lambda>v. lr_var v = lr_var w"])
      (simp_all add: emit_def)
qed

lemma checkpointing_lr: "lr_var (snd (checkpointing fl env plots_dir t0 i ls w)) = lr_var w"
  by (cases ls)
    (auto simp: checkpointing_def exit_check_frame write_plots_def saver_save_def emit_def Let_def)

lemma epoch_lr:
  "lr_var (snd (epoch fl cfg env m mvalid plots_dir t0 i w)) = epoch_learning_rate cfg i"
proof -
  let ?w = "w\<lparr>lr_var := epoch_learning_rate cfg i,
               trace := trace w @ [LearningRateLine (i + 1) (epoch_learning_rate cfg i)]\<rparr>"
  obtain r w1 where t: "train_and_validate env m mvalid i ?w = (r, w1)" by (metis surj_pair)
  have l: "lr_var w1 = epoch_learning_rate cfg i"
    using train_and_validate_lr[of env m mvalid i ?w] t by simp
  show ?thesis
  proof (cases r)
    case (Inl e)
    then show ?thesis using t l by (simp add: epoch_def start_epoch_eq)
  next
    case (Inr ls)
    then show ?thesis using t l by (simp add: epoch_def start_epoch_eq checkpointing_lr)
  qed
qed

text \<open>The learning rates a whole run prints.\<close>

lemma loop_entry_frame:
  "ticks (loop_entry env dir w) = ticks w"
  "trace (loop_entry env dir w) =
     trace w @ [if checkpoint_file (files w) = None then FreshLine else RestoredLine]"
  by (auto simp: loop_entry_def makedirs_def restore_or_initialize_def emit_def split: option.splits)

lemma main_reaches_training:
  assumes "datadir fl = Some ddir" "ddir \<noteq> []" "traindir fl = Some dir" "dir \<noteq> []"
    and "get_config fl = Inr cfg"
  shows "main fl env fs =
           training fl cfg env dir (clock env 0)
             ((emit (NumFeaturesLine (numfeatures env)) (process_start env fs))\<lparr>ticks := 1\<rparr>)"
  using assms by (simp add: main_def time_time_def emit_def process_start_def)

lemma lr_lines_simps [simp]:
  "lr_lines [] = []"
  "lr_lines (e # es) = lr_line e @ lr_lines es"
  "lr_lines (es @ fs) = lr_lines es @ lr_lines fs"
  by (simp_all add: lr_lines_def)

lemma lr_lines_batch_lines: "list_all is_batch_line es \<Longrightarrow> lr_lines es = []"
proof (induction es)
  case Nil
  then show ?case by simp
next
  case (Cons e es)
  then show ?case by (cases e) simp_all
qed

lemma run_epoch_lr_lines:
  "lr_lines (trace (snd (run_epoch env mdl p x y w))) = lr_lines (trace w)"
proof -
  let ?w = "snd (run_epoch env mdl p x y w)"
  have f: "pass_frame x y w ?w" by (rule run_epoch_frame)
  then have t: "trace ?w = trace w @ drop (length (trace w)) (trace ?w)"
    unfolding pass_frame_def by (metis append_take_drop_id)
  have "lr_lines (drop (length (trace w)) (trace ?w)) = []"
    using f unfolding pass_frame_def by (simp add: lr_lines_batch_lines)
  then show ?thesis using t by (metis append_Nil2 lr_lines_simps(3))
qed

lemma train_and_validate_lr_lines:
  "lr_lines (trace (snd (train_and_validate env m mvalid i w))) = lr_lines (trace w)"
  by (intro train_and_validate_invariant[where P = "\<lambda>v. lr_lines (trace v) = lr_lines (trace w)"])
     (simp_all add: run_epoch_lr_lines emit_def)

lemma checkpointing_lr_lines:
  "lr_lines (trace (snd (checkpointing fl env plots_dir t0 i ls w))) = lr_lines (trace w)"
  by (cases ls)
    (auto simp: checkpointing_def exit_check_frame write_plots_def saver_save_def emit_def Let_def)

lemma epoch_lr_lines:
  "lr_lines (trace (snd (epoch fl cfg env m mvalid plots_dir t0 i w))) =
     lr_lines (trace w) @ [(i + 1, epoch_learning_rate cfg i)]"
proof -
  let ?w = "w\<lparr>lr_var := epoch_learning_rate cfg i,
               trace := trace w @ [LearningRateLine (i + 1) (epoch_learning_rate cfg i)]\<rparr>"
  obtain r w1 where t: "train_and_validate env m mvalid i ?w = (r, w1)" by (metis surj_pair)
  have l: "lr_lines (trace w1) = lr_lines (trace w) @ [(i + 1, epoch_learning_rate cfg i)]"
    using train_and_validate_lr_lines[of env m mvalid i ?w] t by simp
  show ?thesis
  proof (cases r)
    case (Inl e)
    then show ?thesis using t l by (simp add: epoch_def start_epoch_eq)
  next
    case (Inr ls)
    then show ?thesis using t l by (simp add: epoch_def start_epoch_eq checkpointing_lr_lines)
  qed
qed

lemma epoch_loop_lr_lines:
  "\<exists>k \<le> length is.
      lr_lines (trace (snd (epoch_loop fl cfg env m mvalid plots_dir t0 is w))) =
        lr_lines (trace w) @ map (\<lambda>i. (i + 1, epoch_learning_rate cfg i)) (take k is) \<and>
      (fst (epoch_loop fl cfg env m mvalid plots_dir t0 is w) = Inr () \<longrightarrow> k = length is)"
proof (induction "is" arbitrary: w)
  case Nil
  then show ?case by simp
next
  case (Cons i rest)
  obtain r w1 where e: "epoch fl cfg env m mvalid plots_dir t0 i w = (r, w1)" by (metis surj_pair)
  have l: "lr_lines (trace w1) = lr_lines (trace w) @ [(i + 1, epoch_learning_rate cfg i)]"
    using epoch_lr_lines[of fl cfg env m mvalid plots_dir t0 i w] e by simp
  show ?case
  proof (cases r)
    case (Inl err)
    have "lr_lines (trace (snd (epoch_loop fl cfg env m mvalid plots_dir t0 (i # rest) w))) =
        lr_lines (trace w) @ map (\<lambda>i. (i + 1, epoch_learning_rate cfg i)) (take (Suc 0) (i # rest))"
      using e Inl l by simp
    moreover have "fst (epoch_loop fl cfg env m mvalid plots_dir t0 (i # rest) w) \<noteq> Inr ()"
      using e Inl by simp
    ultimately show ?thesis
      by (intro exI[of _ "Suc 0"]) simp
  next
    case (Inr u)
    obtain k where k: "k \<le> length rest"
      "lr_lines (trace (snd (epoch_loop fl cfg env m mvalid plots_dir t0 rest w1))) =
        lr_lines (trace w1) @ map (\<lambda>i. (i + 1, epoch_learning_rate cfg i)) (take k rest)"
      "fst (epoch_loop fl cfg env m mvalid plots_dir t0 rest w1) = Inr () \<longrightarrow> k = length rest"
      using Cons.IH[of w1] by blast
    have "epoch_loop fl cfg env m mvalid plots_dir t0 (i # rest) w =
          epoch_loop fl cfg env m mvalid plots_dir t0 rest w1"
      using e Inr by simp
    then show ?thesis
      using k l by (intro exI[of _ "Suc k"]) simp
  qed
qed

lemma evaluating_test_lr_lines:
  "lr_lines (trace (snd (evaluating_test env mtest w))) = lr_lines (trace w)"
proof -
  obtain r w1 where r: "run_epoch env mtest Test NoOp NoOp w = (r, w1)" by (metis surj_pair)
  have "lr_lines (trace w1) = lr_lines (trace w)"
    using run_epoch_lr_lines[of env mtest Test NoOp NoOp w] r by simp
  then show ?thesis
    using r by (auto simp: evaluating_test_def emit_def split: sum.splits prod.splits)
qed

lemma training_lr_lines:
  "\<exists>k \<le> nat (max_max_epoch cfg).
      lr_lines (trace (snd (training fl cfg env dir t0 w))) =
        lr_lines (trace w) @ map (\<lambda>i. (i + 1, epoch_learning_rate cfg i)) (take k [0..max_max_epoch cfg - 1]) \<and>
      (fst (training fl cfg env dir t0 w) = Inr () \<longrightarrow> k = nat (max_max_epoch cfg))"
proof (cases "RNNGAN True cfg")
  case (Inl e)
  then show ?thesis by (intro exI[of _ 0]) (simp add: training_def)
next
  case (Inr m)
  obtain mv where mv: "RNNGAN False (cfg\<lparr>batch_size := 1\<rparr>) = Inr mv"
    by (simp add: RNNGAN_def)
  let ?w = "loop_entry env dir w"
  have lw: "lr_lines (trace ?w) = lr_lines (trace w)"
    by (simp add: loop_entry_frame)
  obtain r w1 where l: "epoch_loop fl cfg env m mv (Some (os_path_join dir ''plots'')) t0
             [0..max_max_epoch cfg - 1] ?w = (r, w1)" by (metis surj_pair)
  obtain k where k: "k \<le> length [0..max_max_epoch cfg - 1]"
    "lr_lines (trace w1) =
        lr_lines (trace w) @ map (\<lambda>i. (i + 1, epoch_learning_rate cfg i)) (take k [0..max_max_epoch cfg - 1])"
    "r = Inr () \<longrightarrow> k = length [0..max_max_epoch cfg - 1]"
    using epoch_loop_lr_lines[of "[0..max_max_epoch cfg - 1]" fl cfg env m mv
        "Some (os_path_join dir ''plots'')" t0 ?w] l lw by auto
  have t: "training fl cfg env dir t0 w =
        (case r of Inl e \<Rightarrow> (Inl e, w1) | Inr u \<Rightarrow> evaluating_test env mv w1)"
    using Inr mv l by (simp add: training_def loop_entry_def)
  show ?thesis
  proof (cases r)
    case (Inl e)
    then show ?thesis using k t by (intro exI[of _ k]) simp
  next
    case r: (Inr u)
    then show ?thesis
      using k t evaluating_test_lr_lines[of env mv w1] by (intro exI[of _ k]) simp
  qed
qed

lemma main_lr_lines:
  assumes "get_config fl = Inr cfg"
  shows "\<exists>k \<le> nat (max_max_epoch cfg).
      lr_lines (trace (snd (main fl env fs))) =
        map (\<lambda>i. (i + 1, epoch_learning_rate cfg i)) (take k [0..max_max_epoch cfg - 1]) \<and>
      (fst (main fl env fs) = Inr () \<longrightarrow> k = nat (max_max_epoch cfg))"
proof -
  let ?w = "(emit (NumFeaturesLine (numfeatures env)) (process_start env fs))\<lparr>ticks := 1\<rparr>"
  have w: "lr_lines (trace ?w) = []" by (simp add: emit_def process_start_def)
  show ?thesis
  proof (cases "\<exists>ddir dir. datadir fl = Some ddir \<and> ddir \<noteq> [] \<and> traindir fl = Some dir \<and> dir \<noteq> []")
    case True
    then obtain ddir dir where d: "datadir fl = Some ddir" "ddir \<noteq> []" "traindir fl = Some dir" "dir \<noteq> []"
      by blast
    show ?thesis
      unfolding main_reaches_training[OF d assms]
      using training_lr_lines[of cfg fl env dir "clock env 0" ?w] w by simp
  next
    case False
    then have "fst (main fl env fs) \<noteq> Inr () \<and> lr_lines (trace (snd (main fl env fs))) = []"
      by (auto simp: main_def process_start_def split: option.splits)
    then show ?thesis by (intro exI[of _ 0]) simp
  qed
qed

text \<open>
  Claim C2. In the loop body of epoch index \<open>i\<close> the learning rate assigned and printed
  is the base rate times the decay factor to the power \<open>max (i - max_epoch) 0\<close>, and it
  is still the value of the learning-rate variable when the body ends, however it
  ends. With decay 0.9 and \<open>max_epoch = 4\<close>, index 6 gives base times \<open>0.9\<^sup>2\<close> and index
  2 gives the base rate. Over a whole run of \<open>main\<close> the learning rates printed are those
  of the schedule for the indices \<open>0, 1, ...\<close> in order, one per epoch started: all of
  \<open>[0, max_max_epoch)\<close> when the run ends normally, a prefix of them when it ends early.
\<close>

theorem learning_rate_schedule:
  "(0 \<le> i \<and> i < max_max_epoch cfg \<longrightarrow>
      start_epoch cfg i w =
        (Inr (), w\<lparr>lr_var := learning_rate cfg * lr_decay cfg ^ nat (max (i - max_epoch cfg) 0),
                  trace := trace w @ [LearningRateLine (i + 1)
                     (learning_rate cfg * lr_decay cfg ^ nat (max (i - max_epoch cfg) 0))]\<rparr>) \<and>
      lr_var (snd (epoch fl cfg env m mvalid plots_dir t0 i w)) =
        learning_rate cfg * lr_decay cfg ^ nat (max (i - max_epoch cfg) 0)) \<and>
   (lr_decay cfg = 9/10 \<and> max_epoch cfg = 4 \<longrightarrow>
      lr_var (snd (epoch fl cfg env m mvalid plots_dir t0 6 w)) = learning_rate cfg * (9/10)\<^sup>2 \<and>
      lr_var (snd (epoch fl cfg env m mvalid plots_dir t0 2 w)) = learning_rate cfg * (9/10) ^ 0 \<and>
      lr_var (snd (epoch fl cfg env m mvalid plots_dir t0 2 w)) = learning_rate cfg) \<and>
   (get_config fl = Inr cfg \<longrightarrow>
      (\<exists>k \<le> nat (max_max_epoch cfg).
         lr_lines (trace (snd (main fl env fs))) =
           map (\<lambda>i. (i + 1, learning_rate cfg * lr_decay cfg ^ nat (max (i - max_epoch cfg) 0)))
             (take k [0..max_max_epoch cfg - 1]) \<and>
         (fst (main fl env fs) = Inr () \<longrightarrow> k = nat (max_max_epoch cfg))))"
proof -
  have "get_config fl = Inr cfg \<longrightarrow>
      (\<exists>k \<le> nat (max_max_epoch cfg).
         lr_lines (trace (snd (main fl env fs))) =
           map (\<lambda>i. (i + 1, learning_rate cfg * lr_decay cfg ^ nat (max (i - max_epoch cfg) 0)))
             (take k [0..max_max_epoch cfg - 1]) \<and>
         (fst (main fl env fs) = Inr () \<longrightarrow> k = nat (max_max_epoch cfg)))"
    using main_lr_lines[of fl cfg env fs] unfolding epoch_learning_rate_def by blast
  then show ?thesis
    by (simp add: start_epoch_eq epoch_lr epoch_learning_rate_def)
qed

theorem learning_rate_schedule_witness:
  "(0::int) \<le> 6 \<and> 6 < max_max_epoch SmallConfig \<and> lr_decay SmallConfig = 9/10 \<and> max_epoch SmallConfig = 4 \<and>
   get_config example_flags = Inr SmallConfig \<and>
   lr_var (snd (epoch example_flags SmallConfig example_env example_model example_model None 0 6
                  (process_start example_env empty_traindir))) = 81/100 \<and>
   lr_var (snd (epoch example_flags SmallConfig example_env example_model example_model None 0 2
                  (process_start example_env empty_traindir))) = 1 \<and>
   (\<exists>k \<le> nat (max_max_epoch SmallConfig).
      lr_lines (trace (snd (main example_flags example_env empty_traindir))) =
        map (\<lambda>i. (i + 1, learning_rate SmallConfig * lr_decay SmallConfig ^ nat (max (i - max_epoch SmallConfig) 0)))
          (take k [0..max_max_epoch SmallConfig - 1]) \<and>
      (fst (main example_flags example_env empty_traindir) = Inr () \<longrightarrow> k = nat (max_max_epoch SmallConfig)))"
proof -
  have a: "(0::int) \<le> 6 \<and> 6 < max_max_epoch SmallConfig" by (simp add: SmallConfig_def)
  have b: "lr_decay SmallConfig = 9/10 \<and> max_epoch SmallConfig = 4" by (simp add: SmallConfig_def)
  have c: "learning_rate SmallConfig = 1" by (simp add: SmallConfig_def)
  have d: "get_config example_flags = Inr SmallConfig" by (simp add: get_config_def example_flags_def)
  note t = learning_rate_schedule[of 6 SmallConfig "process_start example_env empty_traindir"
      example_flags example_env example_model example_model None 0 empty_traindir]
  have e: "lr_var (snd (epoch example_flags SmallConfig example_env example_model example_model None 0 6
                  (process_start example_env empty_traindir))) = 81/100"
    using t a c b by (simp add: power2_eq_square)
  have f: "lr_var (snd (epoch example_flags SmallConfig example_env example_model example_model None 0 2
                  (process_start example_env empty_traindir))) = 1"
    using t b c by simp
  have g: "\<exists>k \<le> nat (max_max_epoch SmallConfig).
      lr_lines (trace (snd (main example_flags example_env empty_traindir))) =
        map (\<lambda>i. (i + 1, learning_rate SmallConfig * lr_decay SmallConfig ^ nat (max (i - max_epoch SmallConfig) 0)))
          (take k [0..max_max_epoch SmallConfig - 1]) \<and>
      (fst (main example_flags example_env empty_traindir) = Inr () \<longrightarrow> k = nat (max_max_epoch SmallConfig))"
    using t d by blast
  from a b d e f g show ?thesis by blast
qed

section \<open>A split without batches\<close>

lemma run_epoch_no_data_eq:
  "songs env p = [] \<Longrightarrow>
     run_epoch env mdl p x y w =
       (Inr (None, None), w\<lparr>ticks := Suc (ticks w), remaining := (remaining w)(p := [])\<rparr>)"
  by (simp add: run_epoch_def time_time_def rewind_def get_batch_def)

lemma format_floats_none: "format_floats None None = Inl (TypeError ''float argument required, not NoneType'')"
  by (simp add: format_floats_def format_float_def)

lemma training_first_epoch_error:
  assumes "d_lr_factor cfg = Some f" "0 < max_max_epoch cfg"
    and "train_and_validate env
           \<lparr>m_batch_size = batch_size cfg, m_songlength = songlength cfg,
            m_opt = Some (ApplyGradients ''model/D/'' f False, ApplyGradients ''model/G/'' 1 False)\<rparr>
           \<lparr>m_batch_size = 1, m_songlength = songlength cfg, m_opt = None\<rparr> 0
           (snd (start_epoch cfg 0 (loop_entry env dir w))) = (Inl e, w')"
  shows "training fl cfg env dir t0 w = (Inl e, w')"
proof -
  have u: "[0..max_max_epoch cfg - 1] = 0 # [1..max_max_epoch cfg - 1]"
    using assms(2) by (simp add: upto_rec1)
  show ?thesis
    using assms(1,3) unfolding training_def u
    by (simp add: RNNGAN_def epoch_def start_epoch_eq loop_entry_def)
qed

lemma preset_facts:
  assumes "model fl \<in> {''small'', ''medium'', ''large''}"
  shows "\<exists>cfg. get_config fl = Inr cfg \<and> d_lr_factor cfg = Some (1/2) \<and> 0 < max_max_epoch cfg \<and>
    epoch_learning_rate cfg 0 = 1"
proof -
  consider "model fl = ''small''" | "model fl = ''medium''" | "model fl = ''large''"
    using assms by auto
  then show ?thesis
  proof cases
    case 1
    then show ?thesis
      by (simp add: get_config_def SmallConfig_def epoch_learning_rate_def)
  next
    case 2
    then show ?thesis
      by (simp add: get_config_def MediumConfig_def epoch_learning_rate_def)
  next
    case 3
    then show ?thesis
      by (simp add: get_config_def LargeConfig_def epoch_learning_rate_def)
  qed
qed

text \<open>
  Claim C10. The epoch loop does not handle the no-data result. With both directory
  flags set and one of the presets \<^verbatim>\<open>small\<close>, \<^verbatim>\<open>medium\<close>, \<^verbatim>\<open>large\<close>: when the train
  split yields no batch, the first pass returns \<^verbatim>\<open>(None, None)\<close>, formatting it raises
  \<^verbatim>\<open>TypeError\<close>, and the run ends there, having printed only the feature count, the
  restore line and the learning rate of epoch 1. When the train split has batches
  (and the pass over it returns) but the validation split has none, the run ends
  with the same error right after the train-loss line of epoch 1; nothing follows it.
\<close>

theorem no_data_is_not_handled:
  assumes "datadir fl = Some ddir" "ddir \<noteq> []" "traindir fl = Some dir" "dir \<noteq> []"
    and "model fl \<in> {''small'', ''medium'', ''large''}"
  shows "(songs env Train = [] \<longrightarrow>
            fst (main fl env fs) = Inl (TypeError ''float argument required, not NoneType'') \<and>
            trace (snd (main fl env fs)) =
              [NumFeaturesLine (numfeatures env),
               if checkpoint_file fs = None then FreshLine else RestoredLine,
               LearningRateLine 1 1]) \<and>
         (songs env Train \<noteq> [] \<and> songs env Validation = [] \<and> (\<forall>k > 1. clock env k \<noteq> clock env 1) \<longrightarrow>
            fst (main fl env fs) = Inl (TypeError ''float argument required, not NoneType'') \<and>
            (\<exists>es g d. list_all is_batch_line es \<and>
               trace (snd (main fl env fs)) =
                 [NumFeaturesLine (numfeatures env),
                  if checkpoint_file fs = None then FreshLine else RestoredLine,
                  LearningRateLine 1 1] @ es @ [TrainLossLine 1 g d]))"
proof -
  obtain cfg where cfg: "get_config fl = Inr cfg" "d_lr_factor cfg = Some (1/2)"
    "0 < max_max_epoch cfg" "epoch_learning_rate cfg 0 = 1"
    using preset_facts[OF assms(5)] by blast
  define f :: real where "f = 1/2"
  note cfg = cfg(1) cfg(2)[folded f_def] cfg(3,4)
  define w0 where "w0 = (emit (NumFeaturesLine (numfeatures env)) (process_start env fs))\<lparr>ticks := 1\<rparr>"
  define m where "m = \<lparr>m_batch_size = batch_size cfg, m_songlength = songlength cfg,
            m_opt = Some (ApplyGradients ''model/D/'' f False, ApplyGradients ''model/G/'' 1 False)\<rparr>"
  define mv where "mv = \<lparr>m_batch_size = 1, m_songlength = songlength cfg, m_opt = None\<rparr>"
  define w1 where "w1 = snd (start_epoch cfg 0 (loop_entry env dir w0))"
  have mn: "main fl env fs = training fl cfg env dir (clock env 0) w0"
    unfolding w0_def by (rule main_reaches_training[OF assms(1-4) cfg(1)])
  have t1: "trace w1 = [NumFeaturesLine (numfeatures env),
               if checkpoint_file fs = None then FreshLine else RestoredLine,
               LearningRateLine 1 1]"
    by (simp add: w1_def start_epoch_eq loop_entry_frame w0_def emit_def process_start_def cfg(4))
  have k1: "ticks w1 = 1"
    by (simp add: w1_def start_epoch_eq loop_entry_frame w0_def)
  have err: "train_and_validate env m mv 0 w1 = (Inl e, w') \<Longrightarrow> main fl env fs = (Inl e, w')" for e w'
    unfolding mn m_def mv_def w1_def
    by (rule training_first_epoch_error[OF cfg(2,3)])
  have A: "fst (main fl env fs) = Inl (TypeError ''float argument required, not NoneType'') \<and>
            trace (snd (main fl env fs)) =
              [NumFeaturesLine (numfeatures env),
               if checkpoint_file fs = None then FreshLine else RestoredLine,
               LearningRateLine 1 1]" if empty: "songs env Train = []"
  proof -
    let ?w = "w1\<lparr>ticks := Suc (ticks w1), remaining := (remaining w1)(Train := [])\<rparr>"
    have "train_and_validate env m mv 0 w1 =
            (Inl (TypeError ''float argument required, not NoneType''), ?w)"
      by (simp add: train_and_validate_def m_def run_epoch_no_data_eq[OF empty] format_floats_none)
    from err[OF this] show ?thesis by (simp add: t1)
  qed
  have B: "fst (main fl env fs) = Inl (TypeError ''float argument required, not NoneType'') \<and>
            (\<exists>es g d. list_all is_batch_line es \<and>
               trace (snd (main fl env fs)) =
                 [NumFeaturesLine (numfeatures env),
                  if checkpoint_file fs = None then FreshLine else RestoredLine,
                  LearningRateLine 1 1] @ es @ [TrainLossLine 1 g d])"
    if data: "songs env Train \<noteq> []" and empty: "songs env Validation = []"
      and clk: "\<forall>k > 1. clock env k \<noteq> clock env 1"
  proof -
    let ?x = "ApplyGradients ''model/D/'' f False" and ?y = "ApplyGradients ''model/G/'' 1 False"
    obtain r w2 where r: "run_epoch env m Train ?x ?y w1 = (r, w2)" by (metis surj_pair)
    have c: "\<forall>k > ticks w1. clock env k \<noteq> clock env (ticks w1)" using clk k1 by simp
    obtain g d where gd: "r = Inr (Some g, Some d)"
      using run_epoch_data[OF c data, of m ?x ?y] r by simp
    have fr: "pass_frame ?x ?y w1 w2" using run_epoch_frame[of ?x ?y w1 env m Train] r by simp
    define es where "es = drop (length (trace w1)) (trace w2)"
    have es: "trace w2 = trace w1 @ es" "list_all is_batch_line es"
      using fr unfolding pass_frame_def es_def by (metis append_take_drop_id, simp)
    let ?w3 = "emit (TrainLossLine 1 g d) w2"
    let ?w4 = "?w3\<lparr>ticks := Suc (ticks ?w3), remaining := (remaining ?w3)(Validation := [])\<rparr>"
    have "train_and_validate env m mv 0 w1 =
            (Inl (TypeError ''float argument required, not NoneType''), ?w4)"
      using r gd
      by (simp add: train_and_validate_def m_def run_epoch_no_data_eq[OF empty] format_floats_none
          format_floats_def format_float_def)
    from err[OF this] have "fst (main fl env fs) = Inl (TypeError ''float argument required, not NoneType'')"
      and "trace (snd (main fl env fs)) = trace w1 @ es @ [TrainLossLine 1 g d]"
      by (simp_all add: emit_def es(1))
    then show ?thesis using es(2) t1 by auto
  qed
  show ?thesis using A B by blast
qed

theorem no_data_is_not_handled_witness:
  "fst (main example_flags (example_env\<lparr>songs := (\<lambda>p. [])\<rparr>) empty_traindir) =
     Inl (TypeError ''float argument required, not NoneType'') \<and>
   trace (snd (main example_flags (example_env\<lparr>songs := (\<lambda>p. [])\<rparr>) empty_traindir)) =
     [NumFeaturesLine 4, FreshLine, LearningRateLine 1 1] \<and>
   fst (main example_flags (example_env\<lparr>songs := (\<lambda>p. if p = Validation then [] else [[], []])\<rparr>)
          empty_traindir) =
     Inl (TypeError ''float argument required, not NoneType'')"
proof -
  have h: "datadir example_flags = Some ''data''" "''data'' \<noteq> []"
    "traindir example_flags = Some ''run''" "''run'' \<noteq> []"
    "model example_flags \<in> {''small'', ''medium'', ''large''}"
    by (simp_all add: example_flags_def)
  have a: "songs (example_env\<lparr>songs := (\<lambda>p. [])\<rparr>) Train = []"
    by simp
  have b: "songs (example_env\<lparr>songs := (\<lambda>p. if p = Validation then [] else [[], []])\<rparr>) Train \<noteq> [] \<and>
      songs (example_env\<lparr>songs := (\<lambda>p. if p = Validation then [] else [[], []])\<rparr>) Validation = [] \<and>
      (\<forall>k > 1. clock (example_env\<lparr>songs := (\<lambda>p. if p = Validation then [] else [[], []])\<rparr>) k \<noteq>
                clock (example_env\<lparr>songs := (\<lambda>p. if p = Validation then [] else [[], []])\<rparr>) 1)"
    by (simp add: example_env_def)
  have n: "numfeatures (example_env\<lparr>songs := (\<lambda>p. [])\<rparr>) = 4"
    "checkpoint_file empty_traindir = None"
    by (simp_all add: example_env_def empty_traindir_def)
  from no_data_is_not_handled[OF h, of "example_env\<lparr>songs := (\<lambda>p. [])\<rparr>" empty_traindir] a n
  have A: "fst (main example_flags (example_env\<lparr>songs := (\<lambda>p. [])\<rparr>) empty_traindir) =
     Inl (TypeError ''float argument required, not NoneType'')"
    "trace (snd (main example_flags (example_env\<lparr>songs := (\<lambda>p. [])\<rparr>) empty_traindir)) =
     [NumFeaturesLine 4, FreshLine, LearningRateLine 1 1]"
    by simp_all
  from no_data_is_not_handled[OF h,
      of "example_env\<lparr>songs := (\<lambda>p. if p = Validation then [] else [[], []])\<rparr>" empty_traindir] b
  have B: "fst (main example_flags (example_env\<lparr>songs := (\<lambda>p. if p = Validation then [] else [[], []])\<rparr>)
          empty_traindir) = Inl (TypeError ''float argument required, not NoneType'')"
    by blast
  from A B show ?thesis by (intro conjI)
qed

section \<open>The clip bounds of the losses\<close>

lemma two_vs_ten: "(2::real) ^ 1075 < 10 ^ 1000"
proof -
  have "(2::real) ^ 1075 < 2 ^ (3 * 1000)" by (rule power_strict_increasing) simp_all
  also have "\<dots> = ((2::real) ^ 3) ^ 1000" by (rule power_mult)
  also have "\<dots> < 10 ^ 1000" by (rule power_strict_mono) simp_all
  finally show ?thesis .
qed

lemma round_half_even_small: "0 \<le> y \<Longrightarrow> y < 1/2 \<Longrightarrow> round_half_even y = 0"
proof -
  assume a: "0 \<le> y" "y < 1/2"
  then have "\<lfloor>y\<rfloor> = 0" by (intro floor_unique) simp_all
  then show ?thesis using a by (simp add: round_half_even_def)
qed

lemma binary64_tiny:
  assumes "0 \<le> x" "x * 2 ^ Suc 1074 < 1"
  shows "binary64 x = Finite 0"
proof -
  define a :: real where "a = 2 ^ 1074"
  define b :: real where "b = 2 ^ 1022"
  have a0: "0 < a" and b0: "0 < b" by (simp_all only: a_def b_def zero_less_power zero_less_numeral)
  have xa: "x * (a * 2) < 1" using assms(2) by (simp only: a_def power_Suc2)
  then have h: "x * a < 1/2" by simp
  have "b \<le> a" unfolding a_def b_def by (rule power_increasing) simp_all
  then have "x * b \<le> x * a" using assms(1) by (rule mult_left_mono)
  then have xb: "x * b < 1" using h by simp
  have pa: "(2::real) powi (-1074) = inverse a" and pb: "(2::real) powi (-1022) = inverse b"
    by (simp_all only: a_def b_def power_int_minus power_int_numeral)
  have small: "\<bar>x\<bar> < inverse b"
    using xb b0 assms(1) by (simp add: field_simps)
  have q: "x / inverse a = x * a"
    by (simp add: field_simps)
  have r: "round_half_even (x * a) = 0"
    using assms(1) a0 h by (intro round_half_even_small) simp_all
  have big: "\<not> (2::real) powi 1024 \<le> 0"
    by (simp only: not_le zero_less_power_int zero_less_numeral)
  show ?thesis
    unfolding binary64_def Let_def pa pb
    by (simp only: small if_True pa q r of_int_0 mult_zero_left abs_zero big if_False)
qed

lemma py_float_underflow: "py_float 1 (-1000) = Finite 0"
proof -
  define c :: real where "c = 10 ^ 1000"
  define d :: real where "d = 2 ^ Suc 1074"
  have v: "of_int 1 * (10::real) powi (-1000) = inverse c"
    by (simp only: c_def of_int_1 mult_1 power_int_minus power_int_numeral)
  have c0: "0 < c" by (simp only: c_def zero_less_power zero_less_numeral)
  have "Suc 1074 = 1075" by simp
  then have "d < c" using two_vs_ten by (simp only: c_def d_def)
  then have "inverse c * d < 1" using c0 by (simp add: field_simps)
  moreover have "0 \<le> inverse c" using c0 by simp
  ultimately have "binary64 (inverse c) = Finite 0"
    unfolding d_def by (rule binary64_tiny[rotated])
  then show ?thesis
    by (simp only: py_float_def v)
qed

lemma py_float_zero: "py_float 0 0 = Finite 0"
proof -
  have "binary64 0 = Finite 0"
    by (rule binary64_tiny) simp_all
  then show ?thesis by (simp add: py_float_def)
qed

lemma py_float_one: "py_float 1 0 = Finite 1"
proof -
  define a :: real where "a = 2 ^ 52"
  have a0: "0 < a" by (simp only: a_def zero_less_power zero_less_numeral)
  have ai: "a = of_int (2 ^ 52)" by (simp only: a_def of_int_power of_int_numeral)
  have pa: "(2::real) powi (-52) = inverse a"
    by (simp only: a_def power_int_minus power_int_numeral)
  have l: "\<lfloor>log 2 \<bar>1::real\<bar>\<rfloor> - 52 = -52" by simp
  have s: "\<not> \<bar>1::real\<bar> < 2 powi (-1022)"
  proof -
    have "(1::real) \<le> 2 ^ 1022" by (rule one_le_power) simp
    then have "inverse ((2::real) ^ 1022) \<le> 1" by (simp only: inverse_le_1_iff) simp
    then show ?thesis by (simp only: power_int_minus power_int_numeral abs_one not_less)
  qed
  have q: "(1::real) / inverse a = of_int (2 ^ 52)"
    using a0 ai by (simp add: field_simps)
  have r: "round_half_even (of_int (2 ^ 52)) = 2 ^ 52"
    unfolding round_half_even_def by (simp only: floor_of_int) simp
  have m: "real_of_int (2 ^ 52) * inverse a = 1"
    using a0 ai by (simp add: field_simps)
  have big: "\<not> (2::real) powi 1024 \<le> \<bar>1\<bar>"
  proof -
    have "(1::real) < 2 ^ 1024" by (rule one_less_power) simp_all
    then show ?thesis by (simp only: power_int_numeral abs_one not_le)
  qed
  have "binary64 1 = Finite 1"
    unfolding binary64_def Let_def
    by (simp only: s if_False l pa q r m big)
  then show ?thesis by (simp add: py_float_def)
qed

lemma spec_epsilon_bounds: "0 < spec_epsilon" "spec_epsilon \<le> 1/10"
proof -
  define c :: real where "c = 10 ^ 1000"
  have "(10::real) ^ 1 \<le> 10 ^ 1000" by (rule power_increasing) simp_all
  then have c: "10 \<le> c" by (simp only: c_def power_one_right)
  have e: "spec_epsilon = 1 / c" by (simp only: spec_epsilon_def c_def)
  show "0 < spec_epsilon" using c by (simp add: e)
  show "spec_epsilon \<le> 1/10" using c by (simp add: e field_simps)
qed

lemma spec_epsilon_pos: "0 < spec_epsilon"
  by (rule spec_epsilon_bounds)

lemma spec_epsilon_less_one: "spec_epsilon < 1"
  using spec_epsilon_bounds(2) by simp

lemma ln_spec_epsilon: "ln spec_epsilon = - (1000 * ln 10)"
proof -
  define c :: real where "c = 10 ^ 1000"
  have c0: "0 < c" by (simp only: c_def zero_less_power zero_less_numeral)
  have "ln ((10::real) ^ 1000) = real 1000 * ln 10" by (rule ln_realpow)
  then have l: "ln c = 1000 * ln 10" by (simp only: c_def of_nat_numeral)
  have e: "spec_epsilon = inverse c" by (simp only: spec_epsilon_def c_def inverse_eq_divide)
  show ?thesis unfolding e using c0 l by (simp add: ln_inverse)
qed

lemma clip_finite:
  "clip_by_value (Finite x) (Finite lo) (Finite hi) = Finite (min (max x lo) hi)"
  by (auto simp: clip_by_value_def tf_maximum_def tf_minimum_def min_def max_def)

lemma reduce_mean_single: "reduce_mean [a] = (case a of Finite x \<Rightarrow> Finite x | b \<Rightarrow> b)"
  by (cases a) (simp_all add: reduce_mean_def)

lemmas loss_literals = py_float_underflow py_float_zero py_float_one

lemma d_loss_finite:
  "d_loss (Finite r) (Finite f) =
     tf_sub (tf_neg (tf_log (Finite (min (max r 0) 1)))) (tf_log (Finite (1 - min (max f 0) 1)))"
proof -
  have "reduce_mean [a] = a" for a by (cases a) (simp_all add: reduce_mean_def)
  then show ?thesis
    by (simp add: d_loss_def loss_literals clip_finite tf_sub_def)
qed

lemma g_loss_finite:
  "g_loss (Finite f) = tf_neg (tf_log (Finite (min (max f 0) 1)))"
proof -
  have "reduce_mean [a] = a" for a by (cases a) (simp_all add: reduce_mean_def)
  then show ?thesis
    by (simp add: g_loss_def loss_literals clip_finite)
qed

text \<open>Away from the two boundary scores the code computes the formulas of the spec.\<close>

lemma d_loss_agrees:
  assumes "spec_epsilon \<le> r" "r \<le> 1" "0 \<le> f" "f \<le> 1 - spec_epsilon"
  shows "d_loss (Finite r) (Finite f) = Finite (spec_d_loss r f)"
proof -
  have r0: "0 < r" using assms(1) spec_epsilon_pos by simp
  have f1: "f < 1" using assms(4) spec_epsilon_pos by simp
  show ?thesis
    using assms r0 f1
    by (simp add: d_loss_finite spec_d_loss_def spec_clip_def tf_sub_def min_def max_def)
qed

lemma g_loss_agrees:
  assumes "spec_epsilon \<le> f" "f \<le> 1"
  shows "g_loss (Finite f) = Finite (spec_g_loss f)"
proof -
  have "0 < f" using assms(1) spec_epsilon_pos by simp
  then show ?thesis
    using assms by (simp add: g_loss_finite spec_g_loss_def spec_clip_def min_def max_def)
qed

text \<open>
  Claim C1. The losses are the formulas of the spec wherever the clip bounds do not
  matter (\<open>d_loss_agrees\<close>, \<open>g_loss_agrees\<close>). At a real score of 0 the code and the
  formulas part: Python reads the literal \<^verbatim>\<open>1e-1000\<close> as \<open>0.0\<close>, the clip leaves the
  score at 0 and both losses are infinite, where the formulas as written give
  \<open>1000 ln 10 + ln 2\<close> and \<open>1000 ln 10\<close>.
\<close>

theorem losses_at_boundary_scores:
  "d_loss (Finite 0) (Finite (1/2)) = PosInf \<and>
   spec_d_loss 0 (1/2) = 1000 * ln 10 + ln 2 \<and>
   d_loss (Finite 0) (Finite (1/2)) \<noteq> Finite (spec_d_loss 0 (1/2)) \<and>
   g_loss (Finite 0) = PosInf \<and>
   spec_g_loss 0 = 1000 * ln 10 \<and>
   g_loss (Finite 0) \<noteq> Finite (spec_g_loss 0)"
proof -
  have a: "d_loss (Finite 0) (Finite (1/2)) = PosInf"
    by (simp add: d_loss_finite tf_sub_def)
  have b: "g_loss (Finite 0) = PosInf"
    by (simp add: g_loss_finite)
  have m: "max 0 spec_epsilon = spec_epsilon" "min spec_epsilon 1 = spec_epsilon"
    "min (1/2) (1 - spec_epsilon) = 1/2 \<or> min (1/2) (1 - spec_epsilon) = 1 - spec_epsilon"
    using spec_epsilon_pos spec_epsilon_less_one by (auto simp: min_def max_def)
  have half: "(1/2::real) \<le> 1 - spec_epsilon"
    using spec_epsilon_bounds(2) by simp
  have c: "spec_g_loss 0 = 1000 * ln 10"
    by (simp add: spec_g_loss_def spec_clip_def m ln_spec_epsilon)
  have d: "spec_d_loss 0 (1/2) = 1000 * ln 10 + ln 2"
    using half by (simp add: spec_d_loss_def spec_clip_def m ln_spec_epsilon min_def ln_div)
  from a b c d show ?thesis by simp
qed

text \<open>
  Claim C7. The lower clip bound of the code is \<open>0.0\<close>, not a positive number, and the
  upper bound \<^verbatim>\<open>1.0-1e-1000\<close> is \<open>1.0\<close>: for a real score of 0 the first logarithm is
  taken at zero, for a generated score of 1 the second one is, and the discriminator
  loss is infinite.
\<close>

theorem log_of_zero_is_taken:
  "py_float 1 (-1000) = Finite 0 \<and>
   tf_sub (py_float 1 0) (py_float 1 (-1000)) = Finite 1 \<and>
   clip_by_value (Finite 0) (py_float 1 (-1000)) (py_float 1 0) = Finite 0 \<and>
   tf_log (clip_by_value (Finite 0) (py_float 1 (-1000)) (py_float 1 0)) = NegInf \<and>
   tf_log (tf_sub (Finite 1)
     (clip_by_value (Finite 1) (py_float 0 0) (tf_sub (py_float 1 0) (py_float 1 (-1000))))) = NegInf \<and>
   d_loss (Finite (1/2)) (Finite 1) = PosInf"
  by (simp add: loss_literals clip_finite tf_sub_def d_loss_finite)

section \<open>Shapes and the variable store\<close>

lemmas graph_simps = discriminators_def discriminator_def rnn_def linear_def linear_scope_def
  get_variable_def variable_scope_def reuse_variables_def initial_value_def matmul_add_def
  ncols_def reduce_mean_all_def reduce_mean_def sigmoid_def
  example_library_def example_config_def model_scope_def example_data_def TestConfig_def

lemma example_scores:
  "\<exists>vars2. discriminators example_library model_scope example_config False
             example_data example_data () () Map.empty = Inr ((Finite ((sigmoid 4 + 1/2) / 2), Finite ((sigmoid 4 + 1/2) / 2)), vars2)"
  by (simp add: graph_simps lessThan_Suc numeral_2_eq_2)

lemma sigmoid_bounds: "0 < sigmoid x" "sigmoid x < 1"
proof -
  have "0 < exp (- x)" by simp
  then show "0 < sigmoid x" "sigmoid x < 1"
    by (simp_all add: sigmoid_def add_pos_pos)
qed

lemma get_variable_shape:
  "get_variable lib sc name shape init vars = Inr (v, vars') \<Longrightarrow> var_shape v = shape"
  by (auto simp: get_variable_def split: option.splits if_splits)

lemma matmul_add_rows:
  "var_shape w = [n, k] \<Longrightarrow>
     length (matmul_add inp w b) = length inp \<and> (\<forall>row \<in> set (matmul_add inp w b). length row = k)"
  by (auto simp: matmul_add_def)

lemma linear_rows:
  assumes "linear lib cur inp k scope stddev reuse_scope vars = Inr (z, vars')"
  shows "length z = length inp \<and> (\<forall>row \<in> set z. length row = k)"
proof -
  obtain w vars1 b where
    w: "get_variable lib (linear_scope cur scope reuse_scope) ''w'' [ncols inp, k] (RandomNormal stddev) vars = Inr (w, vars1)"
    and z: "z = matmul_add inp w b"
    using assms by (auto simp: linear_def split: sum.splits prod.splits)
  show ?thesis
    unfolding z by (rule matmul_add_rows[OF get_variable_shape[OF w]])
qed

lemma concat_singletons:
  "\<forall>row \<in> set z. length row = Suc 0 \<Longrightarrow> length (concat z) = length z"
  by (induction z) auto

lemma length_unroll: "length (unroll step t states inputs) = length inputs"
  by (induction inputs arbitrary: t states) simp_all

lemma unroll_rows:
  "length states = n \<Longrightarrow> \<forall>x \<in> set inputs. length x = n \<Longrightarrow>
     \<forall>out \<in> set (unroll step t states inputs). length out = n"
proof (induction inputs arbitrary: t states)
  case Nil
  then show ?case by simp
next
  case (Cons x xs)
  have "length (map snd (map2 (step t) states x)) = n"
    using Cons.prems by simp
  then have "\<forall>out \<in> set (unroll step (Suc t) (map snd (map2 (step t) states x)) xs). length out = n"
    using Cons.prems(2) by (intro Cons.IH) simp_all
  then show ?case using Cons.prems by simp
qed

lemma rnn_rows:
  assumes "rnn lib cur cfg noise inputs vars = Inr (outputs, vars')"
  shows "inputs \<noteq> [] \<and> length outputs = length inputs \<and>
         (\<forall>out \<in> set outputs. length out = batch_size cfg)"
proof -
  have ne: "inputs \<noteq> []" using assms by (auto simp: rnn_def)
  have all: "\<forall>x \<in> set inputs. length x = batch_size cfg"
    using assms by (auto simp: rnn_def list_ex_iff split: list.splits if_splits)
  obtain params where
    out: "outputs = unroll (cell_step lib cfg noise params) 0
                      (replicate (batch_size cfg) (zero_state lib cfg)) inputs"
    using assms by (auto simp: rnn_def split: list.splits if_splits sum.splits)
  show ?thesis
    using ne unroll_rows[OF _ all, of "replicate (batch_size cfg) (zero_state lib cfg)"]
    by (simp add: out length_unroll)
qed

lemma sum_list_const: "\<forall>x \<in> set xs. f x = (c::nat) \<Longrightarrow> sum_list (map f xs) = length xs * c"
  by (induction xs) simp_all

lemma foldl_tf_add: "foldl tf_add (Finite a) (map Finite xs) = Finite (a + sum_list xs)"
  by (induction xs arbitrary: a) (simp_all add: add.assoc)

lemma reduce_mean_finite:
  "xs \<noteq> [] \<Longrightarrow> reduce_mean (map Finite xs) = Finite (sum_list xs / real (length xs))"
  by (cases xs) (simp_all add: reduce_mean_def foldl_tf_add)

lemma variable_scope_reuse [simp]:
  "variable_scope (sc\<lparr>reuse := True\<rparr>) n = (variable_scope sc n)\<lparr>reuse := True\<rparr>"
  "reuse (variable_scope sc n) = reuse sc"
  "scope_name ((variable_scope sc n)\<lparr>reuse := b\<rparr>) = scope_name (variable_scope sc n)"
  by (simp_all add: variable_scope_def)

lemma reuse_variables_simps [simp]:
  "reuse_variables sc = sc\<lparr>reuse := True\<rparr>"
  by (simp add: reuse_variables_def)

lemma get_variable_mono:
  "get_variable lib sc name shape init vars = Inr (v, vars') \<Longrightarrow> vars \<subseteq>\<^sub>m vars'"
  by (auto simp: get_variable_def map_le_def split: option.splits if_splits)

lemma get_variable_stored:
  "get_variable lib sc name shape init vars = Inr (v, vars') \<Longrightarrow>
     vars' (scope_name (variable_scope sc name)) = Some v"
  by (auto simp: get_variable_def split: option.splits if_splits)

lemma get_variable_replay:
  assumes "get_variable lib sc name shape init vars = Inr (v, vars')" "vars' \<subseteq>\<^sub>m V"
  shows "get_variable lib (sc\<lparr>reuse := True\<rparr>) name shape init V = Inr (v, V)"
proof -
  have "V (scope_name (variable_scope sc name)) = Some v"
    using get_variable_stored[OF assms(1)] assms(2) by (auto simp: map_le_def dom_def)
  then show ?thesis
    using get_variable_shape[OF assms(1)] by (simp add: get_variable_def)
qed

lemma get_variable_read_only:
  "reuse sc \<Longrightarrow> get_variable lib sc name shape init vars = Inr (v, vars') \<Longrightarrow> vars' = vars"
  by (auto simp: get_variable_def split: option.splits if_splits)

lemma get_variable_exists:
  "\<not> reuse sc \<Longrightarrow> vars (scope_name (variable_scope sc name)) = Some v \<Longrightarrow>
     \<exists>e. get_variable lib sc name shape init vars = Inl e"
  by (simp add: get_variable_def)

lemma linear_scope_reuse:
  "linear_scope (cur\<lparr>reuse := True\<rparr>) scope reuse_scope = (linear_scope cur scope reuse_scope)\<lparr>reuse := True\<rparr>"
  "reuse cur \<Longrightarrow> reuse (linear_scope cur scope reuse_scope)"
  by (simp_all add: linear_scope_def)

lemma linear_cases:
  assumes "linear lib cur inp k scope stddev reuse_scope vars = Inr (z, vars')"
  obtains w vars1 b where
    "get_variable lib (linear_scope cur scope reuse_scope) ''w'' [ncols inp, k] (RandomNormal stddev) vars = Inr (w, vars1)"
    "get_variable lib (linear_scope cur scope reuse_scope) ''b'' [k] (Constant 0) vars1 = Inr (b, vars')"
    "z = matmul_add inp w b"
  using assms unfolding linear_def by (auto split: sum.splits prod.splits)

lemma linear_mono:
  assumes "linear lib cur inp k scope stddev reuse_scope vars = Inr (z, vars')"
  shows "vars \<subseteq>\<^sub>m vars'"
  using assms
  by (elim linear_cases) (blast intro: map_le_trans get_variable_mono)

lemma linear_replay:
  assumes "linear lib cur inp k scope stddev reuse_scope vars = Inr (z, vars')" "vars' \<subseteq>\<^sub>m V"
  shows "linear lib (cur\<lparr>reuse := True\<rparr>) inp k scope stddev reuse_scope V = Inr (z, V)"
proof -
  obtain w vars1 b where
    w: "get_variable lib (linear_scope cur scope reuse_scope) ''w'' [ncols inp, k] (RandomNormal stddev) vars = Inr (w, vars1)"
    and b: "get_variable lib (linear_scope cur scope reuse_scope) ''b'' [k] (Constant 0) vars1 = Inr (b, vars')"
    and z: "z = matmul_add inp w b"
    using assms(1) by (rule linear_cases)
  have "vars1 \<subseteq>\<^sub>m V" using get_variable_mono[OF b] assms(2) by (rule map_le_trans)
  then show ?thesis
    unfolding linear_def linear_scope_reuse
    by (simp add: get_variable_replay[OF w] get_variable_replay[OF b assms(2)] z)
qed

lemma linear_read_only:
  assumes "reuse cur" "linear lib cur inp k scope stddev reuse_scope vars = Inr (z, vars')"
  shows "vars' = vars"
  using assms(2)
  by (elim linear_cases)
     (metis assms(1) linear_scope_reuse(2) get_variable_read_only)

lemma decisions_mono:
  "decisions lib cur i outputs vars = Inr (ds, vars') \<Longrightarrow> vars \<subseteq>\<^sub>m vars'"
proof (induction outputs arbitrary: i vars ds)
  case Nil
  then show ?case by simp
next
  case (Cons out1 rest)
  obtain z vars1 where l: "linear lib cur out1 1 (Some ''decision'') 1 (i \<noteq> 0) vars = Inr (z, vars1)"
    using Cons.prems by (auto split: sum.splits)
  obtain ds' where d: "decisions lib cur (Suc i) rest vars1 = Inr (ds', vars')"
    using Cons.prems l by (auto split: sum.splits)
  show ?case using linear_mono[OF l] Cons.IH[OF d] by (rule map_le_trans)
qed

lemma decisions_replay:
  "decisions lib cur i outputs vars = Inr (ds, vars') \<Longrightarrow> vars' \<subseteq>\<^sub>m V \<Longrightarrow>
     decisions lib (cur\<lparr>reuse := True\<rparr>) i outputs V = Inr (ds, V)"
proof (induction outputs arbitrary: i vars ds)
  case Nil
  then show ?case by simp
next
  case (Cons out1 rest)
  obtain z vars1 where l: "linear lib cur out1 1 (Some ''decision'') 1 (i \<noteq> 0) vars = Inr (z, vars1)"
    using Cons.prems(1) by (auto split: sum.splits)
  obtain ds' where d: "decisions lib cur (Suc i) rest vars1 = Inr (ds', vars')"
    and ds: "ds = map (map sigmoid) z # ds'"
    using Cons.prems(1) l by (auto split: sum.splits)
  have "vars1 \<subseteq>\<^sub>m V" using decisions_mono[OF d] Cons.prems(2) by (rule map_le_trans)
  then have "linear lib (cur\<lparr>reuse := True\<rparr>) out1 1 (Some ''decision'') 1 (i \<noteq> 0) V = Inr (z, V)"
    by (rule linear_replay[OF l])
  then show ?case
    using Cons.IH[OF d Cons.prems(2)] ds by simp
qed

lemma decisions_read_only:
  "reuse cur \<Longrightarrow> decisions lib cur i outputs vars = Inr (ds, vars') \<Longrightarrow> vars' = vars"
proof (induction outputs arbitrary: i vars ds)
  case Nil
  then show ?case by simp
next
  case (Cons out1 rest)
  obtain z vars1 where l: "linear lib cur out1 1 (Some ''decision'') 1 (i \<noteq> 0) vars = Inr (z, vars1)"
    using Cons.prems(2) by (auto split: sum.splits)
  obtain ds' where d: "decisions lib cur (Suc i) rest vars1 = Inr (ds', vars')"
    using Cons.prems(2) l by (auto split: sum.splits)
  show ?case
    using linear_read_only[OF Cons.prems(1) l] Cons.IH[OF Cons.prems(1) d] by simp
qed

lemma get_variables_mono:
  "get_variables lib sc specs vars = Inr (vs, vars') \<Longrightarrow> vars \<subseteq>\<^sub>m vars'"
proof (induction specs arbitrary: vars vs)
  case Nil
  then show ?case by simp
next
  case (Cons spec rest)
  obtain name shape where spec: "spec = (name, shape)" by (cases spec)
  obtain v vars1 where g: "get_variable lib sc name shape (RandomNormal 1) vars = Inr (v, vars1)"
    using Cons.prems spec by (auto split: sum.splits)
  obtain vs' where r: "get_variables lib sc rest vars1 = Inr (vs', vars')"
    using Cons.prems spec g by (auto split: sum.splits)
  show ?case using get_variable_mono[OF g] Cons.IH[OF r] by (rule map_le_trans)
qed

lemma get_variables_replay:
  "get_variables lib sc specs vars = Inr (vs, vars') \<Longrightarrow> vars' \<subseteq>\<^sub>m V \<Longrightarrow>
     get_variables lib (sc\<lparr>reuse := True\<rparr>) specs V = Inr (vs, V)"
proof (induction specs arbitrary: vars vs)
  case Nil
  then show ?case by simp
next
  case (Cons spec rest)
  obtain name shape where spec: "spec = (name, shape)" by (cases spec)
  obtain v vars1 where g: "get_variable lib sc name shape (RandomNormal 1) vars = Inr (v, vars1)"
    using Cons.prems(1) spec by (auto split: sum.splits)
  obtain vs' where r: "get_variables lib sc rest vars1 = Inr (vs', vars')" and vs: "vs = v # vs'"
    using Cons.prems(1) spec g by (auto split: sum.splits)
  have "vars1 \<subseteq>\<^sub>m V" using get_variables_mono[OF r] Cons.prems(2) by (rule map_le_trans)
  then have "get_variable lib (sc\<lparr>reuse := True\<rparr>) name shape (RandomNormal 1) V = Inr (v, V)"
    by (rule get_variable_replay[OF g])
  then show ?case
    using Cons.IH[OF r Cons.prems(2)] spec vs by simp
qed

lemma get_variables_read_only:
  "reuse sc \<Longrightarrow> get_variables lib sc specs vars = Inr (vs, vars') \<Longrightarrow> vars' = vars"
proof (induction specs arbitrary: vars vs)
  case Nil
  then show ?case by simp
next
  case (Cons spec rest)
  obtain name shape where spec: "spec = (name, shape)" by (cases spec)
  obtain v vars1 where g: "get_variable lib sc name shape (RandomNormal 1) vars = Inr (v, vars1)"
    using Cons.prems(2) spec by (auto split: sum.splits)
  obtain vs' where r: "get_variables lib sc rest vars1 = Inr (vs', vars')"
    using Cons.prems(2) spec g by (auto split: sum.splits)
  show ?case
    using get_variable_read_only[OF Cons.prems(1) g] Cons.IH[OF Cons.prems(1) r] by simp
qed

lemma rnn_cases:
  assumes "rnn lib cur cfg noise inputs vars = Inr (outputs, vars')"
  obtains x xs params where "inputs = x # xs"
    "\<not> list_ex (\<lambda>inp. length inp \<noteq> batch_size cfg) inputs"
    "get_variables lib (variable_scope cur ''RNN'') (cell_variables lib cfg (ncols x)) vars = Inr (params, vars')"
    "outputs = unroll (cell_step lib cfg noise params) 0
                 (replicate (batch_size cfg) (zero_state lib cfg)) inputs"
  using assms unfolding rnn_def
  by (auto split: list.splits if_splits sum.splits)

lemma rnn_mono:
  "rnn lib cur cfg noise inputs vars = Inr (outputs, vars') \<Longrightarrow> vars \<subseteq>\<^sub>m vars'"
  by (elim rnn_cases) (rule get_variables_mono)

lemma rnn_replay:
  assumes "rnn lib cur cfg noise inputs vars = Inr (outputs, vars')" "vars' \<subseteq>\<^sub>m V"
  shows "rnn lib (cur\<lparr>reuse := True\<rparr>) cfg noise inputs V = Inr (outputs, V)"
proof -
  obtain x xs params where c: "inputs = x # xs"
    "\<not> list_ex (\<lambda>inp. length inp \<noteq> batch_size cfg) inputs"
    "get_variables lib (variable_scope cur ''RNN'') (cell_variables lib cfg (ncols x)) vars = Inr (params, vars')"
    "outputs = unroll (cell_step lib cfg noise params) 0
                 (replicate (batch_size cfg) (zero_state lib cfg)) inputs"
    using assms(1) by (rule rnn_cases)
  have "get_variables lib ((variable_scope cur ''RNN'')\<lparr>reuse := True\<rparr>) (cell_variables lib cfg (ncols x)) V
          = Inr (params, V)"
    by (rule get_variables_replay[OF c(3) assms(2)])
  then show ?thesis
    using c(2)[unfolded c(1)] unfolding rnn_def c(1) c(4)[unfolded c(1)]
    by simp
qed

lemma rnn_read_only:
  assumes "reuse cur" "rnn lib cur cfg noise inputs vars = Inr (outputs, vars')"
  shows "vars' = vars"
  using assms(2)
  by (elim rnn_cases) (rule get_variables_read_only[of "variable_scope cur ''RNN''"], simp add: assms(1))

lemma discriminator_cases:
  assumes "discriminator lib cur inputs cfg is_training noise vars = Inr (score, vars')"
  obtains outputs vars1 ds where
    "rnn lib cur cfg (if is_training \<and> keep_prob cfg < 1 then Some noise else None)
       (dropped_inputs lib cfg is_training noise inputs) vars = Inr (outputs, vars1)"
    "decisions lib cur 0 outputs vars1 = Inr (ds, vars')"
    "score = reduce_mean_all ds"
  using assms unfolding discriminator_def dropped_inputs_def
  by (auto split: sum.splits)

lemma discriminator_mono:
  "discriminator lib cur inputs cfg is_training noise vars = Inr (score, vars') \<Longrightarrow> vars \<subseteq>\<^sub>m vars'"
  by (elim discriminator_cases) (blast intro: map_le_trans rnn_mono decisions_mono)

lemma discriminator_replay:
  assumes "discriminator lib cur inputs cfg is_training noise vars = Inr (score, vars')" "vars' \<subseteq>\<^sub>m V"
  shows "discriminator lib (cur\<lparr>reuse := True\<rparr>) inputs cfg is_training noise V = Inr (score, V)"
proof -
  obtain outputs vars1 ds where
    r: "rnn lib cur cfg (if is_training \<and> keep_prob cfg < 1 then Some noise else None)
       (dropped_inputs lib cfg is_training noise inputs) vars = Inr (outputs, vars1)"
    and d: "decisions lib cur 0 outputs vars1 = Inr (ds, vars')"
    and s: "score = reduce_mean_all ds"
    using assms(1) by (rule discriminator_cases)
  have "vars1 \<subseteq>\<^sub>m V" using decisions_mono[OF d] assms(2) by (rule map_le_trans)
  then have r': "rnn lib (cur\<lparr>reuse := True\<rparr>) cfg (if is_training \<and> keep_prob cfg < 1 then Some noise else None)
       (dropped_inputs lib cfg is_training noise inputs) V = Inr (outputs, V)"
    by (rule rnn_replay[OF r])
  have d': "decisions lib (cur\<lparr>reuse := True\<rparr>) 0 outputs V = Inr (ds, V)"
    by (rule decisions_replay[OF d assms(2)])
  show ?thesis
    unfolding discriminator_def dropped_inputs_def[symmetric]
    by (simp add: r' d' s)
qed

lemma discriminator_read_only:
  assumes "reuse cur" "discriminator lib cur inputs cfg is_training noise vars = Inr (score, vars')"
  shows "vars' = vars"
  using assms(2)
  by (elim discriminator_cases)
     (metis assms(1) rnn_read_only decisions_read_only)

lemma discriminator_without_dropout:
  assumes "\<not> (is_training \<and> keep_prob cfg < 1)"
  shows "discriminator lib cur inputs cfg is_training noise2 vars =
     discriminator lib cur inputs cfg is_training noise1 vars"
  unfolding discriminator_def if_not_P[OF assms] by (rule refl)

lemma second_invocation_needs_reuse:
  assumes "\<not> reuse cur"
    and "discriminator lib cur inputs cfg is_training noise1 vars = Inr (score, vars1)"
  shows "\<exists>e. discriminator lib cur inputs2 cfg is_training noise2 vars1 = Inl e"
proof -
  let ?sc = "linear_scope cur (Some ''decision'') False"
  let ?name = "scope_name (variable_scope ?sc ''w'')"
  have nr: "\<not> reuse ?sc" using assms(1) by (simp add: linear_scope_def)
  have stored: "\<exists>v. vars1 ?name = Some v"
  proof -
    obtain outputs vars0 ds where
      r: "rnn lib cur cfg (if is_training \<and> keep_prob cfg < 1 then Some noise1 else None)
         (dropped_inputs lib cfg is_training noise1 inputs) vars = Inr (outputs, vars0)"
      and d: "decisions lib cur 0 outputs vars0 = Inr (ds, vars1)"
      using assms(2) by (rule discriminator_cases)
    obtain out1 rest where o: "outputs = out1 # rest"
      using rnn_rows[OF r] by (cases outputs) auto
    obtain z vars' where l: "linear lib cur out1 1 (Some ''decision'') 1 False vars0 = Inr (z, vars')"
      using d unfolding o by (auto split: sum.splits)
    obtain ds' where d': "decisions lib cur (Suc 0) rest vars' = Inr (ds', vars1)"
      using d l unfolding o by (auto split: sum.splits)
    obtain w varsw b where
      w: "get_variable lib ?sc ''w'' [ncols out1, 1] (RandomNormal 1) vars0 = Inr (w, varsw)"
      and b: "get_variable lib ?sc ''b'' [1] (Constant 0) varsw = Inr (b, vars')"
      using l by (rule linear_cases)
    have "varsw \<subseteq>\<^sub>m vars1"
      using get_variable_mono[OF b] decisions_mono[OF d'] by (rule map_le_trans)
    then show ?thesis
      using get_variable_stored[OF w] by (auto simp: map_le_def dom_def)
  qed
  show ?thesis
  proof (cases "rnn lib cur cfg (if is_training \<and> keep_prob cfg < 1 then Some noise2 else None)
         (dropped_inputs lib cfg is_training noise2 inputs2) vars1")
    case (Inl e)
    then show ?thesis by (simp add: discriminator_def dropped_inputs_def)
  next
    case (Inr res)
    obtain outputs vars2 where res: "res = (outputs, vars2)" by (cases res)
    have r: "rnn lib cur cfg (if is_training \<and> keep_prob cfg < 1 then Some noise2 else None)
         (dropped_inputs lib cfg is_training noise2 inputs2) vars1 = Inr (outputs, vars2)"
      using Inr res by simp
    obtain out1 rest where o: "outputs = out1 # rest"
      using rnn_rows[OF r] by (cases outputs) auto
    obtain v where "vars2 ?name = Some v"
      using stored rnn_mono[OF r] by (auto simp: map_le_def dom_def)
    then obtain e where "get_variable lib ?sc ''w'' [ncols out1, 1] (RandomNormal 1) vars2 = Inl e"
      using get_variable_exists[OF nr] by blast
    then have "linear lib cur out1 1 (Some ''decision'') 1 False vars2 = Inl e"
      by (simp add: linear_def)
    then have "decisions lib cur 0 outputs vars2 = Inl e"
      by (simp add: o)
    then show ?thesis
      using r by (simp add: discriminator_def dropped_inputs_def)
  qed
qed

section \<open>The score of the discriminator\<close>

lemma decision_names:
  "scope_name (variable_scope (linear_scope cur (Some ''decision'') r) ''w'') = decision_w cur"
  "scope_name (variable_scope (linear_scope cur (Some ''decision'') r) ''b'') = decision_b cur"
  by (simp_all add: decision_w_def decision_b_def linear_scope_def variable_scope_def)

lemma linear_decision_store:
  assumes "linear lib cur out1 1 (Some ''decision'') 1 r vars = Inr (z, vars1)" "vars1 \<subseteq>\<^sub>m V"
  shows "\<exists>w b. V (decision_w cur) = Some w \<and> V (decision_b cur) = Some b \<and> z = matmul_add out1 w b"
proof -
  obtain w vars0 b where
    w: "get_variable lib (linear_scope cur (Some ''decision'') r) ''w'' [ncols out1, 1] (RandomNormal 1) vars = Inr (w, vars0)"
    and b: "get_variable lib (linear_scope cur (Some ''decision'') r) ''b'' [1] (Constant 0) vars0 = Inr (b, vars1)"
    and z: "z = matmul_add out1 w b"
    using assms(1) by (rule linear_cases)
  have "vars0 \<subseteq>\<^sub>m V" using get_variable_mono[OF b] assms(2) by (rule map_le_trans)
  then have "V (decision_w cur) = Some w"
    using get_variable_stored[OF w] by (auto simp: map_le_def dom_def decision_names)
  moreover have "V (decision_b cur) = Some b"
    using get_variable_stored[OF b] assms(2) by (auto simp: map_le_def dom_def decision_names)
  ultimately show ?thesis using z by blast
qed

lemma decisions_steps:
  "decisions lib cur i outputs vars = Inr (ds, vars') \<Longrightarrow> vars' \<subseteq>\<^sub>m V \<Longrightarrow>
     V (decision_w cur) = Some w \<Longrightarrow> V (decision_b cur) = Some b \<Longrightarrow>
     ds = map (step_decision w b) outputs"
proof (induction outputs arbitrary: i vars ds)
  case Nil
  then show ?case by simp
next
  case (Cons out1 rest)
  obtain z vars1 where l: "linear lib cur out1 1 (Some ''decision'') 1 (i \<noteq> 0) vars = Inr (z, vars1)"
    using Cons.prems(1) by (auto split: sum.splits)
  obtain ds' where d: "decisions lib cur (Suc i) rest vars1 = Inr (ds', vars')"
    and ds: "ds = map (map sigmoid) z # ds'"
    using Cons.prems(1) l by (auto split: sum.splits)
  have "vars1 \<subseteq>\<^sub>m V" using decisions_mono[OF d] Cons.prems(2) by (rule map_le_trans)
  then have z: "z = matmul_add out1 w b"
    using linear_decision_store[OF l, of V] Cons.prems(3,4) by auto
  have "ds' = map (step_decision w b) rest"
    by (rule Cons.IH[OF d Cons.prems(2-4)])
  then show ?case by (simp add: ds z step_decision_def)
qed

lemma decisions_store:
  assumes "decisions lib cur i (out1 # rest) vars = Inr (ds, vars')"
  shows "\<exists>w b. vars' (decision_w cur) = Some w \<and> vars' (decision_b cur) = Some b"
proof -
  obtain z vars1 where l: "linear lib cur out1 1 (Some ''decision'') 1 (i \<noteq> 0) vars = Inr (z, vars1)"
    using assms by (auto split: sum.splits)
  obtain ds' where d: "decisions lib cur (Suc i) rest vars1 = Inr (ds', vars')"
    using assms l by (auto split: sum.splits)
  show ?thesis
    using linear_decision_store[OF l decisions_mono[OF d]] by blast
qed

lemma step_decision_rows:
  assumes "var_shape w = [n, 1]"
  shows "length (concat (step_decision w b out1)) = length out1"
    and "\<forall>s \<in> set (concat (step_decision w b out1)). 0 < s \<and> s < 1"
proof -
  have r: "length (matmul_add out1 w b) = length out1" "\<forall>row \<in> set (matmul_add out1 w b). length row = Suc 0"
    using matmul_add_rows[OF assms, of out1 b] by simp_all
  have "length (concat (step_decision w b out1)) = length (concat (matmul_add out1 w b))"
    by (simp add: step_decision_def length_concat comp_def)
  then show "length (concat (step_decision w b out1)) = length out1"
    using concat_singletons[OF r(2)] r(1) by simp
  show "\<forall>s \<in> set (concat (step_decision w b out1)). 0 < s \<and> s < 1"
    by (auto simp: step_decision_def sigmoid_bounds)
qed

lemma mean_of_unit_interval:
  assumes "xs \<noteq> []" "\<forall>s \<in> set xs. 0 < s \<and> s < (1::real)"
  shows "0 \<le> arithmetic_mean xs" "arithmetic_mean xs \<le> 1"
proof -
  have a: "0 \<le> sum_list xs"
    by (rule sum_list_nonneg) (use assms(2) in \<open>auto simp: less_imp_le\<close>)
  have "sum_list (map (\<lambda>x. x) xs) \<le> sum_list (map (\<lambda>x. 1) xs)"
    by (rule sum_list_mono) (use assms(2) in \<open>auto simp: less_imp_le\<close>)
  then have b: "sum_list xs \<le> real (length xs)"
    by (simp add: sum_list_triv)
  have n: "0 < real (length xs)" using assms(1) by simp
  show "0 \<le> arithmetic_mean xs" using a n by (simp add: arithmetic_mean_def)
  show "arithmetic_mean xs \<le> 1" using b n by (simp add: arithmetic_mean_def)
qed

lemma length_concat_steps:
  "length (concat (concat (map f xs))) = sum_list (map (\<lambda>x. length (concat (f x))) xs)"
  by (induction xs) simp_all

lemma reduce_mean_all_mean:
  "concat (concat ds) \<noteq> [] \<Longrightarrow> reduce_mean_all ds = Finite (arithmetic_mean (concat (concat ds)))"
  by (simp add: reduce_mean_all_def reduce_mean_finite arithmetic_mean_def)

lemma example_discriminator:
  "\<exists>vars'. discriminator example_library (variable_scope model_scope ''D'') example_data
               example_config False () Map.empty = Inr (Finite ((sigmoid 4 + 1/2) / 2), vars') \<and>
     vars' (decision_w (variable_scope model_scope ''D'')) = Some \<lparr>var_shape = [2, 1], var_value = [[1], [1]]\<rparr> \<and>
     vars' (decision_b (variable_scope model_scope ''D'')) = Some \<lparr>var_shape = [1], var_value = [[0]]\<rparr>"
  by (simp add: graph_simps decision_w_def decision_b_def lessThan_Suc numeral_2_eq_2)

lemma example_rnn:
  "\<exists>vars1. rnn example_library (variable_scope model_scope ''D'') example_config None example_data Map.empty =
      Inr ([[[2, 2]], [[0, 0]]], vars1)"
  by (simp add: graph_simps numeral_2_eq_2)

lemma example_steps:
  "concat (concat (map (step_decision \<lparr>var_shape = [2, 1], var_value = [[1], [1]]\<rparr>
       \<lparr>var_shape = [1], var_value = [[0]]\<rparr>) [[[2, 2]], [[0, 0]]])) = [sigmoid 4, 1/2]"
  by (simp add: step_decision_def matmul_add_def sigmoid_def lessThan_Suc numeral_2_eq_2)

lemma get_variable_fresh:
  assumes "\<not> reuse sc" "vars (scope_name (variable_scope sc name)) = None"
  shows "\<exists>v. get_variable lib sc name shape init vars =
           Inr (v, vars(scope_name (variable_scope sc name) \<mapsto> v)) \<and> var_shape v = shape"
  using assms by (simp add: get_variable_def)

lemma get_variables_fresh:
  "\<not> reuse sc \<Longrightarrow> distinct (map (\<lambda>spec. scope_name (variable_scope sc (fst spec))) specs) \<Longrightarrow>
     \<forall>spec \<in> set specs. vars (scope_name (variable_scope sc (fst spec))) = None \<Longrightarrow>
     \<exists>vs vars'. get_variables lib sc specs vars = Inr (vs, vars') \<and>
        (\<forall>m. m \<notin> (\<lambda>spec. scope_name (variable_scope sc (fst spec))) ` set specs \<longrightarrow> vars' m = vars m)"
proof (induction specs arbitrary: vars)
  case Nil
  then show ?case by simp
next
  case (Cons spec rest)
  obtain name shape where spec: "spec = (name, shape)" by (cases spec)
  let ?n = "scope_name (variable_scope sc name)"
  obtain v where g: "get_variable lib sc name shape (RandomNormal 1) vars = Inr (v, vars(?n \<mapsto> v))"
    using get_variable_fresh[OF Cons.prems(1), of vars name lib shape "RandomNormal 1"] Cons.prems(3) spec
    by auto
  have d: "distinct (map (\<lambda>spec. scope_name (variable_scope sc (fst spec))) rest)"
    using Cons.prems(2) by simp
  have nin: "?n \<notin> (\<lambda>spec. scope_name (variable_scope sc (fst spec))) ` set rest"
    using Cons.prems(2) spec by simp
  have f: "\<forall>spec \<in> set rest. (vars(?n \<mapsto> v)) (scope_name (variable_scope sc (fst spec))) = None"
  proof
    fix sp assume sp: "sp \<in> set rest"
    then have "scope_name (variable_scope sc (fst sp)) \<in> (\<lambda>spec. scope_name (variable_scope sc (fst spec))) ` set rest"
      by (rule imageI)
    then have "scope_name (variable_scope sc (fst sp)) \<noteq> ?n" using nin by metis
    then show "(vars(?n \<mapsto> v)) (scope_name (variable_scope sc (fst sp))) = None"
      using Cons.prems(3) sp by simp
  qed
  obtain vs vars' where r: "get_variables lib sc rest (vars(?n \<mapsto> v)) = Inr (vs, vars')"
    and k: "\<forall>m. m \<notin> (\<lambda>spec. scope_name (variable_scope sc (fst spec))) ` set rest \<longrightarrow> vars' m = (vars(?n \<mapsto> v)) m"
    using Cons.IH[OF Cons.prems(1) d f] by blast
  have "get_variables lib sc (spec # rest) vars = Inr (v # vs, vars')"
    using g r spec by simp
  moreover have "\<forall>m. m \<notin> (\<lambda>spec. scope_name (variable_scope sc (fst spec))) ` set (spec # rest) \<longrightarrow> vars' m = vars m"
    using k spec by auto
  ultimately show ?case by blast
qed

lemma variable_scope_name_inj:
  "scope_name (variable_scope sc n) = scope_name (variable_scope sc m) \<Longrightarrow> n = m"
  by (auto simp: variable_scope_def split: if_splits)

lemma distinct_full_names:
  "distinct (map fst specs) \<Longrightarrow>
     distinct (map (\<lambda>spec. scope_name (variable_scope sc (fst spec))) specs)"
  by (induction specs) (auto dest: variable_scope_name_inj)

lemma linear_scope_reuse_flag: "reuse (linear_scope cur scope r) = (r \<or> reuse cur)"
  by (simp add: linear_scope_def)

lemma decision_not_rnn:
  "decision_w cur \<noteq> scope_name (variable_scope (variable_scope cur ''RNN'') n)"
  "decision_b cur \<noteq> scope_name (variable_scope (variable_scope cur ''RNN'') n)"
  "decision_w cur \<noteq> decision_b cur"
  by (simp_all add: decision_w_def decision_b_def variable_scope_def)

lemma unroll_ncols:
  assumes "\<forall>t s row. length (fst (step t s row)) = h"
  shows "length states = n \<Longrightarrow> \<forall>x \<in> set inputs. length x = n \<Longrightarrow>
     \<forall>out \<in> set (unroll step t states inputs). ncols out = (if n = 0 then 0 else h)"
proof (induction inputs arbitrary: t states)
  case Nil
  then show ?case by simp
next
  case (Cons x xs)
  have l: "length x = n" using Cons.prems(2) by simp
  have a: "ncols (map fst (map2 (step t) states x)) = (if n = 0 then 0 else h)"
  proof (cases n)
    case 0
    then show ?thesis using l by (simp add: ncols_def)
  next
    case (Suc k)
    obtain s ss where s: "states = s # ss" using Cons.prems(1) Suc by (cases states) auto
    obtain r rs where r: "x = r # rs" using l Suc by (cases x) auto
    show ?thesis using assms by (simp add: s r ncols_def Suc)
  qed
  have "length (map snd (map2 (step t) states x)) = n"
    using Cons.prems(1) l by simp
  then have "\<forall>out \<in> set (unroll step (Suc t) (map snd (map2 (step t) states x)) xs).
      ncols out = (if n = 0 then 0 else h)"
    using Cons.prems(2) by (intro Cons.IH) simp_all
  then show ?case using a by simp
qed

lemma decisions_reuse_returns:
  "i \<noteq> 0 \<Longrightarrow> V (decision_w cur) = Some w \<Longrightarrow> var_shape w = [c, 1] \<Longrightarrow>
     V (decision_b cur) = Some b \<Longrightarrow> var_shape b = [1] \<Longrightarrow>
     \<forall>out \<in> set outs. ncols out = c \<Longrightarrow>
     \<exists>ds. decisions lib cur i outs V = Inr (ds, V)"
proof (induction outs arbitrary: i)
  case Nil
  then show ?case by simp
next
  case (Cons out1 rest)
  have l: "linear lib cur out1 1 (Some ''decision'') 1 (i \<noteq> 0) V = Inr (matmul_add out1 w b, V)"
    using Cons.prems
    by (simp add: linear_def get_variable_def decision_names linear_scope_reuse_flag)
  obtain ds where "decisions lib cur (Suc i) rest V = Inr (ds, V)"
    using Cons.IH[of "Suc i"] Cons.prems by auto
  then show ?case using l by simp
qed

lemma decisions_fresh_returns:
  assumes "\<not> reuse cur" "vars (decision_w cur) = None" "vars (decision_b cur) = None"
    and "\<forall>out \<in> set outs. ncols out = c"
  shows "\<exists>ds vars'. decisions lib cur 0 outs vars = Inr (ds, vars')"
proof (cases outs)
  case Nil
  then show ?thesis by simp
next
  case (Cons out1 rest)
  let ?w = "\<lparr>var_shape = [ncols out1, 1],
             var_value = initial_value lib (decision_w cur) [ncols out1, 1] (RandomNormal 1)\<rparr>"
  let ?b = "\<lparr>var_shape = [1], var_value = initial_value lib (decision_b cur) [1] (Constant 0)\<rparr>"
  let ?V = "vars(decision_w cur \<mapsto> ?w, decision_b cur \<mapsto> ?b)"
  have l: "linear lib cur out1 1 (Some ''decision'') 1 (0 \<noteq> (0::nat)) vars = Inr (matmul_add out1 ?w ?b, ?V)"
    using assms(1-3) decision_not_rnn(3)[of cur]
    by (simp add: linear_def get_variable_def decision_names linear_scope_reuse_flag)
  have c: "ncols out1 = c" using assms(4) Cons by simp
  have "\<exists>ds. decisions lib cur (Suc 0) rest ?V = Inr (ds, ?V)"
  proof (rule decisions_reuse_returns[where w = ?w and b = ?b and c = c])
    show "?V (decision_w cur) = Some ?w" using decision_not_rnn(3)[of cur] by simp
    show "\<forall>out \<in> set rest. ncols out = c" using assms(4) Cons by simp
  qed (simp_all add: c)
  then obtain ds where "decisions lib cur (Suc 0) rest ?V = Inr (ds, ?V)" by blast
  then show ?thesis using l Cons by simp
qed

lemma discriminator_returns:
  assumes "inputs \<noteq> []" "\<forall>x \<in> set inputs. length x = batch_size cfg"
    and "\<not> reuse cur"
    and "\<forall>k. distinct (map fst (cell_variables lib cfg k))"
    and "\<forall>k. \<forall>spec \<in> set (cell_variables lib cfg k).
           vars (scope_name (variable_scope (variable_scope cur ''RNN'') (fst spec))) = None"
    and "vars (decision_w cur) = None" "vars (decision_b cur) = None"
    and "\<forall>nz params t s row. length (fst (cell_step lib cfg nz params t s row)) = hidden_size cfg"
    and "\<forall>nz keep t m. length (dropout lib nz keep t m) = length m"
  shows "\<exists>score vars'. discriminator lib cur inputs cfg is_training noise vars = Inr (score, vars')"
proof -
  let ?nz = "if is_training \<and> keep_prob cfg < 1 then Some noise else None"
  let ?in = "dropped_inputs lib cfg is_training noise inputs"
  let ?sc = "variable_scope cur ''RNN''"
  have len: "length ?in = length inputs" by (simp add: dropped_inputs_def)
  have rows: "\<forall>x \<in> set ?in. length x = batch_size cfg"
  proof (cases "is_training \<and> keep_prob cfg < 1")
    case True
    have "length x = batch_size cfg"
      if h: "x \<in> set (map2 (dropout lib noise (keep_prob cfg)) [0..<length inputs] inputs)" for x
    proof -
      obtain t m where tm: "(t, m) \<in> set (zip [0..<length inputs] inputs)"
        "x = dropout lib noise (keep_prob cfg) t m"
        using h by auto
      have "m \<in> set inputs" using tm(1) by (rule set_zip_rightD)
      then show ?thesis using assms(2,9) tm(2) by simp
    qed
    then show ?thesis using True by (simp add: dropped_inputs_def)
  next
    case False
    then show ?thesis using assms(2) by (auto simp: dropped_inputs_def)
  qed
  obtain x xs where x: "?in = x # xs" using assms(1) len by (cases ?in) auto
  have nr: "\<not> reuse ?sc" using assms(3) by simp
  obtain params vars1 where
    g: "get_variables lib ?sc (cell_variables lib cfg (ncols x)) vars = Inr (params, vars1)"
    and k: "\<forall>m. m \<notin> (\<lambda>spec. scope_name (variable_scope ?sc (fst spec))) ` set (cell_variables lib cfg (ncols x))
              \<longrightarrow> vars1 m = vars m"
    using get_variables_fresh[OF nr distinct_full_names, of "cell_variables lib cfg (ncols x)" vars lib]
      assms(4,5) by blast
  let ?out = "unroll (cell_step lib cfg ?nz params) 0 (replicate (batch_size cfg) (zero_state lib cfg)) ?in"
  have r: "rnn lib cur cfg ?nz ?in vars = Inr (?out, vars1)"
  proof -
    have "\<not> list_ex (\<lambda>inp. length inp \<noteq> batch_size cfg) ?in"
      using rows by (simp add: list_ex_iff)
    then show ?thesis
      unfolding rnn_def using g x by (simp del: unroll.simps)
  qed
  have nw: "decision_w cur \<notin> (\<lambda>spec. scope_name (variable_scope ?sc (fst spec))) ` set (cell_variables lib cfg (ncols x))"
    using decision_not_rnn(1)[of cur] by (auto simp: image_iff)
  have nb: "decision_b cur \<notin> (\<lambda>spec. scope_name (variable_scope ?sc (fst spec))) ` set (cell_variables lib cfg (ncols x))"
    using decision_not_rnn(2)[of cur] by (auto simp: image_iff)
  have w: "vars1 (decision_w cur) = None" using k nw assms(6) by simp
  have b: "vars1 (decision_b cur) = None" using k nb assms(7) by simp
  have nc: "\<forall>out \<in> set ?out. ncols out = (if batch_size cfg = 0 then 0 else hidden_size cfg)"
    by (rule unroll_ncols[OF _ _ rows]) (use assms(8) in simp_all)
  obtain ds vars' where "decisions lib cur 0 ?out vars1 = Inr (ds, vars')"
    using decisions_fresh_returns[OF assms(3) w b nc] by blast
  then show ?thesis
    unfolding discriminator_def dropped_inputs_def[symmetric] using r by simp
qed

lemma example_contract:
  "well_shaped example_config example_data"
  "library_contract example_library example_config"
  "unbuilt example_library example_config (variable_scope model_scope ''D'') Map.empty"
  by (simp_all add: well_shaped_def library_contract_def unbuilt_def example_config_def example_data_def
        example_library_def model_scope_def TestConfig_def)

lemma score_is_mean_of_steps:
  assumes "discriminator lib cur inputs cfg is_training noise vars = Inr (score, vars')"
    and "0 < batch_size cfg"
  shows "\<exists>outputs vars1 w b.
      rnn lib cur cfg (if is_training \<and> keep_prob cfg < 1 then Some noise else None)
          (dropped_inputs lib cfg is_training noise inputs) vars = Inr (outputs, vars1) \<and>
      vars' (decision_w cur) = Some w \<and> vars' (decision_b cur) = Some b \<and>
      decisions lib cur 0 outputs vars1 = Inr (map (step_decision w b) outputs, vars') \<and>
      length outputs = length inputs \<and>
      length (concat (concat (map (step_decision w b) outputs))) = length inputs * batch_size cfg \<and>
      (\<forall>s \<in> set (concat (concat (map (step_decision w b) outputs))). 0 < s \<and> s < 1) \<and>
      score = Finite (arithmetic_mean (concat (concat (map (step_decision w b) outputs)))) \<and>
      0 \<le> arithmetic_mean (concat (concat (map (step_decision w b) outputs))) \<and>
      arithmetic_mean (concat (concat (map (step_decision w b) outputs))) \<le> 1"
proof -
  obtain outputs vars1 ds where
    r: "rnn lib cur cfg (if is_training \<and> keep_prob cfg < 1 then Some noise else None)
       (dropped_inputs lib cfg is_training noise inputs) vars = Inr (outputs, vars1)"
    and d: "decisions lib cur 0 outputs vars1 = Inr (ds, vars')"
    and s: "score = reduce_mean_all ds"
    using assms(1) by (rule discriminator_cases)
  have len1: "length (dropped_inputs lib cfg is_training noise inputs) = length inputs"
    by (simp add: dropped_inputs_def)
  have rows: "outputs \<noteq> []" "length outputs = length inputs"
    "\<forall>out \<in> set outputs. length out = batch_size cfg"
    using rnn_rows[OF r] len1 by auto
  obtain out1 rest where o: "outputs = out1 # rest" using rows(1) by (cases outputs) auto
  obtain w b where wb: "vars' (decision_w cur) = Some w" "vars' (decision_b cur) = Some b"
    using decisions_store[OF d[unfolded o]] by blast
  have ds: "ds = map (step_decision w b) outputs"
    by (rule decisions_steps[OF d map_le_refl wb])
  obtain z vars2 where l: "linear lib cur out1 1 (Some ''decision'') 1 (0 \<noteq> (0::nat)) vars1 = Inr (z, vars2)"
    using d unfolding o by (auto split: sum.splits)
  obtain ds' where d': "decisions lib cur (Suc 0) rest vars2 = Inr (ds', vars')"
    using d l unfolding o by (auto split: sum.splits)
  obtain w0 vars0 b0 where
    w0: "get_variable lib (linear_scope cur (Some ''decision'') (0 \<noteq> (0::nat))) ''w'' [ncols out1, 1] (RandomNormal 1) vars1 = Inr (w0, vars0)"
    and b0: "get_variable lib (linear_scope cur (Some ''decision'') (0 \<noteq> (0::nat))) ''b'' [1] (Constant 0) vars0 = Inr (b0, vars2)"
    using l by (rule linear_cases)
  have "vars0 \<subseteq>\<^sub>m vars'"
    using get_variable_mono[OF b0] decisions_mono[OF d'] by (rule map_le_trans)
  then have "vars' (decision_w cur) = Some w0"
    using get_variable_stored[OF w0] by (auto simp: map_le_def dom_def decision_names)
  then have shape: "var_shape w = [ncols out1, 1]"
    using wb(1) get_variable_shape[OF w0] by simp
  let ?xs = "concat (concat (map (step_decision w b) outputs))"
  have len: "length ?xs = length inputs * batch_size cfg"
  proof -
    have "length ?xs = sum_list (map (\<lambda>out. length (concat (step_decision w b out))) outputs)"
      by (rule length_concat_steps)
    also have "\<dots> = sum_list (map length outputs)"
      using step_decision_rows(1)[OF shape] by simp
    also have "\<dots> = length outputs * batch_size cfg"
      by (rule sum_list_const[OF rows(3)])
    finally show ?thesis by (simp add: rows(2))
  qed
  have unit: "\<forall>s \<in> set ?xs. 0 < s \<and> s < 1"
    using step_decision_rows(2)[OF shape] by auto
  have ne: "?xs \<noteq> []"
  proof -
    have "0 < length inputs" using rows(1,2) by auto
    then have "0 < length ?xs" unfolding len using assms(2) by simp
    then show ?thesis by (metis length_greater_0_conv)
  qed
  have sc: "score = Finite (arithmetic_mean ?xs)"
    unfolding s ds by (rule reduce_mean_all_mean[OF ne])
  show ?thesis
    using r wb d[unfolded ds] rows(2) len unit sc mean_of_unit_interval[OF ne unit] by blast
qed

text \<open>
  Claim C5. Whenever the discriminator returns a score for a sequence of \<open>T\<close> steps of a
  batch of \<open>B \<ge> 1\<close> rows, the per-step decisions it computed are, at every step, the
  logistic outputs of the one decision layer (the weights and the bias the store holds
  under the names of that layer) applied to the encoder's output of the step; there
  are \<open>T * B\<close> of them (one per step and batch row; one per step for the evaluation
  models, whose batch size is 1), each strictly between 0 and 1; the score is their
  arithmetic mean, and it lies in the closed interval from 0 to 1. And the
  discriminator does return a score for every sequence of at least one step whose
  steps have one row per element of the batch, when it is built in a scope where it
  has not been built before and the library keeps its contract. An empty sequence has
  no score: the encoder refuses it.
\<close>

theorem discriminator_score_is_mean:
  "(discriminator lib cur inputs cfg is_training noise vars = Inr (score, vars') \<and> 0 < batch_size cfg \<longrightarrow>
      (\<exists>outputs vars1 w b.
        rnn lib cur cfg (if is_training \<and> keep_prob cfg < 1 then Some noise else None)
            (dropped_inputs lib cfg is_training noise inputs) vars = Inr (outputs, vars1) \<and>
        vars' (decision_w cur) = Some w \<and> vars' (decision_b cur) = Some b \<and>
        decisions lib cur 0 outputs vars1 = Inr (map (step_decision w b) outputs, vars') \<and>
        length outputs = length inputs \<and>
        length (concat (concat (map (step_decision w b) outputs))) = length inputs * batch_size cfg \<and>
        (\<forall>s \<in> set (concat (concat (map (step_decision w b) outputs))). 0 < s \<and> s < 1) \<and>
        score = Finite (arithmetic_mean (concat (concat (map (step_decision w b) outputs)))) \<and>
        0 \<le> arithmetic_mean (concat (concat (map (step_decision w b) outputs))) \<and>
        arithmetic_mean (concat (concat (map (step_decision w b) outputs))) \<le> 1)) \<and>
   (well_shaped cfg inputs \<and> library_contract lib cfg \<and> unbuilt lib cfg cur vars \<longrightarrow>
      (\<exists>s v. discriminator lib cur inputs cfg is_training noise vars = Inr (s, v)))"
proof (intro conjI impI)
  assume "discriminator lib cur inputs cfg is_training noise vars = Inr (score, vars') \<and> 0 < batch_size cfg"
  then show "\<exists>outputs vars1 w b.
        rnn lib cur cfg (if is_training \<and> keep_prob cfg < 1 then Some noise else None)
            (dropped_inputs lib cfg is_training noise inputs) vars = Inr (outputs, vars1) \<and>
        vars' (decision_w cur) = Some w \<and> vars' (decision_b cur) = Some b \<and>
        decisions lib cur 0 outputs vars1 = Inr (map (step_decision w b) outputs, vars') \<and>
        length outputs = length inputs \<and>
        length (concat (concat (map (step_decision w b) outputs))) = length inputs * batch_size cfg \<and>
        (\<forall>s \<in> set (concat (concat (map (step_decision w b) outputs))). 0 < s \<and> s < 1) \<and>
        score = Finite (arithmetic_mean (concat (concat (map (step_decision w b) outputs)))) \<and>
        0 \<le> arithmetic_mean (concat (concat (map (step_decision w b) outputs))) \<and>
        arithmetic_mean (concat (concat (map (step_decision w b) outputs))) \<le> 1"
    using score_is_mean_of_steps[of lib cur inputs cfg is_training noise vars score vars'] by blast
next
  assume a: "well_shaped cfg inputs \<and> library_contract lib cfg \<and> unbuilt lib cfg cur vars"
  show "\<exists>s v. discriminator lib cur inputs cfg is_training noise vars = Inr (s, v)"
    using a unfolding well_shaped_def library_contract_def unbuilt_def
    by (intro discriminator_returns) blast+
qed

theorem discriminator_score_is_mean_witness:
  "0 < batch_size example_config \<and>
   well_shaped example_config example_data \<and>
   library_contract example_library example_config \<and>
   unbuilt example_library example_config (variable_scope model_scope ''D'') Map.empty \<and>
   (\<exists>vars'. discriminator example_library (variable_scope model_scope ''D'') example_data
               example_config False () Map.empty = Inr (Finite ((sigmoid 4 + 1/2) / 2), vars') \<and>
      (\<exists>outputs vars1 w b.
          rnn example_library (variable_scope model_scope ''D'') example_config None example_data Map.empty =
            Inr (outputs, vars1) \<and>
          vars' (decision_w (variable_scope model_scope ''D'')) = Some w \<and>
          vars' (decision_b (variable_scope model_scope ''D'')) = Some b \<and>
          decisions example_library (variable_scope model_scope ''D'') 0 outputs vars1 =
            Inr (map (step_decision w b) outputs, vars') \<and>
          concat (concat (map (step_decision w b) outputs)) = [sigmoid 4, 1/2] \<and>
          Finite ((sigmoid 4 + 1/2) / 2) =
            Finite (arithmetic_mean (concat (concat (map (step_decision w b) outputs))))))"
proof -
  have h: "0 < batch_size example_config" by (simp add: example_config_def)
  have k: "keep_prob example_config = 1"
    by (simp add: example_config_def TestConfig_def)
  note T = discriminator_score_is_mean[where lib = example_library
      and cur = "variable_scope model_scope ''D''" and inputs = example_data and cfg = example_config
      and is_training = False and noise = "()" and vars = Map.empty]
  obtain s vars' where e0: "discriminator example_library (variable_scope model_scope ''D'') example_data
               example_config False () Map.empty = Inr (s, vars')"
    using T[where score = "Finite 0" and vars' = Map.empty, THEN conjunct2] example_contract
    by (simp only: simp_thms) blast
  obtain v where e1: "discriminator example_library (variable_scope model_scope ''D'') example_data
               example_config False () Map.empty = Inr (Finite ((sigmoid 4 + 1/2) / 2), v)"
    and w1: "v (decision_w (variable_scope model_scope ''D'')) = Some \<lparr>var_shape = [2, 1], var_value = [[1], [1]]\<rparr>"
    and b1: "v (decision_b (variable_scope model_scope ''D'')) = Some \<lparr>var_shape = [1], var_value = [[0]]\<rparr>"
    using example_discriminator by blast
  have sv: "s = Finite ((sigmoid 4 + 1/2) / 2)" "vars' = v" using e0 e1 by simp_all
  have e: "discriminator example_library (variable_scope model_scope ''D'') example_data
               example_config False () Map.empty = Inr (Finite ((sigmoid 4 + 1/2) / 2), vars')"
    using e0 sv by simp
  have w: "vars' (decision_w (variable_scope model_scope ''D'')) = Some \<lparr>var_shape = [2, 1], var_value = [[1], [1]]\<rparr>"
    and b: "vars' (decision_b (variable_scope model_scope ''D'')) = Some \<lparr>var_shape = [1], var_value = [[0]]\<rparr>"
    using w1 b1 sv by simp_all
  obtain vars0 where r: "rnn example_library (variable_scope model_scope ''D'') example_config None example_data Map.empty =
      Inr ([[[2, 2]], [[0, 0]]], vars0)"
    using example_rnn by blast
  obtain outputs vars1 w' b' where t:
    "rnn example_library (variable_scope model_scope ''D'') example_config None example_data Map.empty =
            Inr (outputs, vars1)"
    "vars' (decision_w (variable_scope model_scope ''D'')) = Some w'"
    "vars' (decision_b (variable_scope model_scope ''D'')) = Some b'"
    "decisions example_library (variable_scope model_scope ''D'') 0 outputs vars1 =
            Inr (map (step_decision w' b') outputs, vars')"
    "Finite ((sigmoid 4 + 1/2) / 2) =
            Finite (arithmetic_mean (concat (concat (map (step_decision w' b') outputs))))"
    using T[where score = "Finite ((sigmoid 4 + 1/2) / 2)" and vars' = vars', THEN conjunct1] e h
    by (simp add: k dropped_inputs_def) blast
  have o: "outputs = [[[2, 2]], [[0, 0]]]" using t(1) r by simp
  have w': "w' = \<lparr>var_shape = [2, 1], var_value = [[1], [1]]\<rparr>" using t(2) w by simp
  have b': "b' = \<lparr>var_shape = [1], var_value = [[0]]\<rparr>" using t(3) b by simp
  have st: "concat (concat (map (step_decision w' b') outputs)) = [sigmoid 4, 1/2]"
    unfolding o w' b' by (rule example_steps)
  from h e t st example_contract show ?thesis by blast
qed

section \<open>Shared parameters\<close>

lemma get_variable_reuse_draw:
  "reuse sc \<Longrightarrow>
     get_variable (lib\<lparr>draw := d\<rparr>) sc name shape init vars = get_variable lib sc name shape init vars"
  by (simp add: get_variable_def split: option.splits)

lemma linear_reuse_draw:
  assumes "reuse cur"
  shows "linear (lib\<lparr>draw := d\<rparr>) cur inp k scope stddev reuse_scope vars =
         linear lib cur inp k scope stddev reuse_scope vars"
  unfolding linear_def
  by (simp only: get_variable_reuse_draw[OF linear_scope_reuse(2)[OF assms]])

lemma decisions_reuse_draw:
  "reuse cur \<Longrightarrow> decisions (lib\<lparr>draw := d\<rparr>) cur i outputs vars = decisions lib cur i outputs vars"
  by (induction outputs arbitrary: i vars) (simp_all add: linear_reuse_draw split: sum.splits)

lemma get_variables_reuse_draw:
  "reuse sc \<Longrightarrow> get_variables (lib\<lparr>draw := d\<rparr>) sc specs vars = get_variables lib sc specs vars"
  by (induction specs arbitrary: vars) (auto simp: get_variable_reuse_draw split: sum.splits)

lemma rnn_reuse_draw:
  "reuse cur \<Longrightarrow> rnn (lib\<lparr>draw := d\<rparr>) cur cfg noise inputs vars = rnn lib cur cfg noise inputs vars"
  by (simp add: rnn_def get_variables_reuse_draw cong: sum.case_cong list.case_cong if_cong)

lemma discriminator_reuse_draw:
  "reuse cur \<Longrightarrow>
     discriminator (lib\<lparr>draw := d\<rparr>) cur inputs cfg is_training noise vars =
     discriminator lib cur inputs cfg is_training noise vars"
  by (simp add: discriminator_def rnn_reuse_draw decisions_reuse_draw cong: sum.case_cong)

lemma fresh_zero_scores:
  "\<exists>vars'. discriminator (example_library\<lparr>draw := zero_draw\<rparr>) (variable_scope model_scope ''D'')
             example_data example_config False () Map.empty = Inr (Finite (1/2), vars')"
  by (simp add: graph_simps zero_draw_def lessThan_Suc numeral_2_eq_2)

lemma example_score_not_half: "Finite ((sigmoid 4 + 1/2) / 2) \<noteq> Finite (1/2)"
proof -
  have e: "exp (- 4) < (1::real)" by simp
  have p: "0 < 1 + exp (- 4 :: real)" by (simp add: add_pos_pos)
  have "1 + exp (- 4) < (2::real)" using e by simp
  then have "1 / 2 < 1 / (1 + exp (- 4 :: real))"
    using p by (simp add: divide_simps)
  then have "1/2 < sigmoid 4" by (simp add: sigmoid_def)
  then show ?thesis by simp
qed

text \<open>
  Claim C4. When the two invocations of one training step return, the second one has
  created and changed no variable: the store the first invocation built is the store
  after the step. Both scores are read off that one store by the reusing
  discriminator, whatever the random initializer would draw: the second invocation
  never initializes a parameter, and evaluating the reusing discriminator again on
  the inputs of the first invocation, with the parameters unchanged, returns the
  first score and leaves the store as it is. Without the reuse marking of line 133
  the second invocation raises, as the variables exist already. When the generated
  sequence equals the real one and dropout is off (or draws the same noise), the two
  scores of the step are equal.
\<close>

theorem discriminator_shares_parameters:
  assumes "discriminators lib cur cfg is_training data_inputs generated noise1 noise2 vars =
             Inr ((real_score, fake_score), vars2)"
  shows "discriminator lib (variable_scope cur ''D'') data_inputs cfg is_training noise1 vars =
           Inr (real_score, vars2) \<and>
         discriminator (lib\<lparr>draw := d\<rparr>) (reuse_variables (variable_scope cur ''D'')) generated cfg
             is_training noise2 vars2 = Inr (fake_score, vars2) \<and>
         discriminator (lib\<lparr>draw := d\<rparr>) (reuse_variables (variable_scope cur ''D'')) data_inputs cfg
             is_training noise1 vars2 = Inr (real_score, vars2) \<and>
         (\<not> reuse cur \<longrightarrow>
            (\<exists>e. discriminator lib (variable_scope cur ''D'') generated cfg is_training noise2 vars2 = Inl e)) \<and>
         (generated = data_inputs \<and> (\<not> (is_training \<and> keep_prob cfg < 1) \<or> noise2 = noise1) \<longrightarrow>
            fake_score = real_score)"
proof -
  let ?D = "variable_scope cur ''D''"
  obtain vars1 where
    a: "discriminator lib ?D data_inputs cfg is_training noise1 vars = Inr (real_score, vars1)"
    and b: "discriminator lib (reuse_variables ?D) generated cfg is_training noise2 vars1 = Inr (fake_score, vars2)"
    using assms unfolding discriminators_def by (auto split: sum.splits)
  have eq: "vars2 = vars1"
    by (rule discriminator_read_only[OF _ b]) simp
  have c: "discriminator lib (reuse_variables ?D) data_inputs cfg is_training noise1 vars1 = Inr (real_score, vars1)"
    using discriminator_replay[OF a map_le_refl] by simp
  have r: "reuse (reuse_variables ?D)" by simp
  have b': "discriminator (lib\<lparr>draw := d\<rparr>) (reuse_variables ?D) generated cfg is_training noise2 vars1 =
              Inr (fake_score, vars1)"
    unfolding discriminator_reuse_draw[OF r] using b eq by simp
  have c': "discriminator (lib\<lparr>draw := d\<rparr>) (reuse_variables ?D) data_inputs cfg is_training noise1 vars1 =
              Inr (real_score, vars1)"
    unfolding discriminator_reuse_draw[OF r] by (rule c)
  have e: "\<exists>e. discriminator lib ?D generated cfg is_training noise2 vars1 = Inl e" if "\<not> reuse cur"
  proof (rule second_invocation_needs_reuse[OF _ a])
    show "\<not> reuse ?D" using that by simp
  qed
  have f: "fake_score = real_score"
    if "generated = data_inputs" "\<not> (is_training \<and> keep_prob cfg < 1) \<or> noise2 = noise1"
  proof -
    have "discriminator lib (reuse_variables ?D) generated cfg is_training noise2 vars1 =
          discriminator lib (reuse_variables ?D) data_inputs cfg is_training noise1 vars1"
      using that discriminator_without_dropout[of is_training cfg lib "reuse_variables ?D" data_inputs noise2 vars1 noise1]
      by blast
    then show ?thesis using b c by simp
  qed
  show ?thesis using a b' c' e f unfolding eq by blast
qed

theorem discriminator_shares_parameters_witness:
  "\<not> reuse model_scope \<and>
   (\<exists>vars2. discriminators example_library model_scope example_config False
             example_data example_data () () Map.empty =
               Inr ((Finite ((sigmoid 4 + 1/2) / 2), Finite ((sigmoid 4 + 1/2) / 2)), vars2) \<and>
           discriminator (example_library\<lparr>draw := zero_draw\<rparr>)
             (reuse_variables (variable_scope model_scope ''D''))
             example_data example_config False () vars2 = Inr (Finite ((sigmoid 4 + 1/2) / 2), vars2) \<and>
           (\<exists>e. discriminator example_library (variable_scope model_scope ''D'')
             example_data example_config False () vars2 = Inl e)) \<and>
   (\<exists>vars'. discriminator (example_library\<lparr>draw := zero_draw\<rparr>) (variable_scope model_scope ''D'')
             example_data example_config False () Map.empty = Inr (Finite (1/2), vars')) \<and>
   Finite ((sigmoid 4 + 1/2) / 2) \<noteq> Finite (1/2)"
proof -
  have n: "\<not> reuse model_scope" by (simp add: model_scope_def)
  obtain vars2 where e: "discriminators example_library model_scope example_config False
             example_data example_data () () Map.empty =
               Inr ((Finite ((sigmoid 4 + 1/2) / 2), Finite ((sigmoid 4 + 1/2) / 2)), vars2)"
    using example_scores by blast
  from n e discriminator_shares_parameters[OF e, of zero_draw] fresh_zero_scores example_score_not_half
  show ?thesis by blast
qed

end
